theory Spec2Isabelle
  imports Main
begin

section \<open>JavaScript strings\<close>

text \<open>
  Strings are character lists. The helpers below are the methods of
  \<^verbatim>\<open>String.prototype\<close> that the program calls, restricted to the
  non-negative indices it passes.
\<close>

definition startsWith :: "string \<Rightarrow> string \<Rightarrow> bool" where
  "startsWith s p = (take (length p) s = p)"

fun includesStr :: "string \<Rightarrow> string \<Rightarrow> bool" where
  "includesStr [] sub = (sub = [])"
| "includesStr (c # cs) sub = (startsWith (c # cs) sub \<or> includesStr cs sub)"

definition indexOf :: "string \<Rightarrow> char \<Rightarrow> int" where
  "indexOf s c = (if c \<in> set s then int (length (takeWhile (\<lambda>x. x \<noteq> c) s)) else - 1)"

definition slice :: "string \<Rightarrow> nat \<Rightarrow> nat \<Rightarrow> string" where
  "slice s b e = take (e - b) (drop b s)"

definition sliceFrom :: "string \<Rightarrow> nat \<Rightarrow> string" where
  "sliceFrom s b = drop b s"

definition endsWith :: "string \<Rightarrow> string \<Rightarrow> bool" where
  "endsWith s p = (drop (length s - length p) s = p \<and> length p \<le> length s)"

text \<open>Letter case is mapped on the ASCII letters; other characters are left as they are.\<close>

definition lowerChar :: "char \<Rightarrow> char" where
  "lowerChar c = (let n = (of_char c :: nat) in if 65 \<le> n \<and> n \<le> 90 then char_of (n + 32) else c)"

definition upperChar :: "char \<Rightarrow> char" where
  "upperChar c = (let n = (of_char c :: nat) in if 97 \<le> n \<and> n \<le> 122 then char_of (n - 32) else c)"

definition toLowerCase :: "string \<Rightarrow> string" where
  "toLowerCase s = map lowerChar s"

definition toUpperCase :: "string \<Rightarrow> string" where
  "toUpperCase s = map upperChar s"

definition padStart :: "string \<Rightarrow> nat \<Rightarrow> char \<Rightarrow> string" where
  "padStart s n c = replicate (n - length s) c @ s"

fun joinStr :: "string \<Rightarrow> string list \<Rightarrow> string" where
  "joinStr sep [] = []"
| "joinStr sep [x] = x"
| "joinStr sep (x # y # ys) = x @ sep @ joinStr sep (y # ys)"

fun splitLoop :: "char \<Rightarrow> string \<Rightarrow> string \<Rightarrow> string list" where
  "splitLoop sep cur [] = [rev cur]"
| "splitLoop sep cur (c # cs) =
     (if c = sep then rev cur # splitLoop sep [] cs else splitLoop sep (c # cur) cs)"

definition splitStr :: "string \<Rightarrow> char \<Rightarrow> string list" where
  "splitStr s sep = splitLoop sep [] s"

section \<open>JavaScript numbers\<close>

text \<open>
  A number is a double. \<open>Num i\<close> is the double nearest to the integer \<open>i\<close>: status
  codes, counts, ports and millisecond time values are such numbers, and a double is
  exact on the integers up to \<open>2 ^ 53\<close>, which include every valid time value.
  \<open>Dec m e\<close> is the double nearest to \<open>m * 10 ^ e\<close>, as \<^verbatim>\<open>JSON.parse\<close> reads a
  number with a fraction or an exponent. The remaining values are the two infinities
  and \<^verbatim>\<open>NaN\<close>.
\<close>

datatype jsnum = Num int | Dec int int | PosInf | NegInf | NaN

definition isDigit :: "char \<Rightarrow> bool" where
  "isDigit c = (c \<in> set ''0123456789'')"

definition digitVal :: "char \<Rightarrow> int" where
  "digitVal c = of_char c - 48"

definition digitChar :: "nat \<Rightarrow> char" where
  "digitChar n = ''0123456789'' ! n"

definition digitsVal :: "string \<Rightarrow> int" where
  "digitsVal ds = foldl (\<lambda>acc c. 10 * acc + digitVal c) 0 ds"

text \<open>The decimal digits of a non-negative integer.\<close>

function showDec :: "int \<Rightarrow> string" where
  "showDec n =
     (if n < 10 then [digitChar (nat n)] else showDec (n div 10) @ [digitChar (nat (n mod 10))])"
  by pat_completeness auto
termination
  by (relation "measure nat") auto

declare showDec.simps [simp del]

definition showInt :: "int \<Rightarrow> string" where
  "showInt i = (if i < 0 then CHR ''-'' # showDec (- i) else showDec i)"

text \<open>
  \<^verbatim>\<open>Number.prototype.toString\<close>. An integer below \<open>2 ^ 53\<close> is written with its
  digits. Any other number is first rounded to the nearest double (a tie to the even
  mantissa; beyond the largest double to infinity, below the smallest to zero), and
  the double is written with the fewest digits that read back as the same double.
  With \<open>k\<close> such digits and the decimal point after the \<open>n\<close>-th of them: plain
  digits when \<open>k \<le> n \<le> 21\<close>, a decimal point inside them when \<open>0 < n \<le> 21\<close>,
  leading zeros when \<open>-6 < n \<le> 0\<close>, and the exponent form otherwise.
\<close>

function powInt :: "int \<Rightarrow> int \<Rightarrow> int" where
  "powInt b e =
     (if e \<le> 0 then 1
      else if even e then powInt (b * b) (e div 2)
      else b * powInt (b * b) (e div 2))"
  by pat_completeness auto
termination
  by (relation "measure (\<lambda>(b, e). nat e)") auto

declare powInt.simps [simp del]

function bitLength :: "int \<Rightarrow> int" where
  "bitLength n = (if n \<le> 0 then 0 else 1 + bitLength (n div 2))"
  by pat_completeness auto
termination
  by (relation "measure nat") auto

declare bitLength.simps [simp del]

text \<open>
  A positive rational is a pair of a numerator and a denominator. \<open>scale b m e\<close> is
  \<open>m * b ^ e\<close>, \<open>atLeastPower b x k\<close> is \<open>b ^ k \<le> x\<close>, and the two logarithms
  are rounded down.
\<close>

definition scale :: "int \<Rightarrow> int \<Rightarrow> int \<Rightarrow> int \<times> int" where
  "scale b m e = (if 0 \<le> e then (m * powInt b e, 1) else (m, powInt b (- e)))"

definition atLeastPower :: "int \<Rightarrow> int \<times> int \<Rightarrow> int \<Rightarrow> bool" where
  "atLeastPower b x k =
     (if 0 \<le> k then snd x * powInt b k \<le> fst x else snd x \<le> fst x * powInt b (- k))"

definition floorLog2 :: "int \<times> int \<Rightarrow> int" where
  "floorLog2 x =
     (if atLeastPower 2 x (bitLength (fst x) - bitLength (snd x))
      then bitLength (fst x) - bitLength (snd x)
      else bitLength (fst x) - bitLength (snd x) - 1)"

definition digitCount :: "int \<Rightarrow> int" where
  "digitCount n = int (length (showDec n))"

definition floorLog10 :: "int \<times> int \<Rightarrow> int" where
  "floorLog10 x =
     (if atLeastPower 10 x (digitCount (fst x) - digitCount (snd x))
      then digitCount (fst x) - digitCount (snd x)
      else digitCount (fst x) - digitCount (snd x) - 1)"

text \<open>\<open>n / d\<close> rounded to the nearest integer, a tie to the even one.\<close>

definition roundHalfEven :: "int \<Rightarrow> int \<Rightarrow> int" where
  "roundHalfEven n d =
     (if d < 2 * (n mod d) \<or> (2 * (n mod d) = d \<and> odd (n div d)) then n div d + 1
      else n div d)"

text \<open>
  A double is a mantissa \<open>q\<close> below \<open>2 ^ 53\<close> with a binary exponent \<open>sh\<close> from
  \<open>-1074\<close> on, the number \<open>q * 2 ^ sh\<close>; \<open>toDouble\<close> rounds a positive rational to
  it, and \<open>None\<close> is infinity.
\<close>

definition roundScaled :: "int \<times> int \<Rightarrow> int \<Rightarrow> int" where
  "roundScaled x sh =
     (if sh < 0 then roundHalfEven (fst x * powInt 2 (- sh)) (snd x)
      else roundHalfEven (fst x) (snd x * powInt 2 sh))"

definition doubleShift :: "int \<times> int \<Rightarrow> int" where
  "doubleShift x = max (floorLog2 x - 52) (- 1074)"

definition finiteDouble :: "int \<Rightarrow> int \<Rightarrow> (int \<times> int) option" where
  "finiteDouble q sh = (if 4503599627370496 \<le> q \<and> 971 < sh then None else Some (q, sh))"

definition toDouble :: "int \<times> int \<Rightarrow> (int \<times> int) option" where
  "toDouble x =
     (if roundScaled x (doubleShift x) = 9007199254740992
      then finiteDouble 4503599627370496 (doubleShift x + 1)
      else finiteDouble (roundScaled x (doubleShift x)) (doubleShift x))"

text \<open>
  The digits of a double \<open>d\<close>, whose value is the rational \<open>x\<close>: \<open>readsBack d s e\<close>
  says that \<open>s * 10 ^ e\<close> rounds to \<open>d\<close>; \<open>pickDigits\<close> tries the two neighbours of
  \<open>x\<close> among the multiples of \<open>10 ^ e\<close> and prefers the closer one; \<open>shortestFrom\<close>
  tries 1, 2, ... digits, and 17 always suffice.
\<close>

definition floorScaled :: "int \<times> int \<Rightarrow> int \<Rightarrow> int" where
  "floorScaled x e =
     (if 0 \<le> e then fst x div (snd x * powInt 10 e) else (fst x * powInt 10 (- e)) div snd x)"

definition readsBack :: "int \<times> int \<Rightarrow> int \<Rightarrow> int \<Rightarrow> bool" where
  "readsBack d s e = (0 < s \<and> toDouble (scale 10 s e) = Some d)"

text \<open>Twice \<open>x\<close> compared with the sum of the two neighbours: -1, 0 or 1.\<close>

definition nearerNeighbour :: "int \<times> int \<Rightarrow> int \<Rightarrow> int \<Rightarrow> int" where
  "nearerNeighbour x lo e =
     sgn (2 * fst x * snd (scale 10 (2 * lo + 1) e) - fst (scale 10 (2 * lo + 1) e) * snd x)"

definition pickDigits :: "int \<times> int \<Rightarrow> int \<times> int \<Rightarrow> int \<Rightarrow> int \<Rightarrow> (int \<times> int) option" where
  "pickDigits d x lo e =
     (if readsBack d lo e \<and> readsBack d (lo + 1) e
      then (if nearerNeighbour x lo e < 0 then Some (lo, e)
            else if 0 < nearerNeighbour x lo e then Some (lo + 1, e)
            else if even lo then Some (lo, e) else Some (lo + 1, e))
      else if readsBack d lo e then Some (lo, e)
      else if readsBack d (lo + 1) e then Some (lo + 1, e)
      else None)"

fun shortestFrom :: "nat \<Rightarrow> int \<times> int \<Rightarrow> int \<times> int \<Rightarrow> int \<Rightarrow> int \<times> int" where
  "shortestFrom 0 d x e = (floorScaled x e, e)"
| "shortestFrom (Suc fuel) d x e =
     (case pickDigits d x (floorScaled x e) e of
        Some r \<Rightarrow> r
      | None \<Rightarrow> shortestFrom fuel d x (e - 1))"

definition shortestDigits :: "int \<times> int \<Rightarrow> int \<times> int" where
  "shortestDigits d =
     shortestFrom 17 d (scale 2 (fst d) (snd d)) (floorLog10 (scale 2 (fst d) (snd d)))"

function stripZeros :: "int \<Rightarrow> int \<Rightarrow> int \<times> int" where
  "stripZeros m e =
     (if m \<noteq> 0 \<and> m mod 10 = 0 then stripZeros (m div 10) (e + 1) else (m, e))"
  by pat_completeness auto
termination
  by (relation "measure (\<lambda>(m, e). nat \<bar>m\<bar>)") auto

declare stripZeros.simps [simp del]

definition decimalText :: "string \<Rightarrow> int \<Rightarrow> string" where
  "decimalText ds n =
     (if int (length ds) \<le> n \<and> n \<le> 21
      then ds @ replicate (nat (n - int (length ds))) (CHR ''0'')
      else if 0 < n \<and> n \<le> 21 then take (nat n) ds @ ''.'' @ drop (nat n) ds
      else if - 6 < n \<and> n \<le> 0 then ''0.'' @ replicate (nat (- n)) (CHR ''0'') @ ds
      else take 1 ds @ (if length ds = 1 then [] else ''.'' @ drop 1 ds) @ ''e''
           @ (if n - 1 < 0 then ''-'' else ''+'') @ showDec \<bar>n - 1\<bar>)"

definition mantissaText :: "int \<times> int \<Rightarrow> string" where
  "mantissaText me =
     decimalText (showDec (fst me)) (int (length (showDec (fst me))) + snd me)"

definition doubleText :: "int \<times> int \<Rightarrow> string" where
  "doubleText d = mantissaText (stripZeros (fst (shortestDigits d)) (snd (shortestDigits d)))"

text \<open>The double of \<open>m * 10 ^ e\<close> is zero, is finite.\<close>

definition isZeroDecimal :: "int \<Rightarrow> int \<Rightarrow> bool" where
  "isZeroDecimal m e =
     (case toDouble (scale 10 \<bar>m\<bar> e) of None \<Rightarrow> False | Some d \<Rightarrow> fst d = 0)"

definition isFiniteDecimal :: "int \<Rightarrow> int \<Rightarrow> bool" where
  "isFiniteDecimal m e = (toDouble (scale 10 \<bar>m\<bar> e) \<noteq> None)"

definition showDecimal :: "int \<Rightarrow> int \<Rightarrow> string" where
  "showDecimal m e =
     (case toDouble (scale 10 \<bar>m\<bar> e) of
        None \<Rightarrow> (if m < 0 then ''-Infinity'' else ''Infinity'')
      | Some d \<Rightarrow>
          if fst d = 0 then ''0'' else (if m < 0 then ''-'' else []) @ doubleText d)"

definition showNum :: "jsnum \<Rightarrow> string" where
  "showNum x =
     (case x of
        Num i \<Rightarrow> if \<bar>i\<bar> < 9007199254740992 then showInt i else showDecimal i 0
      | Dec m e \<Rightarrow> showDecimal m e
      | PosInf \<Rightarrow> ''Infinity''
      | NegInf \<Rightarrow> ''-Infinity''
      | NaN \<Rightarrow> ''NaN'')"

text \<open>A number that is neither infinite nor \<^verbatim>\<open>NaN\<close>.\<close>

definition isFiniteNum :: "jsnum \<Rightarrow> bool" where
  "isFiniteNum x =
     (case x of
        Num i \<Rightarrow> \<bar>i\<bar> < 9007199254740992 \<or> isFiniteDecimal i 0
      | Dec m e \<Rightarrow> isFiniteDecimal m e
      | PosInf \<Rightarrow> False
      | NegInf \<Rightarrow> False
      | NaN \<Rightarrow> False)"

definition isWhiteSpace :: "char \<Rightarrow> bool" where
  "isWhiteSpace c = (of_char c \<in> {9, 10, 11, 12, 13, 32, 160 :: nat})"

text \<open>\<^verbatim>\<open>parseInt(s, 10)\<close>: leading white space, an optional sign, the longest run of digits.\<close>

definition parseInt :: "string \<Rightarrow> jsnum" where
  "parseInt s =
     (let t = dropWhile isWhiteSpace s;
          neg = (t \<noteq> [] \<and> hd t = CHR ''-'');
          u = (if t \<noteq> [] \<and> (hd t = CHR ''-'' \<or> hd t = CHR ''+'') then tl t else t);
          ds = takeWhile isDigit u
      in if ds = [] then NaN
         else Num (if neg then - digitsVal ds else digitsVal ds))"

section \<open>JavaScript values\<close>

text \<open>
  The values that \<^verbatim>\<open>JSON.parse\<close> returns and that object literals build, with
  \<^verbatim>\<open>undefined\<close>. An object is the list of its own properties in insertion order,
  each key once.
\<close>

datatype jsvalue =
    JUndefined
  | JNull
  | JBool bool
  | JNumber jsnum
  | JStr string
  | JArr "jsvalue list"
  | JObj "(string \<times> jsvalue) list"

fun truthy :: "jsvalue \<Rightarrow> bool" where
  "truthy JUndefined = False"
| "truthy JNull = False"
| "truthy (JBool b) = b"
| "truthy (JNumber (Num i)) = (i \<noteq> 0)"
| "truthy (JNumber (Dec m e)) = (\<not> isZeroDecimal m e)"
| "truthy (JNumber PosInf) = True"
| "truthy (JNumber NegInf) = True"
| "truthy (JNumber NaN) = False"
| "truthy (JStr s) = (s \<noteq> [])"
| "truthy (JArr xs) = True"
| "truthy (JObj kvs) = True"

text \<open>\<^verbatim>\<open>a || b\<close> and \<^verbatim>\<open>a ?? b\<close> on values.\<close>

definition orJS :: "jsvalue \<Rightarrow> jsvalue \<Rightarrow> jsvalue" where
  "orJS a b = (if truthy a then a else b)"

definition nullish :: "jsvalue \<Rightarrow> bool" where
  "nullish v = (v = JUndefined \<or> v = JNull)"

text \<open>
  Reading a property \<^verbatim>\<open>v.k\<close> of a value that is neither \<^verbatim>\<open>null\<close> nor
  \<^verbatim>\<open>undefined\<close>. None of the names the program reads this way is a built-in
  property of a string, number, boolean or array, or inherited from
  \<^verbatim>\<open>Object.prototype\<close>, so only own properties of objects are found.
\<close>

fun getProp :: "jsvalue \<Rightarrow> string \<Rightarrow> jsvalue" where
  "getProp (JObj kvs) k = (case map_of kvs k of Some v \<Rightarrow> v | None \<Rightarrow> JUndefined)"
| "getProp v k = JUndefined"

text \<open>The truthiness of an optional string (\<^verbatim>\<open>string | undefined\<close>).\<close>

definition truthyStr :: "string option \<Rightarrow> bool" where
  "truthyStr s = (case s of None \<Rightarrow> False | Some t \<Rightarrow> t \<noteq> [])"

text \<open>String coercion, as a template literal applies it.\<close>

fun jsToString :: "jsvalue \<Rightarrow> string" where
  "jsToString JUndefined = ''undefined''"
| "jsToString JNull = ''null''"
| "jsToString (JBool b) = (if b then ''true'' else ''false'')"
| "jsToString (JNumber x) = showNum x"
| "jsToString (JStr s) = s"
| "jsToString (JArr xs) =
     joinStr '','' (map (\<lambda>v. if v = JUndefined \<or> v = JNull then [] else jsToString v) xs)"
| "jsToString (JObj kvs) = ''[object Object]''"

subsection \<open>JSON.stringify\<close>

definition hexDigit :: "nat \<Rightarrow> char" where
  "hexDigit n = ''0123456789abcdef'' ! n"

definition quoteChar :: "char \<Rightarrow> string" where
  "quoteChar c =
     (let n = (of_char c :: nat) in
      if n = 8 then [CHR 0x5C, CHR ''b'']
      else if n = 9 then [CHR 0x5C, CHR ''t'']
      else if n = 10 then [CHR 0x5C, CHR ''n'']
      else if n = 12 then [CHR 0x5C, CHR ''f'']
      else if n = 13 then [CHR 0x5C, CHR ''r'']
      else if n = 34 then [CHR 0x5C, CHR 0x22]
      else if n = 92 then [CHR 0x5C, CHR 0x5C]
      else if n < 32 then [CHR 0x5C, CHR ''u'', CHR ''0'', CHR ''0'', hexDigit (n div 16), hexDigit (n mod 16)]
      else [c])"

definition quoteJSON :: "string \<Rightarrow> string" where
  "quoteJSON s = CHR 0x22 # concat (map quoteChar s) @ [CHR 0x22]"

text \<open>
  \<^verbatim>\<open>JSON.stringify(value, null, gap)\<close> with \<open>ind\<close> the current indentation;
  \<open>None\<close> is the result \<^verbatim>\<open>undefined\<close>. An empty \<open>gap\<close> gives the compact form.
  A finite number is written as \<open>showNum\<close> writes it, any other as \<^verbatim>\<open>null\<close>.
\<close>

fun stringifyAt :: "string \<Rightarrow> string \<Rightarrow> jsvalue \<Rightarrow> string option" where
  "stringifyAt gap ind JUndefined = None"
| "stringifyAt gap ind JNull = Some ''null''"
| "stringifyAt gap ind (JBool b) = Some (if b then ''true'' else ''false'')"
| "stringifyAt gap ind (JNumber x) = Some (if isFiniteNum x then showNum x else ''null'')"
| "stringifyAt gap ind (JStr s) = Some (quoteJSON s)"
| "stringifyAt gap ind (JArr xs) =
     (let inner = ind @ gap;
          parts = map (\<lambda>v. case stringifyAt gap inner v of None \<Rightarrow> ''null'' | Some t \<Rightarrow> t) xs
      in if parts = [] then Some ''[]''
         else if gap = [] then Some (''['' @ joinStr '','' parts @ '']'')
         else Some (''['' @ [CHR 0x0A] @ inner @ joinStr ('','' @ [CHR 0x0A] @ inner) parts
                    @ [CHR 0x0A] @ ind @ '']''))"
| "stringifyAt gap ind (JObj kvs) =
     (let inner = ind @ gap;
          parts = concat (map (\<lambda>(k, v). case stringifyAt gap inner v of
                     None \<Rightarrow> []
                   | Some t \<Rightarrow> [quoteJSON k @ '':'' @ (if gap = [] then [] else '' '') @ t]) kvs)
      in if parts = [] then Some ''{}''
         else if gap = [] then Some (''{'' @ joinStr '','' parts @ ''}'')
         else Some (''{'' @ [CHR 0x0A] @ inner @ joinStr ('','' @ [CHR 0x0A] @ inner) parts
                    @ [CHR 0x0A] @ ind @ ''}''))"

definition stringify :: "jsvalue \<Rightarrow> string option" where
  "stringify v = stringifyAt [] [] v"

definition stringify2 :: "jsvalue \<Rightarrow> string option" where
  "stringify2 v = stringifyAt ''  '' [] v"

text \<open>What a template literal or \<^verbatim>\<open>console.log\<close> shows for the result of a stringify call.\<close>

definition shown :: "string option \<Rightarrow> string" where
  "shown r = (case r of None \<Rightarrow> ''undefined'' | Some t \<Rightarrow> t)"

section \<open>Errors, effects and the platform\<close>

text \<open>
  \<open>Error m\<close> is \<^verbatim>\<open>new Error(m)\<close>, raised by the program itself. The other three
  are raised by the engine: reading a property of \<^verbatim>\<open>null\<close> or \<^verbatim>\<open>undefined\<close>
  or calling a missing method (\<open>TypeError\<close>), \<^verbatim>\<open>toISOString\<close> on an invalid date
  (\<open>RangeError\<close>), \<^verbatim>\<open>JSON.parse\<close> on malformed text (\<open>SyntaxError\<close>).
\<close>

datatype error = Error string | TypeError | RangeError | SyntaxError

record request =
  reqUrl :: string
  reqMethod :: string
  reqHeaders :: "(string \<times> string) list"
  reqBody :: "string option"

record response =
  respStatus :: int
  respBody :: string

datatype fetch_outcome = Rejected error | Responded response

datatype effect =
    ConsoleLog string
  | ConsoleError string
  | WriteFile string string
  | HttpFetch request

text \<open>
  What the program takes from its surroundings: the environment variables, the clock,
  the network, the file system, and the library functions whose results depend on the
  locale, on floating point or on a grammar that is not part of the program. The clock
  is read at four places, and \<open>now i\<close> is the value read at place \<open>i\<close>: 0 and 1 for
  the two calls of \<open>parseTime\<close> in \<open>cancelRuns\<close> (0 also for the fetch time that
  \<open>listEvents\<close> falls back to), 2 in \<open>formatRelativeTime\<close>, 3 in \<open>calculateDuration\<close>.
  \<open>dateParse\<close> is the time value of \<^verbatim>\<open>new Date(s)\<close> for a string (\<open>None\<close> when the
  date is invalid), \<open>localeTime\<close> is \<^verbatim>\<open>toLocaleTimeString("en-US", {hour12: false})\<close>,
  \<open>toFixed2 a b\<close> is \<^verbatim>\<open>(a / b).toFixed(2)\<close>, \<open>formEncode\<close> is the encoding of a value
  by \<^verbatim>\<open>URLSearchParams\<close>, and \<open>engineMessage\<close> is the message of an error that the
  engine raises. \<open>writeFile path content\<close> is the outcome of \<^verbatim>\<open>Bun.write\<close>: \<open>None\<close>
  when the file is written, else the error that the promise is rejected with.
  \<open>stringToNumber\<close> is the number that a string converts to in a comparison.
\<close>

record platform =
  env :: "string \<Rightarrow> string option"
  now :: "nat \<Rightarrow> int"
  fetch :: "request \<Rightarrow> fetch_outcome"
  readFile :: "string \<Rightarrow> string option"
  jsonParse :: "string \<Rightarrow> jsvalue option"
  dateParse :: "string \<Rightarrow> int option"
  localeTime :: "int option \<Rightarrow> string"
  toFixed2 :: "int \<Rightarrow> int \<Rightarrow> string"
  formEncode :: "string \<Rightarrow> string"
  engineMessage :: "error \<Rightarrow> string"
  writeFile :: "string \<Rightarrow> string \<Rightarrow> error option"
  stringToNumber :: "string \<Rightarrow> jsnum"

type_synonym 'a io = "effect list \<times> (error + 'a)"

definition pureIO :: "'a \<Rightarrow> 'a io" where
  "pureIO a = ([], Inr a)"

definition throwIO :: "error \<Rightarrow> 'a io" where
  "throwIO e = ([], Inl e)"

definition bindIO :: "'a io \<Rightarrow> ('a \<Rightarrow> 'b io) \<Rightarrow> 'b io" where
  "bindIO m f =
     (case m of
        (es, Inl e) \<Rightarrow> (es, Inl e)
      | (es, Inr a) \<Rightarrow> (case f a of (es', r) \<Rightarrow> (es @ es', r)))"

definition liftE :: "error + 'a \<Rightarrow> 'a io" where
  "liftE r = ([], r)"

fun mapE :: "('a \<Rightarrow> error + 'b) \<Rightarrow> 'a list \<Rightarrow> error + 'b list" where
  "mapE f [] = Inr []"
| "mapE f (x # xs) =
     (case f x of
        Inl e \<Rightarrow> Inl e
      | Inr y \<Rightarrow> (case mapE f xs of Inl e \<Rightarrow> Inl e | Inr ys \<Rightarrow> Inr (y # ys)))"

text \<open>\<^verbatim>\<open>raw.map(f)\<close>: only an array has the method.\<close>

definition arrayMap :: "jsvalue \<Rightarrow> (jsvalue \<Rightarrow> error + jsvalue) \<Rightarrow> error + jsvalue" where
  "arrayMap raw f =
     (case raw of
        JArr xs \<Rightarrow> (case mapE f xs of Inl e \<Rightarrow> Inl e | Inr ys \<Rightarrow> Inr (JArr ys))
      | _ \<Rightarrow> Inl TypeError)"

section \<open>Dates\<close>

text \<open>
  A \<^verbatim>\<open>Date\<close> holds a time value in milliseconds since the epoch, or is invalid
  (\<open>None\<close>). A time value is valid up to \<open>8.64 * 10 ^ 15\<close> in size.
\<close>

definition timeClip :: "int \<Rightarrow> int option" where
  "timeClip t = (if \<bar>t\<bar> \<le> 8640000000000000 then Some t else None)"

text \<open>
  The time value of a number: its integer part (the fraction is dropped towards zero)
  when that is a valid time value.
\<close>

definition integerPart :: "int \<Rightarrow> int \<Rightarrow> int" where
  "integerPart m e =
     (if 0 \<le> e then m * powInt 10 e
      else if 0 \<le> m then m div powInt 10 (- e)
      else - ((- m) div powInt 10 (- e)))"

definition timeOfNumber :: "jsnum \<Rightarrow> int option" where
  "timeOfNumber x =
     (case x of
        Num n \<Rightarrow> timeClip n
      | Dec m e \<Rightarrow> timeClip (integerPart m e)
      | _ \<Rightarrow> None)"

definition newDate :: "platform \<Rightarrow> jsvalue \<Rightarrow> int option" where
  "newDate W v =
     (case v of
        JNumber x \<Rightarrow> timeOfNumber x
      | JStr s \<Rightarrow> dateParse W s
      | JNull \<Rightarrow> Some 0
      | JBool b \<Rightarrow> Some (if b then 1 else 0)
      | JUndefined \<Rightarrow> None
      | _ \<Rightarrow> dateParse W (jsToString v))"

definition pad :: "nat \<Rightarrow> int \<Rightarrow> string" where
  "pad w n = padStart (showDec n) w (CHR ''0'')"

text \<open>
  The proleptic Gregorian date of a day number (days since 1970-01-01), computed
  through the day of the 400-year era, the year of the era and the day of the year
  counted from the first of March.
\<close>

definition dayOfEra :: "int \<Rightarrow> int" where
  "dayOfEra z = z mod 146097"

definition yearOfEra :: "int \<Rightarrow> int" where
  "yearOfEra doe = (doe - doe div 1460 + doe div 36524 - doe div 146096) div 365"

definition dayOfYear :: "int \<Rightarrow> int \<Rightarrow> int" where
  "dayOfYear doe yoe = doe - (365 * yoe + yoe div 4 - yoe div 100)"

definition monthIndex :: "int \<Rightarrow> int" where
  "monthIndex doy = (5 * doy + 2) div 153"

definition monthOf :: "int \<Rightarrow> int" where
  "monthOf mp = (if mp < 10 then mp + 3 else mp - 9)"

definition dayOfMonth :: "int \<Rightarrow> int" where
  "dayOfMonth doy = doy - (153 * monthIndex doy + 2) div 5 + 1"

definition marchYear :: "int \<Rightarrow> int" where
  "marchYear z = yearOfEra (dayOfEra z) + (z div 146097) * 400"

definition civilMonth :: "int \<Rightarrow> int" where
  "civilMonth days =
     monthOf (monthIndex (dayOfYear (dayOfEra (days + 719468))
                                    (yearOfEra (dayOfEra (days + 719468)))))"

definition civilDay :: "int \<Rightarrow> int" where
  "civilDay days =
     dayOfMonth (dayOfYear (dayOfEra (days + 719468)) (yearOfEra (dayOfEra (days + 719468))))"

definition civilYear :: "int \<Rightarrow> int" where
  "civilYear days =
     (if civilMonth days \<le> 2 then marchYear (days + 719468) + 1 else marchYear (days + 719468))"

definition isoYear :: "int \<Rightarrow> string" where
  "isoYear y =
     (if 0 \<le> y \<and> y \<le> 9999 then pad 4 y
      else if y < 0 then CHR ''-'' # pad 6 (- y)
      else CHR ''+'' # pad 6 y)"

definition isoDate :: "int \<Rightarrow> string" where
  "isoDate days =
     isoYear (civilYear days) @ ''-'' @ pad 2 (civilMonth days) @ ''-'' @ pad 2 (civilDay days)"

definition isoClock :: "int \<Rightarrow> string" where
  "isoClock ms =
     pad 2 (ms div 3600000) @ '':'' @ pad 2 (ms div 60000 mod 60) @ '':''
     @ pad 2 (ms div 1000 mod 60) @ ''.'' @ pad 3 (ms mod 1000)"

definition isoOfTime :: "int \<Rightarrow> string" where
  "isoOfTime t = isoDate (t div 86400000) @ ''T'' @ isoClock (t mod 86400000) @ ''Z''"

definition toISOString :: "int option \<Rightarrow> error + string" where
  "toISOString d = (case d of None \<Rightarrow> Inl RangeError | Some t \<Rightarrow> Inr (isoOfTime t))"

section \<open>The client (lib/client.ts)\<close>

record ClientConfig =
  baseUrl :: string
  signingKey :: "string option"
  eventKey :: "string option"
  clientDev :: bool

definition PROD_API_URL :: string where
  "PROD_API_URL = ''https://api.inngest.com''"

definition DEFAULT_DEV_PORT :: jsnum where
  "DEFAULT_DEV_PORT = Num 8288"

definition EVENT_GATEWAY_URL :: string where
  "EVENT_GATEWAY_URL = ''https://inn.gs''"

definition getDevUrl :: "platform \<Rightarrow> jsnum option \<Rightarrow> string" where
  "getDevUrl W port =
     (let envUrl = env W ''INNGEST_DEV_URL'' in
      if truthyStr envUrl
      then (if endsWith (the envUrl) ''/'' then butlast (the envUrl) else the envUrl)
      else (let actualPort = (case port of None \<Rightarrow> DEFAULT_DEV_PORT | Some p \<Rightarrow> p)
            in ''http://localhost:'' @ showNum actualPort))"

definition createClient :: "platform \<Rightarrow> bool \<Rightarrow> jsnum option \<Rightarrow> ClientConfig" where
  "createClient W dev port =
     \<lparr> baseUrl = (if dev then getDevUrl W port else PROD_API_URL),
       signingKey = env W ''INNGEST_SIGNING_KEY'',
       eventKey = env W ''INNGEST_EVENT_KEY'',
       clientDev = dev \<rparr>"

definition getEventGatewayUrl :: "platform \<Rightarrow> string \<Rightarrow> bool \<Rightarrow> jsnum option \<Rightarrow> string" where
  "getEventGatewayUrl W key dev port =
     (if dev then getDevUrl W port @ ''/e/'' @ key else EVENT_GATEWAY_URL @ ''/e/'' @ key)"

definition validateEventKey :: "string option \<Rightarrow> error + string" where
  "validateEventKey key =
     (if \<not> truthyStr key
      then Inl (Error ''INNGEST_EVENT_KEY environment variable is required for sending events'')
      else Inr (the key))"

definition responseOk :: "response \<Rightarrow> bool" where
  "responseOk r = (200 \<le> respStatus r \<and> respStatus r \<le> 299)"

text \<open>
  The message of a failed request: the \<^verbatim>\<open>error\<close> field of the body when the body
  parses and the field is truthy, else the body. Reading the field of a parsed
  \<^verbatim>\<open>null\<close> throws inside the \<^verbatim>\<open>try\<close> and lands in the \<^verbatim>\<open>catch\<close>.
\<close>

definition apiErrorMessage :: "platform \<Rightarrow> string \<Rightarrow> string" where
  "apiErrorMessage W errorBody =
     (case jsonParse W errorBody of
        None \<Rightarrow> errorBody
      | Some parsed \<Rightarrow>
          if nullish parsed then errorBody
          else (let e = getProp parsed ''error'' in
                if truthy e then jsToString e else errorBody))"

text \<open>The request that \<open>apiRequest\<close> passes to \<^verbatim>\<open>fetch\<close>.\<close>

definition requestOf :: "ClientConfig \<Rightarrow> string \<Rightarrow> string \<Rightarrow> jsvalue \<Rightarrow> request" where
  "requestOf client method path body =
     \<lparr> reqUrl = baseUrl client @ path,
       reqMethod = method,
       reqHeaders = [(''Content-Type'', ''application/json'')]
         @ (if truthyStr (signingKey client)
            then [(''Authorization'', ''Bearer '' @ the (signingKey client))] else []),
       reqBody = (if truthy body then stringify body else None) \<rparr>"

definition apiRequest :: "platform \<Rightarrow> ClientConfig \<Rightarrow> string \<Rightarrow> string \<Rightarrow> jsvalue \<Rightarrow> jsvalue io" where
  "apiRequest W client method path body =
     (if \<not> clientDev client \<and> \<not> truthyStr (signingKey client)
      then throwIO (Error ''INNGEST_SIGNING_KEY environment variable is required for API requests'')
      else (case fetch W (requestOf client method path body) of
              Rejected e \<Rightarrow> ([HttpFetch (requestOf client method path body)], Inl e)
            | Responded resp \<Rightarrow>
                if \<not> responseOk resp
                then ([HttpFetch (requestOf client method path body)],
                      Inl (Error (''API request failed ('' @ showInt (respStatus resp) @ ''): ''
                                  @ apiErrorMessage W (respBody resp))))
                else ([HttpFetch (requestOf client method path body)],
                      case jsonParse W (respBody resp) of
                        None \<Rightarrow> Inl SyntaxError
                      | Some v \<Rightarrow> Inr v)))"

section \<open>Runs (lib/runs.ts)\<close>

text \<open>
  Each operation returns the trace of its effects and either the error it throws or
  the object literal it builds. A property whose value is \<^verbatim>\<open>undefined\<close> is kept
  in the literal, as in the source.
\<close>

text \<open>The object literal that \<open>getRun\<close> returns for the raw run.\<close>

definition runStatusOf :: "jsvalue \<Rightarrow> jsvalue" where
  "runStatusOf raw =
     JObj [(''runId'', getProp raw ''run_id''),
           (''status'', getProp raw ''status''),
           (''functionId'', getProp raw ''function_id''),
           (''functionVersion'', getProp raw ''function_version''),
           (''eventId'', getProp raw ''event_id''),
           (''startedAt'', getProp raw ''run_started_at''),
           (''endedAt'', getProp raw ''ended_at''),
           (''output'', getProp raw ''output'')]"

definition getRun :: "platform \<Rightarrow> string \<Rightarrow> bool \<Rightarrow> jsnum option \<Rightarrow> jsvalue io" where
  "getRun W runId dev port =
     bindIO (apiRequest W (createClient W dev port) ''GET'' (''/v1/runs/'' @ runId) JUndefined)
       (\<lambda>response.
          if nullish response then throwIO TypeError
          else if \<not> truthy (getProp response ''data'')
          then throwIO (Error (''Run not found: '' @ runId))
          else pureIO (runStatusOf (getProp response ''data'')))"

text \<open>The callback of \<^verbatim>\<open>raw.map\<close> in \<open>normalizeJobs\<close>, for one raw job.\<close>

definition normalizeJob :: "jsvalue \<Rightarrow> error + jsvalue" where
  "normalizeJob job =
     (if nullish job then Inl TypeError
      else Inr (JObj
        [(''jobId'', orJS (orJS (getProp job ''job_id'') (getProp job ''jobId'')) (JStr [])),
         (''stepId'', orJS (orJS (getProp job ''step_id'') (getProp job ''stepId'')) (JStr [])),
         (''status'', getProp job ''status''),
         (''startedAt'', orJS (getProp job ''started_at'') (getProp job ''startedAt'')),
         (''endedAt'', orJS (getProp job ''ended_at'') (getProp job ''endedAt'')),
         (''output'', getProp job ''output''),
         (''error'', getProp job ''error'')]))"

definition normalizeJobs :: "jsvalue \<Rightarrow> error + jsvalue" where
  "normalizeJobs raw = arrayMap raw normalizeJob"

definition getRunJobs :: "platform \<Rightarrow> string \<Rightarrow> bool \<Rightarrow> jsnum option \<Rightarrow> jsvalue io" where
  "getRunJobs W runId dev port =
     bindIO (apiRequest W (createClient W dev port) ''GET'' (''/v1/runs/'' @ runId @ ''/jobs'')
               JUndefined)
       (\<lambda>response.
          if nullish response then throwIO TypeError
          else liftE (normalizeJobs (orJS (getProp response ''data'') (JArr []))))"

section \<open>Events (lib/events.ts)\<close>

definition sendEvent ::
  "platform \<Rightarrow> string \<Rightarrow> jsvalue \<Rightarrow> string option \<Rightarrow> string option \<Rightarrow> bool \<Rightarrow> jsnum option
     \<Rightarrow> jsvalue io" where
  "sendEvent W name data ident envName dev port =
     bindIO (liftE (if dev
                    then Inr (if truthyStr (eventKey (createClient W dev port))
                              then the (eventKey (createClient W dev port)) else ''test'')
                    else validateEventKey (eventKey (createClient W dev port))))
       (\<lambda>key.
          let req = \<lparr> reqUrl = getEventGatewayUrl W key dev port,
                      reqMethod = ''POST'',
                      reqHeaders = [(''Content-Type'', ''application/json'')]
                        @ (if truthyStr envName then [(''x-inngest-env'', the envName)] else []),
                      reqBody = stringify (JObj ([(''name'', JStr name), (''data'', data)]
                        @ (if truthyStr ident then [(''id'', JStr (the ident))] else []))) \<rparr>
          in case fetch W req of
               Rejected e \<Rightarrow> ([HttpFetch req], Inl e)
             | Responded resp \<Rightarrow>
                 if \<not> responseOk resp
                 then ([HttpFetch req],
                       Inl (Error (''Failed to send event ('' @ showInt (respStatus resp) @ ''): ''
                                   @ respBody resp)))
                 else ([HttpFetch req],
                       case jsonParse W (respBody resp) of
                         None \<Rightarrow> Inl SyntaxError
                       | Some result \<Rightarrow>
                           if nullish result then Inl TypeError
                           else Inr (JObj
                             [(''ids'', orJS (getProp result ''ids'') (JArr [])),
                              (''status'', JNumber (Num (respStatus resp)))])))"

text \<open>
  \<^verbatim>\<open>raw.received_at || raw.receivedAt || new Date(raw.ts || 0).toISOString()\<close>:
  the date is built only when both names are falsy.
\<close>

definition receivedAtOf :: "platform \<Rightarrow> jsvalue \<Rightarrow> error + jsvalue" where
  "receivedAtOf W raw =
     (if truthy (orJS (getProp raw ''received_at'') (getProp raw ''receivedAt''))
      then Inr (orJS (getProp raw ''received_at'') (getProp raw ''receivedAt''))
      else (case toISOString (newDate W (orJS (getProp raw ''ts'') (JNumber (Num 0)))) of
              Inl e \<Rightarrow> Inl e
            | Inr t \<Rightarrow> Inr (JStr t)))"

text \<open>
  The object literal of \<open>getEvent\<close> and of the callback in \<open>normalizeEventList\<close>, for
  one raw event; its first property read throws on a raw event that is \<^verbatim>\<open>null\<close> or
  \<^verbatim>\<open>undefined\<close>.
\<close>

definition normalizeEvent :: "platform \<Rightarrow> jsvalue \<Rightarrow> error + jsvalue" where
  "normalizeEvent W raw =
     (if nullish raw then Inl TypeError
      else (case receivedAtOf W raw of
              Inl e \<Rightarrow> Inl e
            | Inr r \<Rightarrow> Inr (JObj
                [(''id'', getProp raw ''id''),
                 (''name'', getProp raw ''name''),
                 (''receivedAt'', r),
                 (''data'', getProp raw ''data''),
                 (''user'', getProp raw ''user'')])))"

definition getEvent :: "platform \<Rightarrow> string \<Rightarrow> bool \<Rightarrow> jsnum option \<Rightarrow> jsvalue io" where
  "getEvent W eventId dev port =
     bindIO (apiRequest W (createClient W dev port) ''GET'' (''/v1/events/'' @ eventId) JUndefined)
       (\<lambda>response.
          if nullish response then throwIO TypeError
          else liftE (normalizeEvent W (getProp response ''data'')))"

definition normalizeEventList :: "platform \<Rightarrow> jsvalue \<Rightarrow> error + jsvalue" where
  "normalizeEventList W raw = arrayMap raw (normalizeEvent W)"

text \<open>The callback of \<^verbatim>\<open>raw.map\<close> in \<open>normalizeEventRuns\<close>, for one raw run.\<close>

definition normalizeEventRun :: "jsvalue \<Rightarrow> error + jsvalue" where
  "normalizeEventRun run =
     (if nullish run then Inl TypeError
      else Inr (JObj
        [(''runId'', orJS (orJS (getProp run ''run_id'') (getProp run ''runId'')) (JStr [])),
         (''status'', getProp run ''status''),
         (''functionId'',
            orJS (orJS (getProp run ''function_id'') (getProp run ''functionId'')) (JStr [])),
         (''functionVersion'',
            orJS (getProp run ''function_version'') (getProp run ''functionVersion'')),
         (''startedAt'', orJS (getProp run ''started_at'') (getProp run ''startedAt'')),
         (''endedAt'', orJS (getProp run ''ended_at'') (getProp run ''endedAt'')),
         (''output'', getProp run ''output'')]))"

definition normalizeEventRuns :: "jsvalue \<Rightarrow> error + jsvalue" where
  "normalizeEventRuns raw = arrayMap raw normalizeEventRun"

definition getEventRuns :: "platform \<Rightarrow> string \<Rightarrow> bool \<Rightarrow> jsnum option \<Rightarrow> jsvalue io" where
  "getEventRuns W eventId dev port =
     bindIO (apiRequest W (createClient W dev port) ''GET'' (''/v1/events/'' @ eventId @ ''/runs'')
               JUndefined)
       (\<lambda>response.
          if nullish response then throwIO TypeError
          else liftE (normalizeEventRuns (orJS (getProp response ''data'') (JArr []))))"

text \<open>\<^verbatim>\<open>v.length\<close> and \<^verbatim>\<open>v?.length\<close> of a value.\<close>

definition lengthOf :: "jsvalue \<Rightarrow> jsvalue" where
  "lengthOf v =
     (case v of
        JArr xs \<Rightarrow> JNumber (Num (int (length xs)))
      | JStr t \<Rightarrow> JNumber (Num (int (length t)))
      | _ \<Rightarrow> getProp v ''length'')"

definition truthyNum :: "jsnum option \<Rightarrow> bool" where
  "truthyNum n = (case n of None \<Rightarrow> False | Some x \<Rightarrow> truthy (JNumber x))"

text \<open>
  The path of \<open>listEvents\<close> with its query string: \<^verbatim>\<open>limit\<close> when it is truthy, then
  \<^verbatim>\<open>name\<close> when it is truthy.
\<close>

definition listEventsPath :: "platform \<Rightarrow> string option \<Rightarrow> jsnum option \<Rightarrow> string" where
  "listEventsPath W name limit =
     (let queryString = joinStr ''&''
            ((if truthyNum limit then [''limit='' @ formEncode W (showNum (the limit))] else [])
             @ (if truthyStr name then [''name='' @ formEncode W (the name)] else []))
      in ''/v1/events'' @ (if queryString \<noteq> [] then ''?'' @ queryString else []))"

definition listEvents ::
  "platform \<Rightarrow> string option \<Rightarrow> jsnum option \<Rightarrow> bool \<Rightarrow> jsnum option \<Rightarrow> jsvalue io" where
  "listEvents W name limit dev port =
     bindIO (apiRequest W (createClient W dev port) ''GET'' (listEventsPath W name limit) JUndefined)
       (\<lambda>response.
          if nullish response then throwIO TypeError
          else (case normalizeEventList W (orJS (getProp response ''data'') (JArr [])) of
                  Inl e \<Rightarrow> throwIO e
                | Inr events \<Rightarrow> pureIO (JObj
                    [(''events'', events),
                     (''meta'', JObj
                        [(''fetchedAt'',
                            orJS (if nullish (getProp response ''metadata'') then JUndefined
                                  else getProp (getProp response ''metadata'') ''fetched_at'')
                                 (JStr (isoOfTime (now W 0)))),
                         (''total'',
                            if nullish (getProp response ''data'') then JUndefined
                            else lengthOf (getProp response ''data''))])])))"

section \<open>Cancellation (lib/cancel.ts)\<close>

text \<open>
  The match of \<^verbatim>\<open>/^(\d+)([smhd])$/\<close>: the digits and the unit. In \<open>parseTime\<close> the
  arithmetic is on mathematical integers: when the resulting date is valid, the integer
  and its products are below \<open>2 ^ 53\<close> and exact in doubles, and when a product is
  rounded the date is out of range whatever the rounding.
\<close>

definition matchRelative :: "string \<Rightarrow> (string \<times> char) option" where
  "matchRelative input =
     (if input \<noteq> [] \<and> butlast input \<noteq> [] \<and> list_all isDigit (butlast input)
         \<and> last input \<in> set ''smhd''
      then Some (butlast input, last input) else None)"

text \<open>The \<^verbatim>\<open>switch\<close> on the unit; \<open>None\<close> is its \<^verbatim>\<open>default\<close> branch.\<close>

definition unitMs :: "int \<Rightarrow> char \<Rightarrow> int option" where
  "unitMs v unit =
     (if unit = CHR ''s'' then Some (v * 1000)
      else if unit = CHR ''m'' then Some (v * 60 * 1000)
      else if unit = CHR ''h'' then Some (v * 60 * 60 * 1000)
      else if unit = CHR ''d'' then Some (v * 24 * 60 * 60 * 1000)
      else None)"

definition parseTime :: "int \<Rightarrow> string \<Rightarrow> error + string" where
  "parseTime clock input =
     (if includesStr input ''T'' \<or> includesStr input ''-'' then Inr input
      else (case matchRelative input of
              None \<Rightarrow> Inl (Error (''Invalid time format: '' @ input
                         @ ''. Use ISO format or relative time (e.g., 1h, 30m, 2d)''))
            | Some (digits, unit) \<Rightarrow>
                (case parseInt digits of
                   NaN \<Rightarrow> toISOString None
                 | Num v \<Rightarrow>
                     (case unitMs v unit of
                        None \<Rightarrow> Inl (Error (''Unknown time unit: '' @ [unit]))
                      | Some ms \<Rightarrow> toISOString (timeClip (clock - ms))))))"

definition cancelRuns ::
  "platform \<Rightarrow> string \<Rightarrow> string \<Rightarrow> string \<Rightarrow> string \<Rightarrow> string option \<Rightarrow> bool \<Rightarrow> jsnum option
     \<Rightarrow> jsvalue io" where
  "cancelRuns W appId functionId startedAfter startedBefore ifExpr dev port =
     bindIO (liftE (parseTime (now W 0) startedAfter))
       (\<lambda>startedAfterIso.
          bindIO (liftE (parseTime (now W 1) startedBefore))
            (\<lambda>startedBeforeIso.
               apiRequest W (createClient W dev port) ''POST'' ''/v1/cancellations''
                 (JObj ([(''app_id'', JStr appId),
                         (''function_id'', JStr functionId),
                         (''started_after'', JStr startedAfterIso),
                         (''started_before'', JStr startedBeforeIso)]
                        @ (if truthyStr ifExpr then [(''if'', JStr (the ifExpr))] else [])))))"

section \<open>Output formatting (lib/output.ts)\<close>

text \<open>
  The interfaces of the domain modules are erased at run time: a formatter receives
  whatever value its guard lets through, and an operation on a field that does not have
  the declared type does what JavaScript defines for it. A formatter returns the trace
  of its \<^verbatim>\<open>console.log\<close> calls and, when an operation throws, the error after the
  lines logged before it.
\<close>

subsection \<open>ANSI color codes\<close>

definition c_reset :: string where "c_reset = CHR 0x1B # ''[0m''"
definition c_bold :: string where "c_bold = CHR 0x1B # ''[1m''"
definition c_dim :: string where "c_dim = CHR 0x1B # ''[2m''"
definition c_black :: string where "c_black = CHR 0x1B # ''[30m''"
definition c_red :: string where "c_red = CHR 0x1B # ''[31m''"
definition c_green :: string where "c_green = CHR 0x1B # ''[32m''"
definition c_yellow :: string where "c_yellow = CHR 0x1B # ''[33m''"
definition c_blue :: string where "c_blue = CHR 0x1B # ''[34m''"
definition c_magenta :: string where "c_magenta = CHR 0x1B # ''[35m''"
definition c_cyan :: string where "c_cyan = CHR 0x1B # ''[36m''"
definition c_white :: string where "c_white = CHR 0x1B # ''[37m''"
definition c_gray :: string where "c_gray = CHR 0x1B # ''[90m''"
definition c_bgRed :: string where "c_bgRed = CHR 0x1B # ''[41m''"
definition c_bgYellow :: string where "c_bgYellow = CHR 0x1B # ''[43m''"
definition c_bgGreen :: string where "c_bgGreen = CHR 0x1B # ''[42m''"
definition c_bgBlue :: string where "c_bgBlue = CHR 0x1B # ''[44m''"

text \<open>The check mark U+2713, as the bytes the terminal receives.\<close>

definition checkMark :: string where
  "checkMark = [CHR 0xE2, CHR 0x9C, CHR 0x93]"

subsection \<open>Operations on values\<close>

definition bindE :: "error + 'a \<Rightarrow> ('a \<Rightarrow> error + 'b) \<Rightarrow> error + 'b" where
  "bindE r f = (case r of Inl e \<Rightarrow> Inl e | Inr a \<Rightarrow> f a)"

text \<open>
  \<^verbatim>\<open>Object.keys(v)\<close> of a truthy value, each key with \<^verbatim>\<open>v[key]\<close>: the
  properties of an object, the indices of an array or a string, nothing for a number
  or a boolean.
\<close>

definition ownEntries :: "jsvalue \<Rightarrow> (string \<times> jsvalue) list" where
  "ownEntries v =
     (case v of
        JObj kvs \<Rightarrow> kvs
      | JArr xs \<Rightarrow> zip (map (\<lambda>i. showInt (int i)) [0..<length xs]) xs
      | JStr t \<Rightarrow> zip (map (\<lambda>i. showInt (int i)) [0..<length t]) (map (\<lambda>ch. JStr [ch]) t)
      | _ \<Rightarrow> [])"

text \<open>The values that \<^verbatim>\<open>for (const x of v)\<close> visits; only arrays and strings are iterable.\<close>

definition forOf :: "jsvalue \<Rightarrow> error + jsvalue list" where
  "forOf v =
     (case v of
        JArr xs \<Rightarrow> Inr xs
      | JStr t \<Rightarrow> Inr (map (\<lambda>ch. JStr [ch]) t)
      | _ \<Rightarrow> Inl TypeError)"

text \<open>
  \<^verbatim>\<open>v.length\<close>, which throws on \<^verbatim>\<open>null\<close> and \<^verbatim>\<open>undefined\<close>.
\<close>

definition lengthProp :: "jsvalue \<Rightarrow> error + jsvalue" where
  "lengthProp v = (if nullish v then Inl TypeError else Inr (lengthOf v))"

text \<open>
  \<^verbatim>\<open>v.slice(0, n)\<close> inside a template literal: strings and arrays have the method,
  and an array is joined by the coercion.
\<close>

definition sliceText :: "jsvalue \<Rightarrow> nat \<Rightarrow> error + string" where
  "sliceText v n =
     (case v of
        JStr t \<Rightarrow> Inr (take n t)
      | JArr xs \<Rightarrow> Inr (jsToString (JArr (take n xs)))
      | _ \<Rightarrow> Inl TypeError)"

text \<open>
  The number that a value converts to, and \<^verbatim>\<open>x <= n\<close> for a number \<open>x\<close> and an
  integer \<open>n\<close>; a comparison with \<^verbatim>\<open>NaN\<close> is false.
\<close>

definition toNumber :: "platform \<Rightarrow> jsvalue \<Rightarrow> jsnum" where
  "toNumber W v =
     (case v of
        JUndefined \<Rightarrow> NaN
      | JNull \<Rightarrow> Num 0
      | JBool b \<Rightarrow> Num (if b then 1 else 0)
      | JNumber x \<Rightarrow> x
      | JStr t \<Rightarrow> stringToNumber W t
      | _ \<Rightarrow> stringToNumber W (jsToString v))"

definition numLeq :: "jsnum \<Rightarrow> int \<Rightarrow> bool" where
  "numLeq x n =
     (case x of
        Num i \<Rightarrow> i \<le> n
      | Dec m e \<Rightarrow> (if 0 \<le> e then m * powInt 10 e \<le> n else m \<le> n * powInt 10 (- e))
      | PosInf \<Rightarrow> False
      | NegInf \<Rightarrow> True
      | NaN \<Rightarrow> False)"

subsection \<open>Format helpers\<close>

text \<open>
  \<open>truncate\<close> on a string, the declared type of its argument, and on any value, as
  the text that the template literal around the call shows. An array is cut like a
  string; an object is returned as it is when its \<^verbatim>\<open>length\<close> property compares as at
  most \<open>maxLen\<close>; every other value has no \<^verbatim>\<open>slice\<close> method.
\<close>

definition truncateStr :: "string \<Rightarrow> nat \<Rightarrow> string" where
  "truncateStr str maxLen = (if length str \<le> maxLen then str else take (maxLen - 3) str @ ''...'')"

definition truncate :: "platform \<Rightarrow> jsvalue \<Rightarrow> nat \<Rightarrow> error + string" where
  "truncate W str maxLen =
     (case str of
        JStr t \<Rightarrow> Inr (truncateStr t maxLen)
      | JArr xs \<Rightarrow>
          Inr (if length xs \<le> maxLen then jsToString (JArr xs)
               else jsToString (JArr (take (maxLen - 3) xs)) @ ''...'')
      | JObj kvs \<Rightarrow>
          if numLeq (toNumber W (getProp str ''length'')) (int maxLen)
          then Inr (jsToString str) else Inl TypeError
      | _ \<Rightarrow> Inl TypeError)"

text \<open>
  \<open>formatEventName\<close> and \<open>formatRunStatus\<close> start with \<^verbatim>\<open>toLowerCase()\<close>, a method
  of strings only; \<open>eventNameBadge\<close> and \<open>runStatusBadge\<close> are their results on a string.
\<close>

definition eventNameBadge :: "string \<Rightarrow> string" where
  "eventNameBadge name =
     (if includesStr (toLowerCase name) ''error'' \<or> includesStr (toLowerCase name) ''fail''
      then c_bgRed @ c_black @ c_bold @ '' '' @ name @ '' '' @ c_reset
      else if includesStr (toLowerCase name) ''warn''
      then c_bgYellow @ c_black @ c_bold @ '' '' @ name @ '' '' @ c_reset
      else if includesStr (toLowerCase name) ''success''
              \<or> includesStr (toLowerCase name) ''complete''
      then c_bgGreen @ c_black @ c_bold @ '' '' @ name @ '' '' @ c_reset
      else c_bgBlue @ c_black @ c_bold @ '' '' @ name @ '' '' @ c_reset)"

definition formatEventName :: "jsvalue \<Rightarrow> error + string" where
  "formatEventName name = (case name of JStr t \<Rightarrow> Inr (eventNameBadge t) | _ \<Rightarrow> Inl TypeError)"

definition runStatusBadge :: "string \<Rightarrow> string" where
  "runStatusBadge status =
     (if toLowerCase status = ''completed'' \<or> toLowerCase status = ''success''
      then c_bgGreen @ c_black @ c_bold @ '' OK  '' @ c_reset
      else if toLowerCase status = ''failed'' \<or> toLowerCase status = ''error''
      then c_bgRed @ c_black @ c_bold @ '' ERR '' @ c_reset
      else if toLowerCase status = ''running'' \<or> toLowerCase status = ''pending''
      then c_bgYellow @ c_black @ c_bold @ '' RUN '' @ c_reset
      else if toLowerCase status = ''cancelled''
      then c_dim @ ''[CXL]'' @ c_reset
      else c_dim @ ''['' @ toUpperCase (take 3 status) @ '']'' @ c_reset)"

definition formatRunStatus :: "jsvalue \<Rightarrow> error + string" where
  "formatRunStatus status =
     (case status of JStr t \<Rightarrow> Inr (runStatusBadge t) | _ \<Rightarrow> Inl TypeError)"

text \<open>
  \<^verbatim>\<open>getMilliseconds()\<close> of a valid date is the time value modulo 1000 (zone offsets
  are whole seconds); of an invalid one it is \<^verbatim>\<open>NaN\<close>.
\<close>

definition getMilliseconds :: "int option \<Rightarrow> jsnum" where
  "getMilliseconds d = (case d of None \<Rightarrow> NaN | Some t \<Rightarrow> Num (t mod 1000))"

definition formatTimestamp :: "platform \<Rightarrow> jsvalue \<Rightarrow> string" where
  "formatTimestamp W ts =
     (if \<not> truthy ts then []
      else c_gray @ localeTime W (newDate W ts) @ ''.''
           @ padStart (showNum (getMilliseconds (newDate W ts))) 3 (CHR ''0'') @ c_reset)"

text \<open>The difference of two time values; \<^verbatim>\<open>NaN\<close> when either is.\<close>

definition subTime :: "int option \<Rightarrow> int option \<Rightarrow> int option" where
  "subTime a b = (case a of None \<Rightarrow> None | Some x \<Rightarrow> (case b of None \<Rightarrow> None | Some y \<Rightarrow> Some (x - y)))"

text \<open>The text of \<open>formatRelativeTime\<close> for the difference of the clock and the timestamp.\<close>

definition relativeText :: "int option \<Rightarrow> string" where
  "relativeText diff =
     (case diff of
        None \<Rightarrow> ''NaNd ago''
      | Some d \<Rightarrow>
          if d < 1000 then ''just now''
          else if d < 60000 then showInt (d div 1000) @ ''s ago''
          else if d < 3600000 then showInt (d div 60000) @ ''m ago''
          else if d < 86400000 then showInt (d div 3600000) @ ''h ago''
          else showInt (d div 86400000) @ ''d ago'')"

definition formatRelativeTime :: "platform \<Rightarrow> jsvalue \<Rightarrow> string" where
  "formatRelativeTime W ts = relativeText (subTime (Some (now W 2)) (newDate W ts))"

text \<open>The text of \<open>formatDuration\<close> for the difference of the end and the start.\<close>

definition durationText :: "platform \<Rightarrow> int option \<Rightarrow> string" where
  "durationText W ms =
     (case ms of
        None \<Rightarrow> c_yellow @ ''NaNm'' @ c_reset
      | Some d \<Rightarrow>
          if d < 1 then c_yellow @ ''<1ms'' @ c_reset
          else if d < 1000 then c_yellow @ showInt d @ ''ms'' @ c_reset
          else if d < 60000 then c_yellow @ toFixed2 W d 1000 @ ''s'' @ c_reset
          else c_yellow @ toFixed2 W d 60000 @ ''m'' @ c_reset)"

definition formatDuration :: "platform \<Rightarrow> jsvalue \<Rightarrow> jsvalue \<Rightarrow> string" where
  "formatDuration W start end = durationText W (subTime (newDate W end) (newDate W start))"

text \<open>
  The elapsed text of \<^verbatim>\<open>calculateDuration\<close> between its prefix and the reset code:
  the number with its unit, then the suffix.
\<close>

definition elapsedText :: "platform \<Rightarrow> int option \<Rightarrow> string \<Rightarrow> string" where
  "elapsedText W ms suffix =
     (case ms of
        None \<Rightarrow> ''NaNh'' @ suffix
      | Some d \<Rightarrow>
          if d < 1000 then showInt d @ ''ms'' @ suffix
          else if d < 60000 then toFixed2 W d 1000 @ ''s'' @ suffix
          else if d < 3600000 then toFixed2 W d 60000 @ ''m'' @ suffix
          else toFixed2 W d 3600000 @ ''h'' @ suffix)"

definition calculateDuration :: "platform \<Rightarrow> jsvalue \<Rightarrow> jsvalue \<Rightarrow> string" where
  "calculateDuration W start end =
     (if \<not> truthy start then c_dim @ ''not started'' @ c_reset
      else (if \<not> truthy end then c_yellow else c_green)
           @ elapsedText W
               (subTime (if truthy end then newDate W end else Some (now W 3)) (newDate W start))
               (if \<not> truthy end then '' (running)'' else [])
           @ c_reset)"

text \<open>One \<^verbatim>\<open>key=value\<close> entry of \<open>formatDataPreview\<close>.\<close>

definition previewEntry :: "string \<times> jsvalue \<Rightarrow> string" where
  "previewEntry kv =
     fst kv @ ''='' @ (case snd kv of JStr t \<Rightarrow> truncateStr t 20 | v \<Rightarrow> shown (stringify v))"

text \<open>The preview of the keys of \<open>formatDataPreview\<close>, each with its value.\<close>

definition previewText :: "(string \<times> jsvalue) list \<Rightarrow> string" where
  "previewText entries =
     (if length entries = 0 then []
      else c_dim @ joinStr '' '' (map previewEntry (take 3 entries))
           @ (if length entries > 3 then '' +'' @ showInt (int (length entries) - 3) else [])
           @ c_reset)"

definition formatDataPreview :: "jsvalue \<Rightarrow> string" where
  "formatDataPreview data = previewText (ownEntries data)"

text \<open>
  The event of \<open>formatEventLine\<close> is an element of the event list: reading its first
  field throws when it is \<^verbatim>\<open>null\<close> or \<^verbatim>\<open>undefined\<close>.
\<close>

definition formatEventLine :: "platform \<Rightarrow> jsvalue \<Rightarrow> error + string" where
  "formatEventLine W event =
     (if nullish event then Inl TypeError
      else bindE (formatEventName (getProp event ''name'')) (\<lambda>name.
           bindE (sliceText (getProp event ''id'') 12) (\<lambda>ident.
           Inr (formatTimestamp W (getProp event ''receivedAt'') @ '' '' @ name @ '' ''
                @ (c_dim @ ident @ c_reset) @ '' ''
                @ (if truthy (getProp event ''data'')
                   then formatDataPreview (getProp event ''data'') else [])))))"

subsection \<open>Formatters\<close>

text \<open>
  \<open>logAll\<close> logs lines one after the other, \<open>logE\<close> logs a line whose computation
  may throw, \<open>seqIO\<close> runs statements in order up to the first that throws, and
  \<open>forEachIO\<close> is a \<^verbatim>\<open>for ... of\<close> loop.
\<close>

definition logAll :: "string list \<Rightarrow> unit io" where
  "logAll ls = (map ConsoleLog ls, Inr ())"

definition logE :: "error + string \<Rightarrow> unit io" where
  "logE r = (case r of Inl e \<Rightarrow> ([], Inl e) | Inr line \<Rightarrow> ([ConsoleLog line], Inr ()))"

fun seqIO :: "unit io list \<Rightarrow> unit io" where
  "seqIO [] = ([], Inr ())"
| "seqIO (m # ms) = bindIO m (\<lambda>u. seqIO ms)"

definition forEachIO :: "jsvalue \<Rightarrow> (jsvalue \<Rightarrow> unit io) \<Rightarrow> unit io" where
  "forEachIO v body = (case forOf v of Inl e \<Rightarrow> ([], Inl e) | Inr xs \<Rightarrow> seqIO (map body xs))"

definition printEventResult :: "jsvalue \<Rightarrow> unit io" where
  "printEventResult result =
     seqIO
       [logAll [c_green @ checkMark @ c_reset @ '' Event sent successfully'',
                ''  '' @ c_dim @ ''Status:'' @ c_reset @ '' '' @ jsToString (getProp result ''status''),
                ''  '' @ c_dim @ ''IDs:'' @ c_reset],
        forEachIO (getProp result ''ids'')
          (\<lambda>i. logAll [''    '' @ c_cyan @ jsToString i @ c_reset])]"

text \<open>\<^verbatim>\<open>result.meta.total ?? result.events.length\<close>.\<close>

definition eventListTotal :: "jsvalue \<Rightarrow> error + jsvalue" where
  "eventListTotal result =
     (if nullish (getProp result ''meta'') then Inl TypeError
      else if \<not> nullish (getProp (getProp result ''meta'') ''total'')
      then Inr (getProp (getProp result ''meta'') ''total'')
      else lengthProp (getProp result ''events''))"

definition printEventList :: "platform \<Rightarrow> jsvalue \<Rightarrow> unit io" where
  "printEventList W result =
     (case eventListTotal result of
        Inl e \<Rightarrow> ([], Inl e)
      | Inr shownTotal \<Rightarrow>
          seqIO
            [logAll [c_bold @ ''Events ('' @ jsToString shownTotal @ '')'' @ c_reset @ '' '' @ c_dim
                       @ ''fetched ''
                       @ formatRelativeTime W (getProp (getProp result ''meta'') ''fetchedAt'')
                       @ c_reset,
                     []],
             (case lengthProp (getProp result ''events'') of
                Inl e \<Rightarrow> ([], Inl e)
              | Inr n \<Rightarrow>
                  if n = JNumber (Num 0) then logAll [c_yellow @ ''No events found'' @ c_reset]
                  else forEachIO (getProp result ''events'')
                         (\<lambda>event. logE (formatEventLine W event)))])"

text \<open>
  The lines of \<^verbatim>\<open>JSON.stringify(v, null, 2)\<close>, each indented and in white, as the loops
  at the end of \<open>printEventDetails\<close> and \<open>printRunStatus\<close> log them.
\<close>

definition indentedLines :: "jsvalue \<Rightarrow> string list" where
  "indentedLines v =
     map (\<lambda>line. ''  '' @ c_white @ line @ c_reset) (splitStr (shown (stringify2 v)) (CHR 0x0A))"

definition printEventDetails :: "platform \<Rightarrow> jsvalue \<Rightarrow> unit io" where
  "printEventDetails W event =
     seqIO
       [logAll [c_bold @ ''Event'' @ c_reset,
                [],
                c_dim @ ''ID:'' @ c_reset @ ''       '' @ c_cyan @ jsToString (getProp event ''id'')
                  @ c_reset],
        logE (bindE (formatEventName (getProp event ''name''))
                (\<lambda>name. Inr (c_dim @ ''Name:'' @ c_reset @ ''     '' @ name))),
        logAll [c_dim @ ''Received:'' @ c_reset @ '' ''
                  @ formatTimestamp W (getProp event ''receivedAt'')],
        logAll (if truthy (getProp event ''user'') \<and> length (ownEntries (getProp event ''user'')) > 0
                then [c_dim @ ''User:'' @ c_reset @ ''     ''
                        @ shown (stringify (getProp event ''user''))]
                else []),
        logAll (if truthy (getProp event ''data'') \<and> length (ownEntries (getProp event ''data'')) > 0
                then [[], c_dim @ ''Data:'' @ c_reset] @ indentedLines (getProp event ''data'')
                else [])]"

text \<open>
  The duration at the end of a line of \<open>printEventRuns\<close> and \<open>printRunJobs\<close>:
  \<^verbatim>\<open>start && end ? formatDuration(start, end) : ""\<close>.
\<close>

definition listDuration :: "platform \<Rightarrow> jsvalue \<Rightarrow> jsvalue \<Rightarrow> string" where
  "listDuration W start end =
     (if truthy start \<and> truthy end then formatDuration W start end else [])"

text \<open>The line that the loop of \<open>printEventRuns\<close> logs for one run.\<close>

definition eventRunLine :: "platform \<Rightarrow> jsvalue \<Rightarrow> error + string" where
  "eventRunLine W run =
     (if nullish run then Inl TypeError
      else bindE (formatRunStatus (getProp run ''status'')) (\<lambda>status.
           bindE (truncate W (getProp run ''functionId'') 40) (\<lambda>func.
           bindE (sliceText (getProp run ''runId'') 12) (\<lambda>ident.
           Inr ((if truthy (getProp run ''startedAt'')
                 then formatTimestamp W (getProp run ''startedAt'') else [])
                @ '' '' @ status @ '' '' @ (c_cyan @ func @ c_reset) @ '' ''
                @ c_dim @ ident @ c_reset @ '' ''
                @ listDuration W (getProp run ''startedAt'') (getProp run ''endedAt''))))))"

definition printEventRuns :: "platform \<Rightarrow> jsvalue list \<Rightarrow> unit io" where
  "printEventRuns W runs =
     (if length runs = 0 then logAll [c_yellow @ ''No runs found for this event'' @ c_reset]
      else seqIO
             (logAll [c_bold @ ''Runs ('' @ showInt (int (length runs)) @ '')'' @ c_reset, []]
              # map (\<lambda>run. logE (eventRunLine W run)) runs))"

text \<open>The first line that the loop of \<open>printRunJobs\<close> logs for one job.\<close>

definition runJobLine :: "platform \<Rightarrow> jsvalue \<Rightarrow> error + string" where
  "runJobLine W job =
     (if nullish job then Inl TypeError
      else bindE (formatRunStatus (getProp job ''status'')) (\<lambda>status.
           bindE (truncate W (getProp job ''stepId'') 30) (\<lambda>step.
           bindE (sliceText (getProp job ''jobId'') 12) (\<lambda>ident.
           Inr ((if truthy (getProp job ''startedAt'')
                 then formatTimestamp W (getProp job ''startedAt'') else [])
                @ '' '' @ status @ '' '' @ (c_magenta @ step @ c_reset) @ '' ''
                @ c_dim @ ident @ c_reset @ '' ''
                @ listDuration W (getProp job ''startedAt'') (getProp job ''endedAt''))))))"

definition printRunJobs :: "platform \<Rightarrow> jsvalue list \<Rightarrow> unit io" where
  "printRunJobs W jobs =
     (if length jobs = 0 then logAll [c_yellow @ ''No jobs found for this run'' @ c_reset]
      else seqIO
             (logAll [c_bold @ ''Jobs ('' @ showInt (int (length jobs)) @ '')'' @ c_reset, []]
              # map (\<lambda>job.
                  seqIO
                    [logE (runJobLine W job),
                     logAll (if truthy (getProp job ''error'')
                             then [''  '' @ c_red @ ''Error: '' @ jsToString (getProp job ''error'')
                                     @ c_reset]
                             else []),
                     logAll (if getProp job ''output'' \<noteq> JUndefined
                             then [''  '' @ c_dim @ ''Output: ''
                                     @ shown (stringify (getProp job ''output'')) @ c_reset]
                             else [])]) jobs))"

definition printCancelResult :: "jsvalue \<Rightarrow> unit io" where
  "printCancelResult result =
     logAll [c_green @ checkMark @ c_reset @ '' Cancellation complete'',
             ''  '' @ c_dim @ ''Runs cancelled:'' @ c_reset @ '' ''
               @ jsToString (getProp result ''cancelled'')]"

text \<open>
  The lines of \<open>printRunStatus\<close> for a run whose status badge is \<open>status\<close>. The badge
  is computed before the first line is logged.
\<close>

definition runStatusLines :: "platform \<Rightarrow> jsvalue \<Rightarrow> string \<Rightarrow> string list" where
  "runStatusLines W run status =
     [c_bold @ ''Run Status'' @ c_reset,
      [],
      c_dim @ ''Run ID:'' @ c_reset @ ''     '' @ c_cyan @ jsToString (getProp run ''runId'') @ c_reset,
      c_dim @ ''Status:'' @ c_reset @ ''     '' @ status,
      c_dim @ ''Function:'' @ c_reset @ ''   '' @ c_magenta @ jsToString (getProp run ''functionId'')
        @ c_reset
        @ (if truthy (getProp run ''functionVersion'')
           then '' v'' @ jsToString (getProp run ''functionVersion'') else [])]
     @ (if truthy (getProp run ''eventId'')
        then [c_dim @ ''Event ID:'' @ c_reset @ ''   '' @ jsToString (getProp run ''eventId'')]
        else [])
     @ (if truthy (getProp run ''startedAt'')
        then [c_dim @ ''Started:'' @ c_reset @ ''    ''
                @ formatTimestamp W (getProp run ''startedAt'')]
        else [])
     @ (if truthy (getProp run ''endedAt'')
        then [c_dim @ ''Ended:'' @ c_reset @ ''      ''
                @ formatTimestamp W (getProp run ''endedAt'')]
        else [])
     @ [c_dim @ ''Duration:'' @ c_reset @ ''   ''
          @ calculateDuration W (getProp run ''startedAt'') (getProp run ''endedAt'')]
     @ (if getProp run ''output'' \<noteq> JUndefined
        then [[], c_dim @ ''Output:'' @ c_reset] @ indentedLines (getProp run ''output'')
        else [])"

definition printRunStatus :: "platform \<Rightarrow> jsvalue \<Rightarrow> unit io" where
  "printRunStatus W run =
     (case formatRunStatus (getProp run ''status'') of
        Inl e \<Rightarrow> ([], Inl e)
      | Inr status \<Rightarrow> logAll (runStatusLines W run status))"

subsection \<open>Type guards\<close>

definition isArray :: "jsvalue \<Rightarrow> bool" where
  "isArray v = (case v of JArr xs \<Rightarrow> True | _ \<Rightarrow> False)"

text \<open>\<^verbatim>\<open>typeof v === "object" && v !== null\<close>.\<close>

definition isObjectLike :: "jsvalue \<Rightarrow> bool" where
  "isObjectLike v = (case v of JObj kvs \<Rightarrow> True | JArr xs \<Rightarrow> True | _ \<Rightarrow> False)"

definition isNumber :: "jsvalue \<Rightarrow> bool" where
  "isNumber v = (case v of JNumber n \<Rightarrow> True | _ \<Rightarrow> False)"

text \<open>
  \<^verbatim>\<open>k in v\<close> for an object or array: none of the names the guards test is an index
  or a built-in property of an array. On a primitive the operator throws.
\<close>

definition hasKey :: "jsvalue \<Rightarrow> string \<Rightarrow> bool" where
  "hasKey v k = (case v of JObj kvs \<Rightarrow> k \<in> set (map fst kvs) | _ \<Rightarrow> False)"

definition inOp :: "string \<Rightarrow> jsvalue \<Rightarrow> error + bool" where
  "inOp k v = (if isObjectLike v then Inr (hasKey v k) else Inl TypeError)"

definition isEventResult :: "jsvalue \<Rightarrow> bool" where
  "isEventResult result =
     (isObjectLike result \<and> hasKey result ''ids'' \<and> hasKey result ''status''
      \<and> isArray (getProp result ''ids''))"

definition isEventListResult :: "jsvalue \<Rightarrow> bool" where
  "isEventListResult result =
     (isObjectLike result \<and> hasKey result ''events'' \<and> hasKey result ''meta''
      \<and> isArray (getProp result ''events''))"

definition isEventDetails :: "jsvalue \<Rightarrow> bool" where
  "isEventDetails result =
     (isObjectLike result \<and> hasKey result ''id'' \<and> hasKey result ''name''
      \<and> hasKey result ''receivedAt'' \<and> \<not> hasKey result ''events'')"

definition isEventRunArray :: "jsvalue \<Rightarrow> error + bool" where
  "isEventRunArray result =
     (case result of
        JArr [] \<Rightarrow> Inr True
      | JArr (x # xs) \<Rightarrow>
          (case inOp ''runId'' x of
             Inl e \<Rightarrow> Inl e
           | Inr b \<Rightarrow> if b then inOp ''functionId'' x else Inr False)
      | _ \<Rightarrow> Inr False)"

definition isRunJobArray :: "jsvalue \<Rightarrow> error + bool" where
  "isRunJobArray result =
     (case result of
        JArr [] \<Rightarrow> Inr False
      | JArr (x # xs) \<Rightarrow>
          (case inOp ''jobId'' x of
             Inl e \<Rightarrow> Inl e
           | Inr b \<Rightarrow> if b then inOp ''stepId'' x else Inr False)
      | _ \<Rightarrow> Inr False)"

definition isCancelResult :: "jsvalue \<Rightarrow> bool" where
  "isCancelResult result =
     (isObjectLike result \<and> hasKey result ''cancelled'' \<and> isNumber (getProp result ''cancelled''))"

definition isRunStatus :: "jsvalue \<Rightarrow> bool" where
  "isRunStatus result =
     (isObjectLike result \<and> hasKey result ''runId'' \<and> hasKey result ''status''
      \<and> hasKey result ''functionId'' \<and> \<not> isArray result)"

subsection \<open>Main exports\<close>

text \<open>The elements of an array that a guard accepted.\<close>

definition elems :: "jsvalue \<Rightarrow> jsvalue list" where
  "elems v = (case v of JArr xs \<Rightarrow> xs | _ \<Rightarrow> [])"

text \<open>
  The chain of guards of \<open>printPretty\<close>, in the order of the source; \<open>printPrettyTail\<close>
  is the chain from \<open>isRunStatus\<close> on. A guard of arrays throws on an array whose first
  element is a primitive.
\<close>

definition printPrettyTail :: "platform \<Rightarrow> jsvalue \<Rightarrow> unit io" where
  "printPrettyTail W result =
     (if isRunStatus result then printRunStatus W result
      else (case isRunJobArray result of
              Inl e \<Rightarrow> ([], Inl e)
            | Inr b \<Rightarrow>
                if b then printRunJobs W (elems result)
                else if isCancelResult result then printCancelResult result
                else logAll [shown (stringify2 result)]))"

definition printPretty :: "platform \<Rightarrow> jsvalue \<Rightarrow> unit io" where
  "printPretty W result =
     (if isEventResult result then printEventResult result
      else if isEventListResult result then printEventList W result
      else if isEventDetails result then printEventDetails W result
      else (case isEventRunArray result of
              Inl e \<Rightarrow> ([], Inl e)
            | Inr b \<Rightarrow>
                if b then printEventRuns W (elems result)
                else printPrettyTail W result))"

record GlobalFlags =
  pretty :: bool
  outputFile :: "string option"
  dev :: bool
  port :: "jsnum option"

text \<open>
  \<open>printOutput\<close> with the two options it reads. \<open>writeToFile\<close> starts the write and
  does not wait for it: the \<open>WriteFile\<close> effect is the call of \<^verbatim>\<open>Bun.write\<close>.
\<close>

definition printOutput :: "platform \<Rightarrow> jsvalue \<Rightarrow> bool \<Rightarrow> string option \<Rightarrow> unit io" where
  "printOutput W result prettyFlag outputPath =
     (if truthyStr outputPath
      then ([WriteFile (the outputPath) (shown (stringify2 result)),
             ConsoleLog (''Output written to '' @ the outputPath)], Inr ())
      else if prettyFlag then printPretty W result
      else logAll [shown (stringify2 result)])"

definition printError :: "string \<Rightarrow> bool \<Rightarrow> effect" where
  "printError message prettyFlag =
     (if prettyFlag then ConsoleError (c_red @ c_bold @ ''Error:'' @ c_reset @ '' '' @ message)
      else ConsoleError (shown (stringify (JObj [(''error'', JStr message)]))))"

section \<open>Command-line parsing (cli.ts)\<close>

text \<open>
  \<^verbatim>\<open>Record<string, string>\<close> is a map from keys to values. Assigning to the
  key \<^verbatim>\<open>__proto__\<close> of a plain object with a string value creates no own property.
\<close>

definition setProp :: "(string \<rightharpoonup> string) \<Rightarrow> string \<Rightarrow> string \<Rightarrow> (string \<rightharpoonup> string)" where
  "setProp result key v = (if key = ''__proto__'' then result else result(key \<mapsto> v))"

fun parseNamedArgsLoop :: "string list \<Rightarrow> (string \<rightharpoonup> string) \<Rightarrow> (string \<rightharpoonup> string)" where
  "parseNamedArgsLoop [] result = result"
| "parseNamedArgsLoop (arg # rest) result =
     (if startsWith arg ''--'' then
        (let eqIndex = indexOf arg (CHR ''='') in
         if eqIndex \<noteq> - 1 then
           parseNamedArgsLoop rest
             (setProp result (slice arg 2 (nat eqIndex)) (sliceFrom arg (nat eqIndex + 1)))
         else
           (case rest of
              nxt # rest' \<Rightarrow>
                if \<not> startsWith nxt ''--''
                then parseNamedArgsLoop rest' (setProp result (sliceFrom arg 2) nxt)
                else parseNamedArgsLoop rest result
            | [] \<Rightarrow> parseNamedArgsLoop rest result))
      else parseNamedArgsLoop rest result)"

definition parseNamedArgs :: "string list \<Rightarrow> (string \<rightharpoonup> string)" where
  "parseNamedArgs args = parseNamedArgsLoop args Map.empty"

text \<open>The usage messages, line by line.\<close>

definition usageText :: string where
  "usageText =
     joinStr [CHR 0x0A]
     [[],
      ''inngest-ctl - Command-line interface for Inngest'',
      [],
      ''Usage:'',
      ''  inngest-ctl <command> [options]'',
      [],
      ''Commands:'',
      ''  events    Send and query events'',
      ''  runs      Query function runs'',
      ''  cancel    Cancel running functions'',
      [],
      ''Global Options:'',
      ''  --pretty          Human-readable output with colors'',
      ''  --output <file>   Write JSON output to file'',
      ''  --dev             Use local dev server (default: localhost:8288)'',
      ''  --port <port>     Dev server port (default: 8288)'',
      ''  --help, -h        Show this help message'',
      ''  --version, -v     Show version'',
      [],
      ''Environment Variables:'',
      ''  INNGEST_EVENT_KEY     Required for sending events (not needed with --dev)'',
      ''  INNGEST_SIGNING_KEY   Required for API queries'',
      ''  INNGEST_DEV_URL       Override dev server URL (e.g., http://localhost:9000)'',
      [],
      ''Examples:'',
      ''  inngest-ctl events send --name '' @ [CHR 0x22] @ ''user.signup'' @ [CHR 0x22] @ '' --data '' @ [CHR 0x27] @ ''{'' @ [CHR 0x22] @ ''userId'' @ [CHR 0x22] @ '': '' @ [CHR 0x22] @ ''123'' @ [CHR 0x22] @ ''}'' @ [CHR 0x27],
      ''  inngest-ctl events get <event-id> --pretty'',
      ''  inngest-ctl runs get <run-id>'',
      ''  inngest-ctl cancel --app my-app --function my-func --started-after 1h --started-before now'',
      []]"

definition eventsUsageText :: string where
  "eventsUsageText =
     joinStr [CHR 0x0A]
     [[],
      ''Events Commands:'',
      [],
      ''Usage:'',
      ''  inngest-ctl events <subcommand> [options]'',
      [],
      ''Subcommands:'',
      ''  list    List recent events'',
      ''  send    Send an event'',
      ''  get     Get event details'',
      ''  runs    List runs triggered by an event'',
      [],
      ''List Options:'',
      ''  --name <name>     Filter by event name (optional)'',
      ''  --limit <n>       Max events to return (optional)'',
      [],
      ''Send Options:'',
      ''  --name <name>         Event name (required)'',
      ''  --data <json>         Event data as inline JSON (required unless --data-file)'',
      ''  --data-file <path>    Read event data from a JSON file (required unless --data)'',
      ''  --id <id>             Deduplication ID (optional)'',
      ''  --env <env>           Branch environment name (optional)'',
      [],
      ''Examples:'',
      ''  inngest-ctl events list --pretty'',
      ''  inngest-ctl events list --name '' @ [CHR 0x22] @ ''user.signup'' @ [CHR 0x22] @ '' --limit 10 --pretty'',
      ''  inngest-ctl events send --name '' @ [CHR 0x22] @ ''user.signup'' @ [CHR 0x22] @ '' --data '' @ [CHR 0x27] @ ''{'' @ [CHR 0x22] @ ''userId'' @ [CHR 0x22] @ '': '' @ [CHR 0x22] @ ''123'' @ [CHR 0x22] @ ''}'' @ [CHR 0x27],
      ''  inngest-ctl events send --name '' @ [CHR 0x22] @ ''test.event'' @ [CHR 0x22] @ '' --data-file /tmp/event.json --dev'',
      ''  inngest-ctl events send --name '' @ [CHR 0x22] @ ''test.event'' @ [CHR 0x22] @ '' --data '' @ [CHR 0x27] @ ''{}'' @ [CHR 0x27] @ '' --env '' @ [CHR 0x22] @ ''feature/my-branch'' @ [CHR 0x22],
      ''  inngest-ctl events get 01H08W4TMBNKMEWFD0TYC532GG --pretty'',
      ''  inngest-ctl events runs 01H08W4TMBNKMEWFD0TYC532GG --pretty'',
      []]"

definition runsUsageText :: string where
  "runsUsageText =
     joinStr [CHR 0x0A]
     [[],
      ''Runs Commands:'',
      [],
      ''Usage:'',
      ''  inngest-ctl runs <subcommand> [options]'',
      [],
      ''Subcommands:'',
      ''  status  Get run status and duration'',
      ''  get     Get run details (jobs/steps)'',
      ''  list    List runs for an event'',
      [],
      ''List Options:'',
      ''  --event <id>    Event ID to list runs for'',
      [],
      ''Examples:'',
      ''  inngest-ctl runs status 01H08W5TMBNKMEWFD0TYC532GH --pretty'',
      ''  inngest-ctl runs get 01H08W5TMBNKMEWFD0TYC532GH --pretty'',
      ''  inngest-ctl runs list --event 01H08W4TMBNKMEWFD0TYC532GG'',
      []]"

function parseGlobalFlagsLoop ::
  "string list \<Rightarrow> GlobalFlags \<Rightarrow> string list \<Rightarrow> GlobalFlags \<times> string list" where
  "parseGlobalFlagsLoop args flags positional =
     (if args = [] then (flags, positional)
      else if hd args = ''--pretty''
      then parseGlobalFlagsLoop (tl args) (flags\<lparr>pretty := True\<rparr>) positional
      else if hd args = ''--dev''
      then parseGlobalFlagsLoop (tl args) (flags\<lparr>dev := True\<rparr>) positional
      else if hd args = ''--port'' \<and> tl args \<noteq> []
      then parseGlobalFlagsLoop (tl (tl args))
             (flags\<lparr>port := Some (parseInt (hd (tl args)))\<rparr>) positional
      else if startsWith (hd args) ''--port=''
      then parseGlobalFlagsLoop (tl args)
             (flags\<lparr>port := Some (parseInt (sliceFrom (hd args) (length ''--port='')))\<rparr>)
             positional
      else if hd args = ''--output'' \<and> tl args \<noteq> []
      then parseGlobalFlagsLoop (tl (tl args)) (flags\<lparr>outputFile := Some (hd (tl args))\<rparr>)
             positional
      else if startsWith (hd args) ''--output=''
      then parseGlobalFlagsLoop (tl args)
             (flags\<lparr>outputFile := Some (sliceFrom (hd args) (length ''--output=''))\<rparr>)
             positional
      else parseGlobalFlagsLoop (tl args) flags (positional @ [hd args]))"
  by pat_completeness auto
termination
  by (relation "measure (\<lambda>(args, flags, positional). length args)") auto

declare parseGlobalFlagsLoop.simps [simp del]

definition parseGlobalFlags :: "string list \<Rightarrow> GlobalFlags \<times> string list" where
  "parseGlobalFlags args =
     parseGlobalFlagsLoop args
       \<lparr> pretty = False, outputFile = None, dev = False, port = None \<rparr> []"

text \<open>
  A handler ends by returning (\<open>Next\<close>), by \<^verbatim>\<open>process.exit\<close> (\<open>Exit\<close>, which
  nothing catches) or by throwing (\<open>Throw\<close>, which \<open>main\<close> catches).
\<close>

datatype step = Next | Exit int | Throw error

text \<open>\<^verbatim>\<open>printError(message, flags.pretty); process.exit(1)\<close>.\<close>

definition failWith :: "GlobalFlags \<Rightarrow> string \<Rightarrow> effect list \<times> step" where
  "failWith flags message = ([printError message (pretty flags)], Exit 1)"

text \<open>\<^verbatim>\<open>const result = await op(...); printOutput(result, flags)\<close>.\<close>

definition thenPrint :: "platform \<Rightarrow> GlobalFlags \<Rightarrow> jsvalue io \<Rightarrow> effect list \<times> step" where
  "thenPrint W flags op =
     (case op of
        (es, Inl e) \<Rightarrow> (es, Throw e)
      | (es, Inr result) \<Rightarrow>
          (case printOutput W result (pretty flags) (outputFile flags) of
             (es', Inl e) \<Rightarrow> (es @ es', Throw e)
           | (es', Inr u) \<Rightarrow> (es @ es', Next)))"

definition isHelp :: "string \<Rightarrow> bool" where
  "isHelp arg = (arg = ''help'' \<or> arg = ''--help'' \<or> arg = ''-h'')"

text \<open>
  The event data of \<^verbatim>\<open>events send\<close>: the file when \<^verbatim>\<open>--data-file\<close> is given, else
  the inline text, parsed as JSON; \<open>None\<close> when the file is missing or the text does
  not parse (the \<^verbatim>\<open>catch\<close> branch).
\<close>

definition sendData :: "platform \<Rightarrow> string option \<Rightarrow> string option \<Rightarrow> jsvalue option" where
  "sendData W dataStr dataFile =
     (if truthyStr dataFile
      then (case readFile W (the dataFile) of None \<Rightarrow> None | Some t \<Rightarrow> jsonParse W t)
      else jsonParse W (the dataStr))"

text \<open>The case \<^verbatim>\<open>send\<close> of \<open>handleEvents\<close>.\<close>

definition handleSend :: "platform \<Rightarrow> string list \<Rightarrow> GlobalFlags \<Rightarrow> effect list \<times> step" where
  "handleSend W subArgs flags =
     (if \<not> truthyStr (parseNamedArgs subArgs ''name'')
      then failWith flags ''--name is required''
      else if \<not> truthyStr (parseNamedArgs subArgs ''data'')
              \<and> \<not> truthyStr (parseNamedArgs subArgs ''data-file'')
      then failWith flags ''--data or --data-file is required''
      else (case sendData W (parseNamedArgs subArgs ''data'') (parseNamedArgs subArgs ''data-file'') of
              None \<Rightarrow>
                failWith flags
                  ((if truthyStr (parseNamedArgs subArgs ''data-file'')
                    then ''--data-file ('' @ the (parseNamedArgs subArgs ''data-file'') @ '')''
                    else ''--data'') @ '' must be valid JSON'')
            | Some data \<Rightarrow>
                thenPrint W flags
                  (sendEvent W (the (parseNamedArgs subArgs ''name'')) data
                     (parseNamedArgs subArgs ''id'') (parseNamedArgs subArgs ''env'')
                     (dev flags) (port flags))))"

text \<open>\<^verbatim>\<open>subArgs[0]\<close> is \<^verbatim>\<open>undefined\<close> on an empty list.\<close>

definition firstArg :: "string list \<Rightarrow> string option" where
  "firstArg subArgs = (case subArgs of [] \<Rightarrow> None | a # rest \<Rightarrow> Some a)"

definition handleEvents :: "platform \<Rightarrow> string list \<Rightarrow> GlobalFlags \<Rightarrow> effect list \<times> step" where
  "handleEvents W args flags =
     (case args of
        [] \<Rightarrow> ([ConsoleLog eventsUsageText], Exit 1)
      | subcommand # subArgs \<Rightarrow>
          if isHelp subcommand then ([ConsoleLog eventsUsageText], Next)
          else if subcommand = ''send'' then handleSend W subArgs flags
          else if subcommand = ''get''
          then (if \<not> truthyStr (firstArg subArgs) then failWith flags ''Event ID is required''
                else thenPrint W flags (getEvent W (the (firstArg subArgs)) (dev flags) (port flags)))
          else if subcommand = ''runs''
          then (if \<not> truthyStr (firstArg subArgs) then failWith flags ''Event ID is required''
                else thenPrint W flags
                       (getEventRuns W (the (firstArg subArgs)) (dev flags) (port flags)))
          else if subcommand = ''list''
          then thenPrint W flags
                 (listEvents W (parseNamedArgs subArgs ''name'')
                    (if truthyStr (parseNamedArgs subArgs ''limit'')
                     then Some (parseInt (the (parseNamedArgs subArgs ''limit''))) else None)
                    (dev flags) (port flags))
          else ([printError (''Unknown events subcommand: '' @ subcommand) (pretty flags),
                      ConsoleLog eventsUsageText], Exit 1))"

definition handleRuns :: "platform \<Rightarrow> string list \<Rightarrow> GlobalFlags \<Rightarrow> effect list \<times> step" where
  "handleRuns W args flags =
     (case args of
        [] \<Rightarrow> ([ConsoleLog runsUsageText], Exit 1)
      | subcommand # subArgs \<Rightarrow>
          if isHelp subcommand then ([ConsoleLog runsUsageText], Next)
          else if subcommand = ''get''
          then (if \<not> truthyStr (firstArg subArgs) then failWith flags ''Run ID is required''
                else thenPrint W flags
                       (getRunJobs W (the (firstArg subArgs)) (dev flags) (port flags)))
          else if subcommand = ''list''
          then (if \<not> truthyStr (parseNamedArgs subArgs ''event'')
                then failWith flags ''--event is required''
                else thenPrint W flags
                       (getEventRuns W (the (parseNamedArgs subArgs ''event'')) (dev flags)
                          (port flags)))
          else if subcommand = ''status''
          then (if \<not> truthyStr (firstArg subArgs) then failWith flags ''Run ID is required''
                else thenPrint W flags (getRun W (the (firstArg subArgs)) (dev flags) (port flags)))
          else ([printError (''Unknown runs subcommand: '' @ subcommand) (pretty flags),
                      ConsoleLog runsUsageText], Exit 1))"

definition handleCancel :: "platform \<Rightarrow> string list \<Rightarrow> GlobalFlags \<Rightarrow> effect list \<times> step" where
  "handleCancel W args flags =
     (if \<not> truthyStr (parseNamedArgs args ''app'') then failWith flags ''--app is required''
      else if \<not> truthyStr (parseNamedArgs args ''function'')
      then failWith flags ''--function is required''
      else if \<not> truthyStr (parseNamedArgs args ''started-after'')
      then failWith flags ''--started-after is required''
      else if \<not> truthyStr (parseNamedArgs args ''started-before'')
      then failWith flags ''--started-before is required''
      else thenPrint W flags
             (cancelRuns W (the (parseNamedArgs args ''app'')) (the (parseNamedArgs args ''function''))
                (the (parseNamedArgs args ''started-after''))
                (the (parseNamedArgs args ''started-before'')) (parseNamedArgs args ''if'')
                (dev flags) (port flags)))"

text \<open>\<^verbatim>\<open>err instanceof Error ? err.message : String(err)\<close>: every error is an \<^verbatim>\<open>Error\<close>.\<close>

definition messageOf :: "platform \<Rightarrow> error \<Rightarrow> string" where
  "messageOf W e = (case e of Error m \<Rightarrow> m | _ \<Rightarrow> engineMessage W e)"

text \<open>The \<^verbatim>\<open>switch\<close> on the command in \<open>main\<close>.\<close>

definition dispatch :: "platform \<Rightarrow> string \<Rightarrow> string list \<Rightarrow> GlobalFlags \<Rightarrow> effect list \<times> step" where
  "dispatch W command subArgs flags =
     (if command = ''events'' then handleEvents W subArgs flags
      else if command = ''runs'' then handleRuns W subArgs flags
      else if command = ''cancel'' then handleCancel W subArgs flags
      else if isHelp command then ([ConsoleLog usageText], Next)
      else if command = ''version'' \<or> command = ''--version'' \<or> command = ''-v''
      then ([ConsoleLog ''0.1.0''], Next)
      else ([printError (''Unknown command: '' @ command) (pretty flags), ConsoleLog usageText],
                 Exit 1))"

text \<open>
  The first write of the trace that fails. \<open>writeToFile\<close> drops the promise of
  \<^verbatim>\<open>Bun.write\<close>, so the rejection of a failed write is handled nowhere.
\<close>

fun writeFailure :: "platform \<Rightarrow> effect list \<Rightarrow> error option" where
  "writeFailure W [] = None"
| "writeFailure W (WriteFile path content # es) =
     (case writeFile W path content of None \<Rightarrow> writeFailure W es | Some e \<Rightarrow> Some e)"
| "writeFailure W (ConsoleLog line # es) = writeFailure W es"
| "writeFailure W (ConsoleError line # es) = writeFailure W es"
| "writeFailure W (HttpFetch r # es) = writeFailure W es"

text \<open>
  The program: the trace of its effects and its exit code. When \<open>main\<close> returns, the
  exit code is 0 unless a write failed: then the runtime reports the unhandled
  rejection on stderr and the exit code is 1. \<^verbatim>\<open>process.exit\<close> ends the program at
  once with its code.
\<close>

definition main :: "platform \<Rightarrow> string list \<Rightarrow> effect list \<times> int" where
  "main W args =
     (case snd (parseGlobalFlags args) of
        [] \<Rightarrow> ([ConsoleLog usageText], 1)
      | command # subArgs \<Rightarrow>
          (case dispatch W command subArgs (fst (parseGlobalFlags args)) of
             (es, Next) \<Rightarrow>
               (case writeFailure W es of
                  None \<Rightarrow> (es, 0)
                | Some e \<Rightarrow> (es @ [ConsoleError (engineMessage W e)], 1))
           | (es, Exit code) \<Rightarrow> (es, code)
           | (es, Throw e) \<Rightarrow>
               (es @ [printError (messageOf W e) (pretty (fst (parseGlobalFlags args)))], 1)))"

text \<open>
  The outcome of a failed check: one line on stderr, which contains the message, and
  the exit code 1.
\<close>

fun errorLine :: "effect \<Rightarrow> string option" where
  "errorLine (ConsoleError line) = Some line"
| "errorLine e = None"

definition failsWith :: "effect list \<times> int \<Rightarrow> string \<Rightarrow> bool" where
  "failsWith outcome message =
     (snd outcome = 1 \<and> length (fst outcome) = 1
      \<and> (case errorLine (hd (fst outcome)) of
            None \<Rightarrow> False
          | Some line \<Rightarrow> includesStr line message))"

section \<open>Notions of the specification and example inputs\<close>

text \<open>
  Follows the specification's words, not the source: an ISO-8601 literal in the
  extended format, a calendar date \<^verbatim>\<open>YYYY-MM-DD\<close>, alone or followed by \<^verbatim>\<open>T\<close>, a
  time \<^verbatim>\<open>hh:mm:ss\<close>, an optional decimal fraction and an optional zone (\<^verbatim>\<open>Z\<close> or
  \<^verbatim>\<open>+hh:mm\<close> or \<^verbatim>\<open>-hh:mm\<close>).
\<close>

definition spec_isoDate :: "string \<Rightarrow> bool" where
  "spec_isoDate d =
     (length d = 10 \<and> list_all isDigit (take 4 d) \<and> d ! 4 = CHR ''-''
      \<and> list_all isDigit (take 2 (drop 5 d)) \<and> d ! 7 = CHR ''-''
      \<and> list_all isDigit (drop 8 d))"

definition spec_isoZone :: "string \<Rightarrow> bool" where
  "spec_isoZone z =
     (z = [] \<or> z = ''Z''
      \<or> (length z = 6 \<and> (hd z = CHR ''+'' \<or> hd z = CHR ''-'')
          \<and> list_all isDigit (take 2 (drop 1 z)) \<and> z ! 3 = CHR '':''
          \<and> list_all isDigit (drop 4 z)))"

definition spec_isoFraction :: "string \<Rightarrow> bool" where
  "spec_isoFraction f = (f = [] \<or> (hd f = CHR ''.'' \<and> tl f \<noteq> [] \<and> list_all isDigit (tl f)))"

definition spec_isoTime :: "string \<Rightarrow> bool" where
  "spec_isoTime t =
     (8 \<le> length t \<and> list_all isDigit (take 2 t) \<and> t ! 2 = CHR '':''
      \<and> list_all isDigit (take 2 (drop 3 t)) \<and> t ! 5 = CHR '':''
      \<and> list_all isDigit (take 2 (drop 6 t))
      \<and> spec_isoFraction (takeWhile (\<lambda>c. c = CHR ''.'' \<or> isDigit c) (drop 8 t))
      \<and> spec_isoZone (dropWhile (\<lambda>c. c = CHR ''.'' \<or> isDigit c) (drop 8 t)))"

definition spec_isoLiteral :: "string \<Rightarrow> bool" where
  "spec_isoLiteral s =
     (spec_isoDate (take 10 s)
      \<and> (drop 10 s = [] \<or> (hd (drop 10 s) = CHR ''T'' \<and> spec_isoTime (drop 11 s))))"










text \<open>
  An example platform: a development server that answers lookups of ids ending in
  \<^verbatim>\<open>-404\<close> with status 200 and a null payload, and every other request with status
  404 and an error body. It parses these two bodies and two timestamps, converts the
  empty string and the strings of digits to numbers, and fails to write one path.
\<close>

definition nullDataBody :: string where
  "nullDataBody = ''{'' @ [CHR 0x22] @ ''data'' @ [CHR 0x22] @ '':null}''"

definition notFoundBody :: string where
  "notFoundBody = ''{'' @ [CHR 0x22] @ ''error'' @ [CHR 0x22] @ '':'' @ [CHR 0x22] @ ''Not found''
                   @ [CHR 0x22] @ ''}''"

definition exampleFetch :: "request \<Rightarrow> fetch_outcome" where
  "exampleFetch r =
     (if endsWith (reqUrl r) ''-404''
      then Responded \<lparr> respStatus = 200, respBody = nullDataBody \<rparr>
      else Responded \<lparr> respStatus = 404, respBody = notFoundBody \<rparr>)"

definition exampleJson :: "string \<Rightarrow> jsvalue option" where
  "exampleJson t =
     (if t = nullDataBody then Some (JObj [(''data'', JNull)])
      else if t = notFoundBody then Some (JObj [(''error'', JStr ''Not found'')])
      else None)"

definition exampleDate :: "string \<Rightarrow> int option" where
  "exampleDate t =
     (if t = ''2024-01-01T10:00:00Z'' then Some 1704103200000
      else if t = ''2024-01-01T10:01:00Z'' then Some 1704103260000
      else None)"

definition exampleFixed :: "int \<Rightarrow> int \<Rightarrow> string" where
  "exampleFixed a b = showInt (a div b) @ ''.'' @ pad 2 (a * 100 div b mod 100)"

definition exampleNumber :: "string \<Rightarrow> jsnum" where
  "exampleNumber t =
     (if t = [] then Num 0 else if list_all isDigit t then Num (digitsVal t) else NaN)"

definition examplePlatform :: platform where
  "examplePlatform =
     \<lparr> env = (\<lambda>k. None),
       now = (\<lambda>i. 1704103500000),
       fetch = exampleFetch,
       readFile = (\<lambda>p. None),
       jsonParse = exampleJson,
       dateParse = exampleDate,
       localeTime = (\<lambda>d. ''10:00:00''),
       toFixed2 = exampleFixed,
       formEncode = (\<lambda>t. t),
       engineMessage = (\<lambda>e. ''engine error''),
       writeFile = (\<lambda>path content. if path = ''/missing/out.json'' then Some (Error ''ENOENT'') else None),
       stringToNumber = exampleNumber \<rparr>"

text \<open>The same platform with a server that answers every request with a null payload.\<close>

definition nullDataPlatform :: platform where
  "nullDataPlatform =
     examplePlatform \<lparr> fetch := (\<lambda>r. Responded \<lparr> respStatus = 200, respBody = nullDataBody \<rparr>) \<rparr>"


definition completedRun :: jsvalue where
  "completedRun =
     JObj [(''runId'', JStr ''run-123''), (''status'', JStr ''Completed''),
           (''functionId'', JStr ''test-func''), (''functionVersion'', JUndefined),
           (''eventId'', JUndefined), (''startedAt'', JStr ''2024-01-01T10:00:00Z''),
           (''endedAt'', JStr ''2024-01-01T10:01:00Z''), (''output'', JUndefined)]"



text \<open>
  A run of an event whose function version is a number, as the server sends it, and a
  cancellation result.
\<close>

definition versionedRun :: jsvalue where
  "versionedRun =
     JObj [(''runId'', JStr ''run-123''), (''status'', JStr ''Running''),
           (''functionId'', JStr ''test-func''), (''functionVersion'', JNumber (Num 3)),
           (''startedAt'', JStr ''2024-01-01T10:00:00Z''), (''endedAt'', JUndefined),
           (''output'', JUndefined)]"

definition cancelledFive :: jsvalue where
  "cancelledFive = JObj [(''cancelled'', JNumber (Num 5))]"

text \<open>An effect that is a line on stdout, and what a console shows: the logged lines of a
  trace, one per line.\<close>

fun isLog :: "effect \<Rightarrow> bool" where
  "isLog (ConsoleLog line) = True"
| "isLog e = False"








section \<open>Facts about strings\<close>

lemma startsWith_append: "startsWith (p @ s) p"
  by (simp add: startsWith_def)

lemma includesStr_here: "includesStr (m @ b) m"
proof (cases "m @ b")
  case Nil
  then show ?thesis by simp
next
  case (Cons a list)
  have "startsWith (m @ b) m" by (simp add: startsWith_def)
  then show ?thesis using Cons by (metis includesStr.simps(2))
qed

lemma includesStr_append: "includesStr (a @ m @ b) m"
proof (induction a)
  case Nil
  show ?case using includesStr_here by simp
next
  case (Cons c a)
  then show ?case by simp
qed

lemma includesStr_prefixed: "includesStr (a @ m) m"
  using includesStr_append [of a m "[]"] by simp


lemma includesStr_char: "includesStr s [c] = (c \<in> set s)"
  by (induction s) (auto simp: startsWith_def)

section \<open>The error line on stderr contains the message\<close>

lemma concat_quoteChar_plain:
  "list_all (\<lambda>c. quoteChar c = [c]) m \<Longrightarrow> concat (map quoteChar m) = m"
  by (induction m) simp_all

lemma stringify_error_object:
  "stringify (JObj [(''error'', JStr m)])
     = Some (''{'' @ quoteJSON ''error'' @ '':'' @ quoteJSON m @ ''}'')"
  by (simp add: stringify_def)

lemma printError_includes:
  assumes "list_all (\<lambda>c. quoteChar c = [c]) m"
  shows "\<exists>line. printError m p = ConsoleError line \<and> includesStr line m"
proof (cases p)
  case True
  have "includesStr ((c_red @ c_bold @ ''Error:'' @ c_reset @ '' '') @ m) m"
    by (rule includesStr_prefixed)
  then show ?thesis using True by (simp add: printError_def)
next
  case False
  have q: "quoteJSON m = [CHR 0x22] @ m @ [CHR 0x22]"
    using assms by (simp add: quoteJSON_def concat_quoteChar_plain)
  have "includesStr ((''{'' @ quoteJSON ''error'' @ '':'' @ [CHR 0x22]) @ m @ ([CHR 0x22] @ ''}'')) m"
    by (rule includesStr_append)
  then have "includesStr (''{'' @ quoteJSON ''error'' @ '':'' @ quoteJSON m @ ''}'') m"
    by (simp add: q)
  then show ?thesis
    using False by (simp add: printError_def stringify_error_object shown_def)
qed

lemma failsWith_printError:
  assumes "list_all (\<lambda>c. quoteChar c = [c]) m"
  shows "failsWith ([printError m p], 1) m"
proof -
  obtain line where "printError m p = ConsoleError line" "includesStr line m"
    using printError_includes [OF assms] by blast
  then show ?thesis by (simp add: failsWith_def)
qed

lemma plain_name_required: "list_all (\<lambda>c. quoteChar c = [c]) ''--name is required''"
  by code_simp

lemma plain_data_required: "list_all (\<lambda>c. quoteChar c = [c]) ''--data or --data-file is required''"
  by code_simp

lemma plain_event_id_required: "list_all (\<lambda>c. quoteChar c = [c]) ''Event ID is required''"
  by code_simp

lemma plain_run_id_required: "list_all (\<lambda>c. quoteChar c = [c]) ''Run ID is required''"
  by code_simp

lemma plain_event_required: "list_all (\<lambda>c. quoteChar c = [c]) ''--event is required''"
  by code_simp

lemma plain_app_required: "list_all (\<lambda>c. quoteChar c = [c]) ''--app is required''"
  by code_simp

lemma plain_function_required: "list_all (\<lambda>c. quoteChar c = [c]) ''--function is required''"
  by code_simp

lemma plain_after_required: "list_all (\<lambda>c. quoteChar c = [c]) ''--started-after is required''"
  by code_simp

lemma plain_before_required: "list_all (\<lambda>c. quoteChar c = [c]) ''--started-before is required''"
  by code_simp

section \<open>The checks of the handlers, seen from the program\<close>

lemma main_send_name:
  assumes "snd (parseGlobalFlags args) = ''events'' # ''send'' # rest"
    and "\<not> truthyStr (parseNamedArgs rest ''name'')"
  shows "failsWith (main W args) ''--name is required''"
proof -
  have "main W args
      = ([printError ''--name is required'' (pretty (fst (parseGlobalFlags args)))], 1)"
    using assms
    by (simp add: main_def dispatch_def handleEvents_def isHelp_def handleSend_def failWith_def)
  then show ?thesis using failsWith_printError [OF plain_name_required] by simp
qed

lemma main_send_data:
  assumes "snd (parseGlobalFlags args) = ''events'' # ''send'' # rest"
    and "truthyStr (parseNamedArgs rest ''name'')"
    and "\<not> truthyStr (parseNamedArgs rest ''data'')"
    and "\<not> truthyStr (parseNamedArgs rest ''data-file'')"
  shows "failsWith (main W args) ''--data or --data-file is required''"
proof -
  have "main W args
      = ([printError ''--data or --data-file is required'' (pretty (fst (parseGlobalFlags args)))],
         1)"
    using assms
    by (simp add: main_def dispatch_def handleEvents_def isHelp_def handleSend_def failWith_def)
  then show ?thesis using failsWith_printError [OF plain_data_required] by simp
qed

lemma main_events_get:
  assumes "snd (parseGlobalFlags args) = ''events'' # ''get'' # rest"
    and "\<not> truthyStr (firstArg rest)"
  shows "failsWith (main W args) ''Event ID is required''"
proof -
  have "main W args
      = ([printError ''Event ID is required'' (pretty (fst (parseGlobalFlags args)))], 1)"
    using assms
    by (simp add: main_def dispatch_def handleEvents_def isHelp_def failWith_def)
  then show ?thesis using failsWith_printError [OF plain_event_id_required] by simp
qed

lemma main_events_runs:
  assumes "snd (parseGlobalFlags args) = ''events'' # ''runs'' # rest"
    and "\<not> truthyStr (firstArg rest)"
  shows "failsWith (main W args) ''Event ID is required''"
proof -
  have "main W args
      = ([printError ''Event ID is required'' (pretty (fst (parseGlobalFlags args)))], 1)"
    using assms
    by (simp add: main_def dispatch_def handleEvents_def isHelp_def failWith_def)
  then show ?thesis using failsWith_printError [OF plain_event_id_required] by simp
qed

lemma main_runs_get:
  assumes "snd (parseGlobalFlags args) = ''runs'' # ''get'' # rest"
    and "\<not> truthyStr (firstArg rest)"
  shows "failsWith (main W args) ''Run ID is required''"
proof -
  have "main W args
      = ([printError ''Run ID is required'' (pretty (fst (parseGlobalFlags args)))], 1)"
    using assms
    by (simp add: main_def dispatch_def handleRuns_def isHelp_def failWith_def)
  then show ?thesis using failsWith_printError [OF plain_run_id_required] by simp
qed

lemma main_runs_list:
  assumes "snd (parseGlobalFlags args) = ''runs'' # ''list'' # rest"
    and "\<not> truthyStr (parseNamedArgs rest ''event'')"
  shows "failsWith (main W args) ''--event is required''"
proof -
  have "main W args
      = ([printError ''--event is required'' (pretty (fst (parseGlobalFlags args)))], 1)"
    using assms
    by (simp add: main_def dispatch_def handleRuns_def isHelp_def failWith_def)
  then show ?thesis using failsWith_printError [OF plain_event_required] by simp
qed

lemma main_runs_status:
  assumes "snd (parseGlobalFlags args) = ''runs'' # ''status'' # rest"
    and "\<not> truthyStr (firstArg rest)"
  shows "failsWith (main W args) ''Run ID is required''"
proof -
  have "main W args
      = ([printError ''Run ID is required'' (pretty (fst (parseGlobalFlags args)))], 1)"
    using assms
    by (simp add: main_def dispatch_def handleRuns_def isHelp_def failWith_def)
  then show ?thesis using failsWith_printError [OF plain_run_id_required] by simp
qed

lemma main_cancel_app:
  assumes "snd (parseGlobalFlags args) = ''cancel'' # rest"
    and "\<not> truthyStr (parseNamedArgs rest ''app'')"
  shows "failsWith (main W args) ''--app is required''"
proof -
  have "main W args
      = ([printError ''--app is required'' (pretty (fst (parseGlobalFlags args)))], 1)"
    using assms by (simp add: main_def dispatch_def handleCancel_def failWith_def)
  then show ?thesis using failsWith_printError [OF plain_app_required] by simp
qed

lemma main_cancel_function:
  assumes "snd (parseGlobalFlags args) = ''cancel'' # rest"
    and "truthyStr (parseNamedArgs rest ''app'')"
    and "\<not> truthyStr (parseNamedArgs rest ''function'')"
  shows "failsWith (main W args) ''--function is required''"
proof -
  have "main W args
      = ([printError ''--function is required'' (pretty (fst (parseGlobalFlags args)))], 1)"
    using assms by (simp add: main_def dispatch_def handleCancel_def failWith_def)
  then show ?thesis using failsWith_printError [OF plain_function_required] by simp
qed

lemma main_cancel_after:
  assumes "snd (parseGlobalFlags args) = ''cancel'' # rest"
    and "truthyStr (parseNamedArgs rest ''app'')"
    and "truthyStr (parseNamedArgs rest ''function'')"
    and "\<not> truthyStr (parseNamedArgs rest ''started-after'')"
  shows "failsWith (main W args) ''--started-after is required''"
proof -
  have "main W args
      = ([printError ''--started-after is required'' (pretty (fst (parseGlobalFlags args)))], 1)"
    using assms by (simp add: main_def dispatch_def handleCancel_def failWith_def)
  then show ?thesis using failsWith_printError [OF plain_after_required] by simp
qed

lemma main_cancel_before:
  assumes "snd (parseGlobalFlags args) = ''cancel'' # rest"
    and "truthyStr (parseNamedArgs rest ''app'')"
    and "truthyStr (parseNamedArgs rest ''function'')"
    and "truthyStr (parseNamedArgs rest ''started-after'')"
    and "\<not> truthyStr (parseNamedArgs rest ''started-before'')"
  shows "failsWith (main W args) ''--started-before is required''"
proof -
  have "main W args
      = ([printError ''--started-before is required'' (pretty (fst (parseGlobalFlags args)))], 1)"
    using assms by (simp add: main_def dispatch_def handleCancel_def failWith_def)
  then show ?thesis using failsWith_printError [OF plain_before_required] by simp
qed

section \<open>Required arguments of the command router\<close>

lemma startsWith_key:
  assumes "startsWith arg ''--''" and "take n (drop 2 arg) = k"
  shows "startsWith arg (''--'' @ k)"
proof -
  from assms(1) have t: "take 2 arg = ''--''" by (simp add: startsWith_def numeral_2_eq_2)
  have a: "arg = take 2 arg @ drop 2 arg" by (simp only: append_take_drop_id)
  have b: "drop 2 arg = take n (drop 2 arg) @ drop n (drop 2 arg)"
    by (simp only: append_take_drop_id)
  have "arg = (''--'' @ k) @ drop n (drop 2 arg)"
    using a b t assms(2) by (metis append.assoc)
  then show ?thesis using startsWith_append by metis
qed

lemma setProp_other: "key \<noteq> k \<Longrightarrow> setProp result key v k = result k"
  by (simp add: setProp_def)

lemma parseNamedArgsLoop_absent:
  assumes "\<forall>tok\<in>set args. \<not> startsWith tok (''--'' @ k)"
  shows "parseNamedArgsLoop args acc k = acc k"
  using assms
proof (induction args acc rule: parseNamedArgsLoop.induct)
  case (1 result)
  then show ?case by simp
next
  case (2 arg rest result)
  have no: "\<not> startsWith arg (''--'' @ k)" using "2.prems" by simp
  have rest: "\<forall>tok\<in>set rest. \<not> startsWith tok (''--'' @ k)" using "2.prems" by simp
  have k1: "slice arg 2 n \<noteq> k" if "startsWith arg ''--''" for n
    using no startsWith_key [OF that, of "n - 2" k] by (auto simp: slice_def)
  have k2: "sliceFrom arg 2 \<noteq> k" if "startsWith arg ''--''"
    using no startsWith_key [OF that, of "length arg" k] by (auto simp: sliceFrom_def)
  show ?case
  proof (cases "startsWith arg ''--''")
    case False
    then show ?thesis using "2.IH" rest by simp
  next
    case True
    show ?thesis
    proof (cases "indexOf arg (CHR ''='') \<noteq> - 1")
      case eq: True
      then show ?thesis
        using True "2.IH" rest k1 [OF True]
        by (simp del: append.simps add: setProp_other Let_def)
    next
      case eq: False
      show ?thesis
      proof (cases rest)
        case Nil
        then show ?thesis using True eq by simp
      next
        case (Cons nxt rest')
        have rest': "\<forall>tok\<in>set rest'. \<not> startsWith tok (''--'' @ k)"
          using rest Cons by simp
        show ?thesis
        proof (cases "startsWith nxt ''--''")
          case n: True
          then show ?thesis
            using True eq Cons "2.IH" rest by (simp del: append.simps add: Let_def)
        next
          case n: False
          then show ?thesis
            using True eq Cons "2.IH" rest' k2 [OF True]
            by (simp del: append.simps add: setProp_other Let_def)
        qed
      qed
    qed
  qed
qed

lemma parseNamedArgs_absent:
  "\<forall>tok\<in>set args. \<not> startsWith tok (''--'' @ k) \<Longrightarrow> parseNamedArgs args k = None"
  using parseNamedArgsLoop_absent [of args k Map.empty] by (simp add: parseNamedArgs_def)

text \<open>
  Claim C7 (amended). Every required-argument check of the router fails fast: the
  program writes one line to stderr, which contains the message of the check, prints
  nothing else, makes no request and exits with code 1. The checks of a command are
  made in the order of the source, and a check is reached when the ones before it
  pass. With the positional arguments \<^verbatim>\<open>events send ...\<close>: "--name is required" when
  the parsed flags hold no non-empty \<^verbatim>\<open>name\<close>; "--data or --data-file is required"
  when the name is given and neither \<^verbatim>\<open>data\<close> nor \<^verbatim>\<open>data-file\<close> is. With
  \<^verbatim>\<open>events get\<close> and \<^verbatim>\<open>events runs\<close>: "Event ID is required" when no non-empty
  argument follows. With \<^verbatim>\<open>runs get\<close> and \<^verbatim>\<open>runs status\<close>: "Run ID is required"
  when no non-empty argument follows. With \<^verbatim>\<open>runs list\<close>: "--event is required"
  when there is no non-empty \<^verbatim>\<open>event\<close>. With \<^verbatim>\<open>cancel\<close>: "--app is required",
  "--function is required", "--started-after is required" and "--started-before is
  required", for the first of the four flags that has no non-empty value. The parsed
  flags hold no value for a key when no token starts with \<^verbatim>\<open>--\<close> followed by the key.
\<close>

theorem required_argument_checks:
  "(snd (parseGlobalFlags args) = ''events'' # ''send'' # rest
      \<and> \<not> truthyStr (parseNamedArgs rest ''name'')
    \<longrightarrow> failsWith (main W args) ''--name is required'')
   \<and> (snd (parseGlobalFlags args) = ''events'' # ''send'' # rest
      \<and> truthyStr (parseNamedArgs rest ''name'')
      \<and> \<not> truthyStr (parseNamedArgs rest ''data'')
      \<and> \<not> truthyStr (parseNamedArgs rest ''data-file'')
    \<longrightarrow> failsWith (main W args) ''--data or --data-file is required'')
   \<and> (snd (parseGlobalFlags args) = ''events'' # ''get'' # rest \<and> \<not> truthyStr (firstArg rest)
    \<longrightarrow> failsWith (main W args) ''Event ID is required'')
   \<and> (snd (parseGlobalFlags args) = ''events'' # ''runs'' # rest \<and> \<not> truthyStr (firstArg rest)
    \<longrightarrow> failsWith (main W args) ''Event ID is required'')
   \<and> (snd (parseGlobalFlags args) = ''runs'' # ''get'' # rest \<and> \<not> truthyStr (firstArg rest)
    \<longrightarrow> failsWith (main W args) ''Run ID is required'')
   \<and> (snd (parseGlobalFlags args) = ''runs'' # ''list'' # rest
      \<and> \<not> truthyStr (parseNamedArgs rest ''event'')
    \<longrightarrow> failsWith (main W args) ''--event is required'')
   \<and> (snd (parseGlobalFlags args) = ''runs'' # ''status'' # rest \<and> \<not> truthyStr (firstArg rest)
    \<longrightarrow> failsWith (main W args) ''Run ID is required'')
   \<and> (snd (parseGlobalFlags args) = ''cancel'' # rest
      \<and> \<not> truthyStr (parseNamedArgs rest ''app'')
    \<longrightarrow> failsWith (main W args) ''--app is required'')
   \<and> (snd (parseGlobalFlags args) = ''cancel'' # rest
      \<and> truthyStr (parseNamedArgs rest ''app'')
      \<and> \<not> truthyStr (parseNamedArgs rest ''function'')
    \<longrightarrow> failsWith (main W args) ''--function is required'')
   \<and> (snd (parseGlobalFlags args) = ''cancel'' # rest
      \<and> truthyStr (parseNamedArgs rest ''app'')
      \<and> truthyStr (parseNamedArgs rest ''function'')
      \<and> \<not> truthyStr (parseNamedArgs rest ''started-after'')
    \<longrightarrow> failsWith (main W args) ''--started-after is required'')
   \<and> (snd (parseGlobalFlags args) = ''cancel'' # rest
      \<and> truthyStr (parseNamedArgs rest ''app'')
      \<and> truthyStr (parseNamedArgs rest ''function'')
      \<and> truthyStr (parseNamedArgs rest ''started-after'')
      \<and> \<not> truthyStr (parseNamedArgs rest ''started-before'')
    \<longrightarrow> failsWith (main W args) ''--started-before is required'')
   \<and> ((\<forall>tok\<in>set rest. \<not> startsWith tok (''--'' @ k))
    \<longrightarrow> \<not> truthyStr (parseNamedArgs rest k))"
proof (intro conjI impI)
  assume "snd (parseGlobalFlags args) = ''events'' # ''send'' # rest
      \<and> \<not> truthyStr (parseNamedArgs rest ''name'')"
  then show "failsWith (main W args) ''--name is required''"
    using main_send_name by blast
next
  assume "snd (parseGlobalFlags args) = ''events'' # ''send'' # rest
      \<and> truthyStr (parseNamedArgs rest ''name'')
      \<and> \<not> truthyStr (parseNamedArgs rest ''data'')
      \<and> \<not> truthyStr (parseNamedArgs rest ''data-file'')"
  then show "failsWith (main W args) ''--data or --data-file is required''"
    using main_send_data by blast
next
  assume "snd (parseGlobalFlags args) = ''events'' # ''get'' # rest \<and> \<not> truthyStr (firstArg rest)"
  then show "failsWith (main W args) ''Event ID is required''"
    using main_events_get by blast
next
  assume "snd (parseGlobalFlags args) = ''events'' # ''runs'' # rest \<and> \<not> truthyStr (firstArg rest)"
  then show "failsWith (main W args) ''Event ID is required''"
    using main_events_runs by blast
next
  assume "snd (parseGlobalFlags args) = ''runs'' # ''get'' # rest \<and> \<not> truthyStr (firstArg rest)"
  then show "failsWith (main W args) ''Run ID is required''"
    using main_runs_get by blast
next
  assume "snd (parseGlobalFlags args) = ''runs'' # ''list'' # rest
      \<and> \<not> truthyStr (parseNamedArgs rest ''event'')"
  then show "failsWith (main W args) ''--event is required''"
    using main_runs_list by blast
next
  assume "snd (parseGlobalFlags args) = ''runs'' # ''status'' # rest \<and> \<not> truthyStr (firstArg rest)"
  then show "failsWith (main W args) ''Run ID is required''"
    using main_runs_status by blast
next
  assume "snd (parseGlobalFlags args) = ''cancel'' # rest
      \<and> \<not> truthyStr (parseNamedArgs rest ''app'')"
  then show "failsWith (main W args) ''--app is required''"
    using main_cancel_app by blast
next
  assume "snd (parseGlobalFlags args) = ''cancel'' # rest
      \<and> truthyStr (parseNamedArgs rest ''app'')
      \<and> \<not> truthyStr (parseNamedArgs rest ''function'')"
  then show "failsWith (main W args) ''--function is required''"
    using main_cancel_function by blast
next
  assume "snd (parseGlobalFlags args) = ''cancel'' # rest
      \<and> truthyStr (parseNamedArgs rest ''app'')
      \<and> truthyStr (parseNamedArgs rest ''function'')
      \<and> \<not> truthyStr (parseNamedArgs rest ''started-after'')"
  then show "failsWith (main W args) ''--started-after is required''"
    using main_cancel_after by blast
next
  assume "snd (parseGlobalFlags args) = ''cancel'' # rest
      \<and> truthyStr (parseNamedArgs rest ''app'')
      \<and> truthyStr (parseNamedArgs rest ''function'')
      \<and> truthyStr (parseNamedArgs rest ''started-after'')
      \<and> \<not> truthyStr (parseNamedArgs rest ''started-before'')"
  then show "failsWith (main W args) ''--started-before is required''"
    using main_cancel_before by blast
next
  assume "\<forall>tok\<in>set rest. \<not> startsWith tok (''--'' @ k)"
  then have "parseNamedArgs rest k = None" by (rule parseNamedArgs_absent)
  then show "\<not> truthyStr (parseNamedArgs rest k)" by (simp add: truthyStr_def)
qed

theorem required_argument_checks_witness:
  "(snd (parseGlobalFlags [''events'', ''send'', ''--data'', ''{}'', ''--dev''])
        = ''events'' # ''send'' # [''--data'', ''{}'']
    \<and> \<not> truthyStr (parseNamedArgs [''--data'', ''{}''] ''name'')
    \<and> failsWith (main examplePlatform [''events'', ''send'', ''--data'', ''{}'', ''--dev''])
        ''--name is required'')
   \<and> (snd (parseGlobalFlags [''events'', ''send'', ''--name'', ''test'', ''--dev''])
        = ''events'' # ''send'' # [''--name'', ''test'']
    \<and> truthyStr (parseNamedArgs [''--name'', ''test''] ''name'')
    \<and> \<not> truthyStr (parseNamedArgs [''--name'', ''test''] ''data'')
    \<and> \<not> truthyStr (parseNamedArgs [''--name'', ''test''] ''data-file'')
    \<and> failsWith (main examplePlatform [''events'', ''send'', ''--name'', ''test'', ''--dev''])
        ''--data or --data-file is required'')
   \<and> (snd (parseGlobalFlags [''events'', ''get'', ''--dev''])
        = ''events'' # ''get'' # []
    \<and> \<not> truthyStr (firstArg [])
    \<and> failsWith (main examplePlatform [''events'', ''get'', ''--dev''])
        ''Event ID is required'')
   \<and> (snd (parseGlobalFlags [''events'', ''runs'', ''--pretty''])
        = ''events'' # ''runs'' # []
    \<and> \<not> truthyStr (firstArg [])
    \<and> failsWith (main examplePlatform [''events'', ''runs'', ''--pretty''])
        ''Event ID is required'')
   \<and> (snd (parseGlobalFlags [''runs'', ''get'', ''--dev''])
        = ''runs'' # ''get'' # []
    \<and> \<not> truthyStr (firstArg [])
    \<and> failsWith (main examplePlatform [''runs'', ''get'', ''--dev''])
        ''Run ID is required'')
   \<and> (snd (parseGlobalFlags [''runs'', ''list'', ''--dev''])
        = ''runs'' # ''list'' # []
    \<and> \<not> truthyStr (parseNamedArgs [] ''event'')
    \<and> failsWith (main examplePlatform [''runs'', ''list'', ''--dev''])
        ''--event is required'')
   \<and> (snd (parseGlobalFlags [''runs'', ''status'', ''--pretty''])
        = ''runs'' # ''status'' # []
    \<and> \<not> truthyStr (firstArg [])
    \<and> failsWith (main examplePlatform [''runs'', ''status'', ''--pretty''])
        ''Run ID is required'')
   \<and> (snd (parseGlobalFlags [''cancel'', ''--function'', ''f''])
        = ''cancel'' # [''--function'', ''f'']
    \<and> \<not> truthyStr (parseNamedArgs [''--function'', ''f''] ''app'')
    \<and> failsWith (main examplePlatform [''cancel'', ''--function'', ''f''])
        ''--app is required'')
   \<and> (snd (parseGlobalFlags [''cancel'', ''--app'', ''a''])
        = ''cancel'' # [''--app'', ''a'']
    \<and> truthyStr (parseNamedArgs [''--app'', ''a''] ''app'')
    \<and> \<not> truthyStr (parseNamedArgs [''--app'', ''a''] ''function'')
    \<and> failsWith (main examplePlatform [''cancel'', ''--app'', ''a''])
        ''--function is required'')
   \<and> (snd (parseGlobalFlags [''cancel'', ''--app'', ''a'', ''--function'', ''f''])
        = ''cancel'' # [''--app'', ''a'', ''--function'', ''f'']
    \<and> truthyStr (parseNamedArgs [''--app'', ''a'', ''--function'', ''f''] ''app'')
    \<and> truthyStr (parseNamedArgs [''--app'', ''a'', ''--function'', ''f''] ''function'')
    \<and> \<not> truthyStr (parseNamedArgs [''--app'', ''a'', ''--function'', ''f''] ''started-after'')
    \<and> failsWith (main examplePlatform [''cancel'', ''--app'', ''a'', ''--function'', ''f''])
        ''--started-after is required'')
   \<and> (snd (parseGlobalFlags [''cancel'', ''--app'', ''a'', ''--function'', ''f'', ''--started-after'', ''1h''])
        = ''cancel'' # [''--app'', ''a'', ''--function'', ''f'', ''--started-after'', ''1h'']
    \<and> truthyStr (parseNamedArgs [''--app'', ''a'', ''--function'', ''f'', ''--started-after'', ''1h''] ''app'')
    \<and> truthyStr (parseNamedArgs [''--app'', ''a'', ''--function'', ''f'', ''--started-after'', ''1h''] ''function'')
    \<and> truthyStr (parseNamedArgs [''--app'', ''a'', ''--function'', ''f'', ''--started-after'', ''1h''] ''started-after'')
    \<and> \<not> truthyStr (parseNamedArgs [''--app'', ''a'', ''--function'', ''f'', ''--started-after'', ''1h''] ''started-before'')
    \<and> failsWith (main examplePlatform [''cancel'', ''--app'', ''a'', ''--function'', ''f'', ''--started-after'', ''1h''])
        ''--started-before is required'')
   \<and> (list_all (\<lambda>tok. \<not> startsWith tok (''--'' @ ''name'')) [''--data'', ''{}'']
    \<and> \<not> truthyStr (parseNamedArgs [''--data'', ''{}''] ''name''))"
proof -
  have g1: "snd (parseGlobalFlags [''events'', ''send'', ''--data'', ''{}'', ''--dev''])
        = ''events'' # ''send'' # [''--data'', ''{}'']"
    by code_simp
  have n1a: "\<not> truthyStr (parseNamedArgs [''--data'', ''{}''] ''name'')"
    by code_simp
  have f1: "failsWith (main examplePlatform [''events'', ''send'', ''--data'', ''{}'', ''--dev''])
        ''--name is required''"
    by (rule required_argument_checks [of
        "[''events'', ''send'', ''--data'', ''{}'', ''--dev'']"
        "[''--data'', ''{}'']" examplePlatform,
        THEN conjunct1, THEN mp])
       (intro conjI g1 n1a)
  have g2: "snd (parseGlobalFlags [''events'', ''send'', ''--name'', ''test'', ''--dev''])
        = ''events'' # ''send'' # [''--name'', ''test'']"
    by code_simp
  have n2a: "truthyStr (parseNamedArgs [''--name'', ''test''] ''name'')"
    by code_simp
  have n2b: "\<not> truthyStr (parseNamedArgs [''--name'', ''test''] ''data'')"
    by code_simp
  have n2c: "\<not> truthyStr (parseNamedArgs [''--name'', ''test''] ''data-file'')"
    by code_simp
  have f2: "failsWith (main examplePlatform [''events'', ''send'', ''--name'', ''test'', ''--dev''])
        ''--data or --data-file is required''"
    by (rule required_argument_checks [of
        "[''events'', ''send'', ''--name'', ''test'', ''--dev'']"
        "[''--name'', ''test'']" examplePlatform,
        THEN conjunct2, THEN conjunct1, THEN mp])
       (intro conjI g2 n2a n2b n2c)
  have g3: "snd (parseGlobalFlags [''events'', ''get'', ''--dev''])
        = ''events'' # ''get'' # []"
    by code_simp
  have n3a: "\<not> truthyStr (firstArg [])"
    by code_simp
  have f3: "failsWith (main examplePlatform [''events'', ''get'', ''--dev''])
        ''Event ID is required''"
    by (rule required_argument_checks [of "[''events'', ''get'', ''--dev'']" "[]" examplePlatform,
        THEN conjunct2, THEN conjunct2, THEN conjunct1, THEN mp])
       (intro conjI g3 n3a)
  have g4: "snd (parseGlobalFlags [''events'', ''runs'', ''--pretty''])
        = ''events'' # ''runs'' # []"
    by code_simp
  have n4a: "\<not> truthyStr (firstArg [])"
    by code_simp
  have f4: "failsWith (main examplePlatform [''events'', ''runs'', ''--pretty''])
        ''Event ID is required''"
    by (rule required_argument_checks [of "[''events'', ''runs'', ''--pretty'']"
        "[]" examplePlatform,
        THEN conjunct2, THEN conjunct2, THEN conjunct2, THEN conjunct1, THEN mp])
       (intro conjI g4 n4a)
  have g5: "snd (parseGlobalFlags [''runs'', ''get'', ''--dev''])
        = ''runs'' # ''get'' # []"
    by code_simp
  have n5a: "\<not> truthyStr (firstArg [])"
    by code_simp
  have f5: "failsWith (main examplePlatform [''runs'', ''get'', ''--dev''])
        ''Run ID is required''"
    by (rule required_argument_checks [of "[''runs'', ''get'', ''--dev'']" "[]" examplePlatform,
        THEN conjunct2, THEN conjunct2, THEN conjunct2, THEN conjunct2, THEN conjunct1, THEN mp])
       (intro conjI g5 n5a)
  have g6: "snd (parseGlobalFlags [''runs'', ''list'', ''--dev''])
        = ''runs'' # ''list'' # []"
    by code_simp
  have n6a: "\<not> truthyStr (parseNamedArgs [] ''event'')"
    by code_simp
  have f6: "failsWith (main examplePlatform [''runs'', ''list'', ''--dev''])
        ''--event is required''"
    by (rule required_argument_checks [of "[''runs'', ''list'', ''--dev'']" "[]" examplePlatform,
        THEN conjunct2, THEN conjunct2, THEN conjunct2, THEN conjunct2, THEN conjunct2,
        THEN conjunct1, THEN mp])
       (intro conjI g6 n6a)
  have g7: "snd (parseGlobalFlags [''runs'', ''status'', ''--pretty''])
        = ''runs'' # ''status'' # []"
    by code_simp
  have n7a: "\<not> truthyStr (firstArg [])"
    by code_simp
  have f7: "failsWith (main examplePlatform [''runs'', ''status'', ''--pretty''])
        ''Run ID is required''"
    by (rule required_argument_checks [of "[''runs'', ''status'', ''--pretty'']"
        "[]" examplePlatform,
        THEN conjunct2, THEN conjunct2, THEN conjunct2, THEN conjunct2, THEN conjunct2,
        THEN conjunct2, THEN conjunct1, THEN mp])
       (intro conjI g7 n7a)
  have g8: "snd (parseGlobalFlags [''cancel'', ''--function'', ''f''])
        = ''cancel'' # [''--function'', ''f'']"
    by code_simp
  have n8a: "\<not> truthyStr (parseNamedArgs [''--function'', ''f''] ''app'')"
    by code_simp
  have f8: "failsWith (main examplePlatform [''cancel'', ''--function'', ''f''])
        ''--app is required''"
    by (rule required_argument_checks [of "[''cancel'', ''--function'', ''f'']"
        "[''--function'', ''f'']" examplePlatform,
        THEN conjunct2, THEN conjunct2, THEN conjunct2, THEN conjunct2, THEN conjunct2,
        THEN conjunct2, THEN conjunct2, THEN conjunct1, THEN mp])
       (intro conjI g8 n8a)
  have g9: "snd (parseGlobalFlags [''cancel'', ''--app'', ''a''])
        = ''cancel'' # [''--app'', ''a'']"
    by code_simp
  have n9a: "truthyStr (parseNamedArgs [''--app'', ''a''] ''app'')"
    by code_simp
  have n9b: "\<not> truthyStr (parseNamedArgs [''--app'', ''a''] ''function'')"
    by code_simp
  have f9: "failsWith (main examplePlatform [''cancel'', ''--app'', ''a''])
        ''--function is required''"
    by (rule required_argument_checks [of "[''cancel'', ''--app'', ''a'']"
        "[''--app'', ''a'']" examplePlatform,
        THEN conjunct2, THEN conjunct2, THEN conjunct2, THEN conjunct2, THEN conjunct2,
        THEN conjunct2, THEN conjunct2, THEN conjunct2, THEN conjunct1, THEN mp])
       (intro conjI g9 n9a n9b)
  have g10: "snd (parseGlobalFlags [''cancel'', ''--app'', ''a'', ''--function'', ''f''])
        = ''cancel'' # [''--app'', ''a'', ''--function'', ''f'']"
    by code_simp
  have n10a: "truthyStr (parseNamedArgs [''--app'', ''a'', ''--function'', ''f''] ''app'')"
    by code_simp
  have n10b: "truthyStr (parseNamedArgs [''--app'', ''a'', ''--function'', ''f''] ''function'')"
    by code_simp
  have n10c: "\<not> truthyStr (parseNamedArgs [''--app'', ''a'', ''--function'', ''f''] ''started-after'')"
    by code_simp
  have f10: "failsWith (main examplePlatform [''cancel'', ''--app'', ''a'', ''--function'', ''f''])
        ''--started-after is required''"
    by (rule required_argument_checks [of
        "[''cancel'', ''--app'', ''a'', ''--function'', ''f'']"
        "[''--app'', ''a'', ''--function'', ''f'']" examplePlatform,
        THEN conjunct2, THEN conjunct2, THEN conjunct2, THEN conjunct2, THEN conjunct2,
        THEN conjunct2, THEN conjunct2, THEN conjunct2, THEN conjunct2, THEN conjunct1, THEN mp])
       (intro conjI g10 n10a n10b n10c)
  have g11: "snd (parseGlobalFlags [''cancel'', ''--app'', ''a'', ''--function'', ''f'', ''--started-after'', ''1h''])
        = ''cancel'' # [''--app'', ''a'', ''--function'', ''f'', ''--started-after'', ''1h'']"
    by code_simp
  have n11a: "truthyStr (parseNamedArgs [''--app'', ''a'', ''--function'', ''f'', ''--started-after'', ''1h''] ''app'')"
    by code_simp
  have n11b: "truthyStr (parseNamedArgs [''--app'', ''a'', ''--function'', ''f'', ''--started-after'', ''1h''] ''function'')"
    by code_simp
  have n11c: "truthyStr (parseNamedArgs [''--app'', ''a'', ''--function'', ''f'', ''--started-after'', ''1h''] ''started-after'')"
    by code_simp
  have n11d: "\<not> truthyStr (parseNamedArgs [''--app'', ''a'', ''--function'', ''f'', ''--started-after'', ''1h''] ''started-before'')"
    by code_simp
  have f11: "failsWith (main examplePlatform [''cancel'', ''--app'', ''a'', ''--function'', ''f'', ''--started-after'', ''1h''])
        ''--started-before is required''"
    by (rule required_argument_checks [of
        "[''cancel'', ''--app'', ''a'', ''--function'', ''f'', ''--started-after'', ''1h'']"
        "[''--app'', ''a'', ''--function'', ''f'', ''--started-after'', ''1h'']" examplePlatform,
        THEN conjunct2, THEN conjunct2, THEN conjunct2, THEN conjunct2, THEN conjunct2,
        THEN conjunct2, THEN conjunct2, THEN conjunct2, THEN conjunct2, THEN conjunct2,
        THEN conjunct1, THEN mp])
       (intro conjI g11 n11a n11b n11c n11d)
  have t: "list_all (\<lambda>tok. \<not> startsWith tok (''--'' @ ''name'')) [''--data'', ''{}'']"
    by code_simp
  have t2: "\<forall>tok\<in>set [''--data'', ''{}'']. \<not> startsWith tok (''--'' @ ''name'')"
    using t by (simp only: list_all_iff)
  have u: "\<not> truthyStr (parseNamedArgs [''--data'', ''{}''] ''name'')"
    by (rule required_argument_checks [of "[]" "[''--data'', ''{}'']" examplePlatform "''name''",
        THEN conjunct2, THEN conjunct2, THEN conjunct2, THEN conjunct2, THEN conjunct2,
        THEN conjunct2, THEN conjunct2, THEN conjunct2, THEN conjunct2, THEN conjunct2,
        THEN conjunct2, THEN mp, OF t2])
  show ?thesis
    by (intro conjI g1 n1a f1 g2 n2a n2b n2c f2 g3 n3a f3 g4 n4a f4 g5 n5a f5 g6 n6a f6 g7 n7a f7 g8 n8a f8 g9 n9a n9b f9 g10 n10a n10b n10c f10 g11 n11a n11b n11c n11d f11 t u)
qed

text \<open>
  The claim as stated fails for \<^verbatim>\<open>events send\<close> with neither \<^verbatim>\<open>--data\<close> nor
  \<^verbatim>\<open>--data-file\<close> when the name is missing too: the check of the name comes first,
  and the one line on stderr is "--name is required".
\<close>

theorem required_argument_checks_counterexample:
  "snd (parseGlobalFlags [''events'', ''send'', ''--dev'']) = [''events'', ''send'']
   \<and> \<not> truthyStr (parseNamedArgs [] ''data'')
   \<and> \<not> truthyStr (parseNamedArgs [] ''data-file'')
   \<and> main examplePlatform [''events'', ''send'', ''--dev'']
       = ([ConsoleError (''{'' @ [CHR 0x22] @ ''error'' @ [CHR 0x22] @ '':'' @ [CHR 0x22]
                         @ ''--name is required'' @ [CHR 0x22] @ ''}'')], 1)
   \<and> failsWith (main examplePlatform [''events'', ''send'', ''--dev'']) ''--name is required''
   \<and> \<not> failsWith (main examplePlatform [''events'', ''send'', ''--dev''])
          ''--data or --data-file is required''"
  by code_simp

section \<open>The named-flag parser drops a flag without a value\<close>

lemma parseNamedArgsLoop_skip:
  assumes "startsWith tok ''--''" and "CHR ''='' \<notin> set tok"
    and "post = [] \<or> startsWith (hd post) ''--''"
  shows "parseNamedArgsLoop (pre @ tok # post) acc = parseNamedArgsLoop (pre @ post) acc"
  using assms
proof (induction pre acc rule: parseNamedArgsLoop.induct)
  case (1 result)
  then show ?case by (cases post) (auto simp: indexOf_def)
next
  case (2 arg rest result)
  then show ?case
    by (cases rest; cases post) (auto simp: indexOf_def Let_def split: list.splits)
qed

lemma parseNamedArgs_skip:
  assumes "startsWith tok ''--'' \<and> CHR ''='' \<notin> set tok
           \<and> (post = [] \<or> startsWith (hd post) ''--'')"
  shows "parseNamedArgs (pre @ tok # post) = parseNamedArgs (pre @ post)"
  unfolding parseNamedArgs_def using assms by (intro parseNamedArgsLoop_skip) auto

lemma not_truthyStr_None: "\<not> truthyStr None"
  by (simp add: truthyStr_def)

text \<open>
  Claim C10 (amended). In \<open>parseNamedArgs\<close>, a token that starts with \<^verbatim>\<open>--\<close>,
  contains no \<^verbatim>\<open>=\<close> and is the last token or is followed by a token that starts
  with \<^verbatim>\<open>--\<close> is dropped: the parsed map is the one of the arguments without that
  token, so the key gets no entry from it and no error is raised. As a consequence,
  when no other token gives the key a value, the key has no value, and the
  required-argument check of the flag reports it as missing once the checks before it
  pass: "--name is required" and "--data or --data-file is required" of
  \<^verbatim>\<open>events send\<close> (the latter for a bare \<^verbatim>\<open>--data\<close> without a data file and for a
  bare \<^verbatim>\<open>--data-file\<close> without inline data), "--event is required" of
  \<^verbatim>\<open>runs list\<close>, and "--app is required", "--function is required",
  "--started-after is required" and "--started-before is required" of \<^verbatim>\<open>cancel\<close>,
  each as the one line on stderr with exit code 1.
\<close>

theorem parseNamedArgs_drops_valueless_flag:
  "startsWith tok ''--'' \<and> CHR ''='' \<notin> set tok \<and> (post = [] \<or> startsWith (hd post) ''--'') \<longrightarrow>
     parseNamedArgs (pre @ tok # post) = parseNamedArgs (pre @ post)
     \<and> (parseNamedArgs (pre @ post) (sliceFrom tok 2) = None \<longrightarrow>
          parseNamedArgs (pre @ tok # post) (sliceFrom tok 2) = None
          \<and> (tok = ''--name''
              \<and> snd (parseGlobalFlags args) = ''events'' # ''send'' # pre @ tok # post
             \<longrightarrow> failsWith (main W args) ''--name is required'')
          \<and> (tok = ''--data''
              \<and> snd (parseGlobalFlags args) = ''events'' # ''send'' # pre @ tok # post
              \<and> truthyStr (parseNamedArgs (pre @ post) ''name'')
              \<and> \<not> truthyStr (parseNamedArgs (pre @ post) ''data-file'')
             \<longrightarrow> failsWith (main W args) ''--data or --data-file is required'')
          \<and> (tok = ''--data-file''
              \<and> snd (parseGlobalFlags args) = ''events'' # ''send'' # pre @ tok # post
              \<and> truthyStr (parseNamedArgs (pre @ post) ''name'')
              \<and> \<not> truthyStr (parseNamedArgs (pre @ post) ''data'')
             \<longrightarrow> failsWith (main W args) ''--data or --data-file is required'')
          \<and> (tok = ''--event''
              \<and> snd (parseGlobalFlags args) = ''runs'' # ''list'' # pre @ tok # post
             \<longrightarrow> failsWith (main W args) ''--event is required'')
          \<and> (tok = ''--app''
              \<and> snd (parseGlobalFlags args) = ''cancel'' # pre @ tok # post
             \<longrightarrow> failsWith (main W args) ''--app is required'')
          \<and> (tok = ''--function''
              \<and> snd (parseGlobalFlags args) = ''cancel'' # pre @ tok # post
              \<and> truthyStr (parseNamedArgs (pre @ post) ''app'')
             \<longrightarrow> failsWith (main W args) ''--function is required'')
          \<and> (tok = ''--started-after''
              \<and> snd (parseGlobalFlags args) = ''cancel'' # pre @ tok # post
              \<and> truthyStr (parseNamedArgs (pre @ post) ''app'')
              \<and> truthyStr (parseNamedArgs (pre @ post) ''function'')
             \<longrightarrow> failsWith (main W args) ''--started-after is required'')
          \<and> (tok = ''--started-before''
              \<and> snd (parseGlobalFlags args) = ''cancel'' # pre @ tok # post
              \<and> truthyStr (parseNamedArgs (pre @ post) ''app'')
              \<and> truthyStr (parseNamedArgs (pre @ post) ''function'')
              \<and> truthyStr (parseNamedArgs (pre @ post) ''started-after'')
             \<longrightarrow> failsWith (main W args) ''--started-before is required''))"
proof (intro impI conjI)
  assume h: "startsWith tok ''--'' \<and> CHR ''='' \<notin> set tok
             \<and> (post = [] \<or> startsWith (hd post) ''--'')"
  show "parseNamedArgs (pre @ tok # post) = parseNamedArgs (pre @ post)"
    using h by (rule parseNamedArgs_skip)
next
  assume h: "startsWith tok ''--'' \<and> CHR ''='' \<notin> set tok
             \<and> (post = [] \<or> startsWith (hd post) ''--'')"
    and n: "parseNamedArgs (pre @ post) (sliceFrom tok 2) = None"
  show "parseNamedArgs (pre @ tok # post) (sliceFrom tok 2) = None"
    using n by (simp only: parseNamedArgs_skip [OF h])
next
  assume h: "startsWith tok ''--'' \<and> CHR ''='' \<notin> set tok
             \<and> (post = [] \<or> startsWith (hd post) ''--'')"
    and n: "parseNamedArgs (pre @ post) (sliceFrom tok 2) = None"
    and a: "tok = ''--name''
            \<and> snd (parseGlobalFlags args) = ''events'' # ''send'' # pre @ tok # post"
  have "sliceFrom tok 2 = ''name''" using a by (simp add: sliceFrom_def)
  then have "\<not> truthyStr (parseNamedArgs (pre @ tok # post) ''name'')"
    using n by (simp only: parseNamedArgs_skip [OF h] not_truthyStr_None not_False_eq_True)
  then show "failsWith (main W args) ''--name is required''"
    using a main_send_name by blast
next
  assume h: "startsWith tok ''--'' \<and> CHR ''='' \<notin> set tok
             \<and> (post = [] \<or> startsWith (hd post) ''--'')"
    and n: "parseNamedArgs (pre @ post) (sliceFrom tok 2) = None"
    and a: "tok = ''--data''
            \<and> snd (parseGlobalFlags args) = ''events'' # ''send'' # pre @ tok # post
            \<and> truthyStr (parseNamedArgs (pre @ post) ''name'')
            \<and> \<not> truthyStr (parseNamedArgs (pre @ post) ''data-file'')"
  have "sliceFrom tok 2 = ''data''" using a by (simp add: sliceFrom_def)
  then have "\<not> truthyStr (parseNamedArgs (pre @ tok # post) ''data'')"
    using n by (simp only: parseNamedArgs_skip [OF h] not_truthyStr_None not_False_eq_True)
  moreover have "truthyStr (parseNamedArgs (pre @ tok # post) ''name'')
      \<and> \<not> truthyStr (parseNamedArgs (pre @ tok # post) ''data-file'')"
    unfolding parseNamedArgs_skip [OF h] using a by blast
  ultimately show "failsWith (main W args) ''--data or --data-file is required''"
    using a main_send_data by blast
next
  assume h: "startsWith tok ''--'' \<and> CHR ''='' \<notin> set tok
             \<and> (post = [] \<or> startsWith (hd post) ''--'')"
    and n: "parseNamedArgs (pre @ post) (sliceFrom tok 2) = None"
    and a: "tok = ''--data-file''
            \<and> snd (parseGlobalFlags args) = ''events'' # ''send'' # pre @ tok # post
            \<and> truthyStr (parseNamedArgs (pre @ post) ''name'')
            \<and> \<not> truthyStr (parseNamedArgs (pre @ post) ''data'')"
  have "sliceFrom tok 2 = ''data-file''" using a by (simp add: sliceFrom_def)
  then have "\<not> truthyStr (parseNamedArgs (pre @ tok # post) ''data-file'')"
    using n by (simp only: parseNamedArgs_skip [OF h] not_truthyStr_None not_False_eq_True)
  moreover have "truthyStr (parseNamedArgs (pre @ tok # post) ''name'')
      \<and> \<not> truthyStr (parseNamedArgs (pre @ tok # post) ''data'')"
    unfolding parseNamedArgs_skip [OF h] using a by blast
  ultimately show "failsWith (main W args) ''--data or --data-file is required''"
    using a main_send_data by blast
next
  assume h: "startsWith tok ''--'' \<and> CHR ''='' \<notin> set tok
             \<and> (post = [] \<or> startsWith (hd post) ''--'')"
    and n: "parseNamedArgs (pre @ post) (sliceFrom tok 2) = None"
    and a: "tok = ''--event''
            \<and> snd (parseGlobalFlags args) = ''runs'' # ''list'' # pre @ tok # post"
  have "sliceFrom tok 2 = ''event''" using a by (simp add: sliceFrom_def)
  then have "\<not> truthyStr (parseNamedArgs (pre @ tok # post) ''event'')"
    using n by (simp only: parseNamedArgs_skip [OF h] not_truthyStr_None not_False_eq_True)
  then show "failsWith (main W args) ''--event is required''"
    using a main_runs_list by blast
next
  assume h: "startsWith tok ''--'' \<and> CHR ''='' \<notin> set tok
             \<and> (post = [] \<or> startsWith (hd post) ''--'')"
    and n: "parseNamedArgs (pre @ post) (sliceFrom tok 2) = None"
    and a: "tok = ''--app''
            \<and> snd (parseGlobalFlags args) = ''cancel'' # pre @ tok # post"
  have "sliceFrom tok 2 = ''app''" using a by (simp add: sliceFrom_def)
  then have "\<not> truthyStr (parseNamedArgs (pre @ tok # post) ''app'')"
    using n by (simp only: parseNamedArgs_skip [OF h] not_truthyStr_None not_False_eq_True)
  then show "failsWith (main W args) ''--app is required''"
    using a main_cancel_app by blast
next
  assume h: "startsWith tok ''--'' \<and> CHR ''='' \<notin> set tok
             \<and> (post = [] \<or> startsWith (hd post) ''--'')"
    and n: "parseNamedArgs (pre @ post) (sliceFrom tok 2) = None"
    and a: "tok = ''--function''
            \<and> snd (parseGlobalFlags args) = ''cancel'' # pre @ tok # post
            \<and> truthyStr (parseNamedArgs (pre @ post) ''app'')"
  have "sliceFrom tok 2 = ''function''" using a by (simp add: sliceFrom_def)
  then have "\<not> truthyStr (parseNamedArgs (pre @ tok # post) ''function'')"
    using n by (simp only: parseNamedArgs_skip [OF h] not_truthyStr_None not_False_eq_True)
  moreover have "truthyStr (parseNamedArgs (pre @ tok # post) ''app'')"
    unfolding parseNamedArgs_skip [OF h] using a by blast
  ultimately show "failsWith (main W args) ''--function is required''"
    using a main_cancel_function by blast
next
  assume h: "startsWith tok ''--'' \<and> CHR ''='' \<notin> set tok
             \<and> (post = [] \<or> startsWith (hd post) ''--'')"
    and n: "parseNamedArgs (pre @ post) (sliceFrom tok 2) = None"
    and a: "tok = ''--started-after''
            \<and> snd (parseGlobalFlags args) = ''cancel'' # pre @ tok # post
            \<and> truthyStr (parseNamedArgs (pre @ post) ''app'')
            \<and> truthyStr (parseNamedArgs (pre @ post) ''function'')"
  have "sliceFrom tok 2 = ''started-after''" using a by (simp add: sliceFrom_def)
  then have "\<not> truthyStr (parseNamedArgs (pre @ tok # post) ''started-after'')"
    using n by (simp only: parseNamedArgs_skip [OF h] not_truthyStr_None not_False_eq_True)
  moreover have "truthyStr (parseNamedArgs (pre @ tok # post) ''app'')
      \<and> truthyStr (parseNamedArgs (pre @ tok # post) ''function'')"
    unfolding parseNamedArgs_skip [OF h] using a by blast
  ultimately show "failsWith (main W args) ''--started-after is required''"
    using a main_cancel_after by blast
next
  assume h: "startsWith tok ''--'' \<and> CHR ''='' \<notin> set tok
             \<and> (post = [] \<or> startsWith (hd post) ''--'')"
    and n: "parseNamedArgs (pre @ post) (sliceFrom tok 2) = None"
    and a: "tok = ''--started-before''
            \<and> snd (parseGlobalFlags args) = ''cancel'' # pre @ tok # post
            \<and> truthyStr (parseNamedArgs (pre @ post) ''app'')
            \<and> truthyStr (parseNamedArgs (pre @ post) ''function'')
            \<and> truthyStr (parseNamedArgs (pre @ post) ''started-after'')"
  have "sliceFrom tok 2 = ''started-before''" using a by (simp add: sliceFrom_def)
  then have "\<not> truthyStr (parseNamedArgs (pre @ tok # post) ''started-before'')"
    using n by (simp only: parseNamedArgs_skip [OF h] not_truthyStr_None not_False_eq_True)
  moreover have "truthyStr (parseNamedArgs (pre @ tok # post) ''app'')
      \<and> truthyStr (parseNamedArgs (pre @ tok # post) ''function'')
      \<and> truthyStr (parseNamedArgs (pre @ tok # post) ''started-after'')"
    unfolding parseNamedArgs_skip [OF h] using a by blast
  ultimately show "failsWith (main W args) ''--started-before is required''"
    using a main_cancel_before by blast
qed

theorem parseNamedArgs_drops_valueless_flag_witness:
  "(startsWith ''--name'' ''--'' \<and> CHR ''='' \<notin> set ''--name''
      \<and> ([''--data'', ''{}''] = [] \<or> startsWith (hd [''--data'', ''{}'']) ''--'')
    \<and> parseNamedArgs ([] @ [''--data'', ''{}'']) (sliceFrom ''--name'' 2) = None
    \<and> snd (parseGlobalFlags [''events'', ''send'', ''--name'', ''--data'', ''{}'', ''--dev''])
          = ''events'' # ''send'' # [] @ ''--name'' # [''--data'', ''{}'']
    \<and> parseNamedArgs ([] @ ''--name'' # [''--data'', ''{}'']) = parseNamedArgs ([] @ [''--data'', ''{}''])
    \<and> parseNamedArgs ([] @ ''--name'' # [''--data'', ''{}'']) (sliceFrom ''--name'' 2) = None
    \<and> failsWith (main examplePlatform [''events'', ''send'', ''--name'', ''--data'', ''{}'', ''--dev''])
        ''--name is required'')
   \<and> (startsWith ''--data'' ''--'' \<and> CHR ''='' \<notin> set ''--data''
      \<and> ([] = [] \<or> startsWith (hd []) ''--'')
    \<and> parseNamedArgs ([''--name'', ''test''] @ []) (sliceFrom ''--data'' 2) = None
    \<and> snd (parseGlobalFlags [''events'', ''send'', ''--name'', ''test'', ''--data'', ''--dev''])
          = ''events'' # ''send'' # [''--name'', ''test''] @ ''--data'' # []
    \<and> truthyStr (parseNamedArgs ([''--name'', ''test''] @ []) ''name'')
    \<and> \<not> truthyStr (parseNamedArgs ([''--name'', ''test''] @ []) ''data-file'')
    \<and> parseNamedArgs ([''--name'', ''test''] @ ''--data'' # []) = parseNamedArgs ([''--name'', ''test''] @ [])
    \<and> parseNamedArgs ([''--name'', ''test''] @ ''--data'' # []) (sliceFrom ''--data'' 2) = None
    \<and> failsWith (main examplePlatform [''events'', ''send'', ''--name'', ''test'', ''--data'', ''--dev''])
        ''--data or --data-file is required'')
   \<and> (startsWith ''--data-file'' ''--'' \<and> CHR ''='' \<notin> set ''--data-file''
      \<and> ([''--id=1''] = [] \<or> startsWith (hd [''--id=1'']) ''--'')
    \<and> parseNamedArgs ([''--name'', ''test''] @ [''--id=1'']) (sliceFrom ''--data-file'' 2) = None
    \<and> snd (parseGlobalFlags [''events'', ''send'', ''--name'', ''test'', ''--data-file'', ''--id=1'', ''--dev''])
          = ''events'' # ''send'' # [''--name'', ''test''] @ ''--data-file'' # [''--id=1'']
    \<and> truthyStr (parseNamedArgs ([''--name'', ''test''] @ [''--id=1'']) ''name'')
    \<and> \<not> truthyStr (parseNamedArgs ([''--name'', ''test''] @ [''--id=1'']) ''data'')
    \<and> parseNamedArgs ([''--name'', ''test''] @ ''--data-file'' # [''--id=1'']) = parseNamedArgs ([''--name'', ''test''] @ [''--id=1''])
    \<and> parseNamedArgs ([''--name'', ''test''] @ ''--data-file'' # [''--id=1'']) (sliceFrom ''--data-file'' 2) = None
    \<and> failsWith (main examplePlatform [''events'', ''send'', ''--name'', ''test'', ''--data-file'', ''--id=1'', ''--dev''])
        ''--data or --data-file is required'')
   \<and> (startsWith ''--event'' ''--'' \<and> CHR ''='' \<notin> set ''--event''
      \<and> ([] = [] \<or> startsWith (hd []) ''--'')
    \<and> parseNamedArgs ([] @ []) (sliceFrom ''--event'' 2) = None
    \<and> snd (parseGlobalFlags [''runs'', ''list'', ''--event'', ''--dev''])
          = ''runs'' # ''list'' # [] @ ''--event'' # []
    \<and> parseNamedArgs ([] @ ''--event'' # []) = parseNamedArgs ([] @ [])
    \<and> parseNamedArgs ([] @ ''--event'' # []) (sliceFrom ''--event'' 2) = None
    \<and> failsWith (main examplePlatform [''runs'', ''list'', ''--event'', ''--dev''])
        ''--event is required'')
   \<and> (startsWith ''--app'' ''--'' \<and> CHR ''='' \<notin> set ''--app''
      \<and> ([''--function'', ''f''] = [] \<or> startsWith (hd [''--function'', ''f'']) ''--'')
    \<and> parseNamedArgs ([] @ [''--function'', ''f'']) (sliceFrom ''--app'' 2) = None
    \<and> snd (parseGlobalFlags [''cancel'', ''--app'', ''--function'', ''f'', ''--dev''])
          = ''cancel'' # [] @ ''--app'' # [''--function'', ''f'']
    \<and> parseNamedArgs ([] @ ''--app'' # [''--function'', ''f'']) = parseNamedArgs ([] @ [''--function'', ''f''])
    \<and> parseNamedArgs ([] @ ''--app'' # [''--function'', ''f'']) (sliceFrom ''--app'' 2) = None
    \<and> failsWith (main examplePlatform [''cancel'', ''--app'', ''--function'', ''f'', ''--dev''])
        ''--app is required'')
   \<and> (startsWith ''--function'' ''--'' \<and> CHR ''='' \<notin> set ''--function''
      \<and> ([] = [] \<or> startsWith (hd []) ''--'')
    \<and> parseNamedArgs ([''--app'', ''a''] @ []) (sliceFrom ''--function'' 2) = None
    \<and> snd (parseGlobalFlags [''cancel'', ''--app'', ''a'', ''--function'', ''--dev''])
          = ''cancel'' # [''--app'', ''a''] @ ''--function'' # []
    \<and> truthyStr (parseNamedArgs ([''--app'', ''a''] @ []) ''app'')
    \<and> parseNamedArgs ([''--app'', ''a''] @ ''--function'' # []) = parseNamedArgs ([''--app'', ''a''] @ [])
    \<and> parseNamedArgs ([''--app'', ''a''] @ ''--function'' # []) (sliceFrom ''--function'' 2) = None
    \<and> failsWith (main examplePlatform [''cancel'', ''--app'', ''a'', ''--function'', ''--dev''])
        ''--function is required'')
   \<and> (startsWith ''--started-after'' ''--'' \<and> CHR ''='' \<notin> set ''--started-after''
      \<and> ([''--started-before'', ''2h''] = [] \<or> startsWith (hd [''--started-before'', ''2h'']) ''--'')
    \<and> parseNamedArgs ([''--app'', ''a'', ''--function'', ''f''] @ [''--started-before'', ''2h'']) (sliceFrom ''--started-after'' 2) = None
    \<and> snd (parseGlobalFlags [''cancel'', ''--app'', ''a'', ''--function'', ''f'', ''--started-after'', ''--started-before'', ''2h'', ''--dev''])
          = ''cancel'' # [''--app'', ''a'', ''--function'', ''f''] @ ''--started-after'' # [''--started-before'', ''2h'']
    \<and> truthyStr (parseNamedArgs ([''--app'', ''a'', ''--function'', ''f''] @ [''--started-before'', ''2h'']) ''app'')
    \<and> truthyStr (parseNamedArgs ([''--app'', ''a'', ''--function'', ''f''] @ [''--started-before'', ''2h'']) ''function'')
    \<and> parseNamedArgs ([''--app'', ''a'', ''--function'', ''f''] @ ''--started-after'' # [''--started-before'', ''2h'']) = parseNamedArgs ([''--app'', ''a'', ''--function'', ''f''] @ [''--started-before'', ''2h''])
    \<and> parseNamedArgs ([''--app'', ''a'', ''--function'', ''f''] @ ''--started-after'' # [''--started-before'', ''2h'']) (sliceFrom ''--started-after'' 2) = None
    \<and> failsWith (main examplePlatform [''cancel'', ''--app'', ''a'', ''--function'', ''f'', ''--started-after'', ''--started-before'', ''2h'', ''--dev''])
        ''--started-after is required'')
   \<and> (startsWith ''--started-before'' ''--'' \<and> CHR ''='' \<notin> set ''--started-before''
      \<and> ([] = [] \<or> startsWith (hd []) ''--'')
    \<and> parseNamedArgs ([''--app'', ''a'', ''--function'', ''f'', ''--started-after'', ''1h''] @ []) (sliceFrom ''--started-before'' 2) = None
    \<and> snd (parseGlobalFlags [''cancel'', ''--app'', ''a'', ''--function'', ''f'', ''--started-after'', ''1h'', ''--started-before'', ''--dev''])
          = ''cancel'' # [''--app'', ''a'', ''--function'', ''f'', ''--started-after'', ''1h''] @ ''--started-before'' # []
    \<and> truthyStr (parseNamedArgs ([''--app'', ''a'', ''--function'', ''f'', ''--started-after'', ''1h''] @ []) ''app'')
    \<and> truthyStr (parseNamedArgs ([''--app'', ''a'', ''--function'', ''f'', ''--started-after'', ''1h''] @ []) ''function'')
    \<and> truthyStr (parseNamedArgs ([''--app'', ''a'', ''--function'', ''f'', ''--started-after'', ''1h''] @ []) ''started-after'')
    \<and> parseNamedArgs ([''--app'', ''a'', ''--function'', ''f'', ''--started-after'', ''1h''] @ ''--started-before'' # []) = parseNamedArgs ([''--app'', ''a'', ''--function'', ''f'', ''--started-after'', ''1h''] @ [])
    \<and> parseNamedArgs ([''--app'', ''a'', ''--function'', ''f'', ''--started-after'', ''1h''] @ ''--started-before'' # []) (sliceFrom ''--started-before'' 2) = None
    \<and> failsWith (main examplePlatform [''cancel'', ''--app'', ''a'', ''--function'', ''f'', ''--started-after'', ''1h'', ''--started-before'', ''--dev''])
        ''--started-before is required'')"
proof -
  have h1: "startsWith ''--name'' ''--'' \<and> CHR ''='' \<notin> set ''--name''
      \<and> ([''--data'', ''{}''] = [] \<or> startsWith (hd [''--data'', ''{}'']) ''--'')"
    by code_simp
  have n1: "parseNamedArgs ([] @ [''--data'', ''{}'']) (sliceFrom ''--name'' 2) = None"
    by code_simp
  have a1: "''--name'' = ''--name''
      \<and> snd (parseGlobalFlags [''events'', ''send'', ''--name'', ''--data'', ''{}'', ''--dev''])
          = ''events'' # ''send'' # [] @ ''--name'' # [''--data'', ''{}'']"
    by code_simp
  have p1: "snd (parseGlobalFlags [''events'', ''send'', ''--name'', ''--data'', ''{}'', ''--dev''])
          = ''events'' # ''send'' # [] @ ''--name'' # [''--data'', ''{}'']"
    by code_simp
  have e1: "parseNamedArgs ([] @ ''--name'' # [''--data'', ''{}'']) = parseNamedArgs ([] @ [''--data'', ''{}''])"
    by (rule parseNamedArgs_drops_valueless_flag [where tok = "''--name''" and pre = "[]" and post = "[''--data'', ''{}'']"
        and args =
            "[''events'', ''send'', ''--name'', ''--data'', ''{}'', ''--dev'']" and W = examplePlatform,
            THEN mp, OF h1, THEN conjunct1])
  have z1: "parseNamedArgs ([] @ ''--name'' # [''--data'', ''{}'']) (sliceFrom ''--name'' 2) = None"
    by (rule parseNamedArgs_drops_valueless_flag [where tok = "''--name''" and pre = "[]" and post = "[''--data'', ''{}'']"
        and args =
            "[''events'', ''send'', ''--name'', ''--data'', ''{}'', ''--dev'']" and W = examplePlatform,
            THEN mp, OF h1, THEN conjunct2, THEN mp, OF n1, THEN conjunct1])
  have f1: "failsWith (main examplePlatform [''events'', ''send'', ''--name'', ''--data'', ''{}'', ''--dev''])
        ''--name is required''"
    by (rule parseNamedArgs_drops_valueless_flag [where tok = "''--name''" and pre = "[]" and post = "[''--data'', ''{}'']"
        and args =
            "[''events'', ''send'', ''--name'', ''--data'', ''{}'', ''--dev'']" and W = examplePlatform,
            THEN mp, OF h1, THEN conjunct2, THEN mp, OF n1, THEN conjunct2, THEN conjunct1,
            THEN mp, OF a1])
  have w1: "startsWith ''--name'' ''--'' \<and> CHR ''='' \<notin> set ''--name''
      \<and> ([''--data'', ''{}''] = [] \<or> startsWith (hd [''--data'', ''{}'']) ''--'')
    \<and> parseNamedArgs ([] @ [''--data'', ''{}'']) (sliceFrom ''--name'' 2) = None
    \<and> snd (parseGlobalFlags [''events'', ''send'', ''--name'', ''--data'', ''{}'', ''--dev''])
          = ''events'' # ''send'' # [] @ ''--name'' # [''--data'', ''{}'']
    \<and> parseNamedArgs ([] @ ''--name'' # [''--data'', ''{}'']) = parseNamedArgs ([] @ [''--data'', ''{}''])
    \<and> parseNamedArgs ([] @ ''--name'' # [''--data'', ''{}'']) (sliceFrom ''--name'' 2) = None
    \<and> failsWith (main examplePlatform [''events'', ''send'', ''--name'', ''--data'', ''{}'', ''--dev''])
        ''--name is required''"
    by (simp only: h1 n1 p1 e1 z1 f1 simp_thms)
  have h2: "startsWith ''--data'' ''--'' \<and> CHR ''='' \<notin> set ''--data''
      \<and> ([] = [] \<or> startsWith (hd []) ''--'')"
    by code_simp
  have n2: "parseNamedArgs ([''--name'', ''test''] @ []) (sliceFrom ''--data'' 2) = None"
    by code_simp
  have a2: "''--data'' = ''--data''
      \<and> snd (parseGlobalFlags [''events'', ''send'', ''--name'', ''test'', ''--data'', ''--dev''])
          = ''events'' # ''send'' # [''--name'', ''test''] @ ''--data'' # []
      \<and> truthyStr (parseNamedArgs ([''--name'', ''test''] @ []) ''name'')
      \<and> \<not> truthyStr (parseNamedArgs ([''--name'', ''test''] @ []) ''data-file'')"
    by code_simp
  have p2: "snd (parseGlobalFlags [''events'', ''send'', ''--name'', ''test'', ''--data'', ''--dev''])
          = ''events'' # ''send'' # [''--name'', ''test''] @ ''--data'' # []
      \<and> truthyStr (parseNamedArgs ([''--name'', ''test''] @ []) ''name'')
      \<and> \<not> truthyStr (parseNamedArgs ([''--name'', ''test''] @ []) ''data-file'')"
    by code_simp
  have e2: "parseNamedArgs ([''--name'', ''test''] @ ''--data'' # []) = parseNamedArgs ([''--name'', ''test''] @ [])"
    by (rule parseNamedArgs_drops_valueless_flag [where tok = "''--data''" and pre = "[''--name'', ''test'']" and post = "[]"
        and args =
            "[''events'', ''send'', ''--name'', ''test'', ''--data'', ''--dev'']" and W = examplePlatform,
            THEN mp, OF h2, THEN conjunct1])
  have z2: "parseNamedArgs ([''--name'', ''test''] @ ''--data'' # []) (sliceFrom ''--data'' 2) = None"
    by (rule parseNamedArgs_drops_valueless_flag [where tok = "''--data''" and pre = "[''--name'', ''test'']" and post = "[]"
        and args =
            "[''events'', ''send'', ''--name'', ''test'', ''--data'', ''--dev'']" and W = examplePlatform,
            THEN mp, OF h2, THEN conjunct2, THEN mp, OF n2, THEN conjunct1])
  have f2: "failsWith (main examplePlatform [''events'', ''send'', ''--name'', ''test'', ''--data'', ''--dev''])
        ''--data or --data-file is required''"
    by (rule parseNamedArgs_drops_valueless_flag [where tok = "''--data''" and pre = "[''--name'', ''test'']" and post = "[]"
        and args =
            "[''events'', ''send'', ''--name'', ''test'', ''--data'', ''--dev'']" and W = examplePlatform,
            THEN mp, OF h2, THEN conjunct2, THEN mp, OF n2, THEN conjunct2, THEN conjunct2,
            THEN conjunct1, THEN mp, OF a2])
  have w2: "startsWith ''--data'' ''--'' \<and> CHR ''='' \<notin> set ''--data''
      \<and> ([] = [] \<or> startsWith (hd []) ''--'')
    \<and> parseNamedArgs ([''--name'', ''test''] @ []) (sliceFrom ''--data'' 2) = None
    \<and> snd (parseGlobalFlags [''events'', ''send'', ''--name'', ''test'', ''--data'', ''--dev''])
          = ''events'' # ''send'' # [''--name'', ''test''] @ ''--data'' # []
    \<and> truthyStr (parseNamedArgs ([''--name'', ''test''] @ []) ''name'')
    \<and> \<not> truthyStr (parseNamedArgs ([''--name'', ''test''] @ []) ''data-file'')
    \<and> parseNamedArgs ([''--name'', ''test''] @ ''--data'' # []) = parseNamedArgs ([''--name'', ''test''] @ [])
    \<and> parseNamedArgs ([''--name'', ''test''] @ ''--data'' # []) (sliceFrom ''--data'' 2) = None
    \<and> failsWith (main examplePlatform [''events'', ''send'', ''--name'', ''test'', ''--data'', ''--dev''])
        ''--data or --data-file is required''"
    by (simp only: h2 n2 p2 e2 z2 f2 simp_thms)
  have h3: "startsWith ''--data-file'' ''--'' \<and> CHR ''='' \<notin> set ''--data-file''
      \<and> ([''--id=1''] = [] \<or> startsWith (hd [''--id=1'']) ''--'')"
    by code_simp
  have n3: "parseNamedArgs ([''--name'', ''test''] @ [''--id=1'']) (sliceFrom ''--data-file'' 2) = None"
    by code_simp
  have a3: "''--data-file'' = ''--data-file''
      \<and> snd (parseGlobalFlags [''events'', ''send'', ''--name'', ''test'', ''--data-file'', ''--id=1'', ''--dev''])
          = ''events'' # ''send'' # [''--name'', ''test''] @ ''--data-file'' # [''--id=1'']
      \<and> truthyStr (parseNamedArgs ([''--name'', ''test''] @ [''--id=1'']) ''name'')
      \<and> \<not> truthyStr (parseNamedArgs ([''--name'', ''test''] @ [''--id=1'']) ''data'')"
    by code_simp
  have p3: "snd (parseGlobalFlags [''events'', ''send'', ''--name'', ''test'', ''--data-file'', ''--id=1'', ''--dev''])
          = ''events'' # ''send'' # [''--name'', ''test''] @ ''--data-file'' # [''--id=1'']
      \<and> truthyStr (parseNamedArgs ([''--name'', ''test''] @ [''--id=1'']) ''name'')
      \<and> \<not> truthyStr (parseNamedArgs ([''--name'', ''test''] @ [''--id=1'']) ''data'')"
    by code_simp
  have e3: "parseNamedArgs ([''--name'', ''test''] @ ''--data-file'' # [''--id=1'']) = parseNamedArgs ([''--name'', ''test''] @ [''--id=1''])"
    by (rule parseNamedArgs_drops_valueless_flag [where tok = "''--data-file''" and pre = "[''--name'', ''test'']" and post = "[''--id=1'']"
        and args =
            "[''events'', ''send'', ''--name'', ''test'', ''--data-file'', ''--id=1'', ''--dev'']" and W = examplePlatform,
            THEN mp, OF h3, THEN conjunct1])
  have z3: "parseNamedArgs ([''--name'', ''test''] @ ''--data-file'' # [''--id=1'']) (sliceFrom ''--data-file'' 2) = None"
    by (rule parseNamedArgs_drops_valueless_flag [where tok = "''--data-file''" and pre = "[''--name'', ''test'']" and post = "[''--id=1'']"
        and args =
            "[''events'', ''send'', ''--name'', ''test'', ''--data-file'', ''--id=1'', ''--dev'']" and W = examplePlatform,
            THEN mp, OF h3, THEN conjunct2, THEN mp, OF n3, THEN conjunct1])
  have f3: "failsWith (main examplePlatform [''events'', ''send'', ''--name'', ''test'', ''--data-file'', ''--id=1'', ''--dev''])
        ''--data or --data-file is required''"
    by (rule parseNamedArgs_drops_valueless_flag [where tok = "''--data-file''" and pre = "[''--name'', ''test'']" and post = "[''--id=1'']"
        and args =
            "[''events'', ''send'', ''--name'', ''test'', ''--data-file'', ''--id=1'', ''--dev'']" and W = examplePlatform,
            THEN mp, OF h3, THEN conjunct2, THEN mp, OF n3, THEN conjunct2, THEN conjunct2,
            THEN conjunct2, THEN conjunct1, THEN mp, OF a3])
  have w3: "startsWith ''--data-file'' ''--'' \<and> CHR ''='' \<notin> set ''--data-file''
      \<and> ([''--id=1''] = [] \<or> startsWith (hd [''--id=1'']) ''--'')
    \<and> parseNamedArgs ([''--name'', ''test''] @ [''--id=1'']) (sliceFrom ''--data-file'' 2) = None
    \<and> snd (parseGlobalFlags [''events'', ''send'', ''--name'', ''test'', ''--data-file'', ''--id=1'', ''--dev''])
          = ''events'' # ''send'' # [''--name'', ''test''] @ ''--data-file'' # [''--id=1'']
    \<and> truthyStr (parseNamedArgs ([''--name'', ''test''] @ [''--id=1'']) ''name'')
    \<and> \<not> truthyStr (parseNamedArgs ([''--name'', ''test''] @ [''--id=1'']) ''data'')
    \<and> parseNamedArgs ([''--name'', ''test''] @ ''--data-file'' # [''--id=1'']) = parseNamedArgs ([''--name'', ''test''] @ [''--id=1''])
    \<and> parseNamedArgs ([''--name'', ''test''] @ ''--data-file'' # [''--id=1'']) (sliceFrom ''--data-file'' 2) = None
    \<and> failsWith (main examplePlatform [''events'', ''send'', ''--name'', ''test'', ''--data-file'', ''--id=1'', ''--dev''])
        ''--data or --data-file is required''"
    by (simp only: h3 n3 p3 e3 z3 f3 simp_thms)
  have h4: "startsWith ''--event'' ''--'' \<and> CHR ''='' \<notin> set ''--event''
      \<and> ([] = [] \<or> startsWith (hd []) ''--'')"
    by code_simp
  have n4: "parseNamedArgs ([] @ []) (sliceFrom ''--event'' 2) = None"
    by code_simp
  have a4: "''--event'' = ''--event''
      \<and> snd (parseGlobalFlags [''runs'', ''list'', ''--event'', ''--dev''])
          = ''runs'' # ''list'' # [] @ ''--event'' # []"
    by code_simp
  have p4: "snd (parseGlobalFlags [''runs'', ''list'', ''--event'', ''--dev''])
          = ''runs'' # ''list'' # [] @ ''--event'' # []"
    by code_simp
  have e4: "parseNamedArgs ([] @ ''--event'' # []) = parseNamedArgs ([] @ [])"
    by (rule parseNamedArgs_drops_valueless_flag [where tok = "''--event''" and pre = "[]" and post = "[]"
        and args = "[''runs'', ''list'', ''--event'', ''--dev'']" and W = examplePlatform,
            THEN mp, OF h4, THEN conjunct1])
  have z4: "parseNamedArgs ([] @ ''--event'' # []) (sliceFrom ''--event'' 2) = None"
    by (rule parseNamedArgs_drops_valueless_flag [where tok = "''--event''" and pre = "[]" and post = "[]"
        and args = "[''runs'', ''list'', ''--event'', ''--dev'']" and W = examplePlatform,
            THEN mp, OF h4, THEN conjunct2, THEN mp, OF n4, THEN conjunct1])
  have f4: "failsWith (main examplePlatform [''runs'', ''list'', ''--event'', ''--dev''])
        ''--event is required''"
    by (rule parseNamedArgs_drops_valueless_flag [where tok = "''--event''" and pre = "[]" and post = "[]"
        and args = "[''runs'', ''list'', ''--event'', ''--dev'']" and W = examplePlatform,
            THEN mp, OF h4, THEN conjunct2, THEN mp, OF n4, THEN conjunct2, THEN conjunct2,
            THEN conjunct2, THEN conjunct2, THEN conjunct1, THEN mp, OF a4])
  have w4: "startsWith ''--event'' ''--'' \<and> CHR ''='' \<notin> set ''--event''
      \<and> ([] = [] \<or> startsWith (hd []) ''--'')
    \<and> parseNamedArgs ([] @ []) (sliceFrom ''--event'' 2) = None
    \<and> snd (parseGlobalFlags [''runs'', ''list'', ''--event'', ''--dev''])
          = ''runs'' # ''list'' # [] @ ''--event'' # []
    \<and> parseNamedArgs ([] @ ''--event'' # []) = parseNamedArgs ([] @ [])
    \<and> parseNamedArgs ([] @ ''--event'' # []) (sliceFrom ''--event'' 2) = None
    \<and> failsWith (main examplePlatform [''runs'', ''list'', ''--event'', ''--dev''])
        ''--event is required''"
    by (simp only: h4 n4 p4 e4 z4 f4 simp_thms)
  have h5: "startsWith ''--app'' ''--'' \<and> CHR ''='' \<notin> set ''--app''
      \<and> ([''--function'', ''f''] = [] \<or> startsWith (hd [''--function'', ''f'']) ''--'')"
    by code_simp
  have n5: "parseNamedArgs ([] @ [''--function'', ''f'']) (sliceFrom ''--app'' 2) = None"
    by code_simp
  have a5: "''--app'' = ''--app''
      \<and> snd (parseGlobalFlags [''cancel'', ''--app'', ''--function'', ''f'', ''--dev''])
          = ''cancel'' # [] @ ''--app'' # [''--function'', ''f'']"
    by code_simp
  have p5: "snd (parseGlobalFlags [''cancel'', ''--app'', ''--function'', ''f'', ''--dev''])
          = ''cancel'' # [] @ ''--app'' # [''--function'', ''f'']"
    by code_simp
  have e5: "parseNamedArgs ([] @ ''--app'' # [''--function'', ''f'']) = parseNamedArgs ([] @ [''--function'', ''f''])"
    by (rule parseNamedArgs_drops_valueless_flag [where tok = "''--app''" and pre = "[]" and post = "[''--function'', ''f'']"
        and args =
            "[''cancel'', ''--app'', ''--function'', ''f'', ''--dev'']" and W = examplePlatform,
            THEN mp, OF h5, THEN conjunct1])
  have z5: "parseNamedArgs ([] @ ''--app'' # [''--function'', ''f'']) (sliceFrom ''--app'' 2) = None"
    by (rule parseNamedArgs_drops_valueless_flag [where tok = "''--app''" and pre = "[]" and post = "[''--function'', ''f'']"
        and args =
            "[''cancel'', ''--app'', ''--function'', ''f'', ''--dev'']" and W = examplePlatform,
            THEN mp, OF h5, THEN conjunct2, THEN mp, OF n5, THEN conjunct1])
  have f5: "failsWith (main examplePlatform [''cancel'', ''--app'', ''--function'', ''f'', ''--dev''])
        ''--app is required''"
    by (rule parseNamedArgs_drops_valueless_flag [where tok = "''--app''" and pre = "[]" and post = "[''--function'', ''f'']"
        and args =
            "[''cancel'', ''--app'', ''--function'', ''f'', ''--dev'']" and W = examplePlatform,
            THEN mp, OF h5, THEN conjunct2, THEN mp, OF n5, THEN conjunct2, THEN conjunct2,
            THEN conjunct2, THEN conjunct2, THEN conjunct2, THEN conjunct1, THEN mp, OF a5])
  have w5: "startsWith ''--app'' ''--'' \<and> CHR ''='' \<notin> set ''--app''
      \<and> ([''--function'', ''f''] = [] \<or> startsWith (hd [''--function'', ''f'']) ''--'')
    \<and> parseNamedArgs ([] @ [''--function'', ''f'']) (sliceFrom ''--app'' 2) = None
    \<and> snd (parseGlobalFlags [''cancel'', ''--app'', ''--function'', ''f'', ''--dev''])
          = ''cancel'' # [] @ ''--app'' # [''--function'', ''f'']
    \<and> parseNamedArgs ([] @ ''--app'' # [''--function'', ''f'']) = parseNamedArgs ([] @ [''--function'', ''f''])
    \<and> parseNamedArgs ([] @ ''--app'' # [''--function'', ''f'']) (sliceFrom ''--app'' 2) = None
    \<and> failsWith (main examplePlatform [''cancel'', ''--app'', ''--function'', ''f'', ''--dev''])
        ''--app is required''"
    by (simp only: h5 n5 p5 e5 z5 f5 simp_thms)
  have h6: "startsWith ''--function'' ''--'' \<and> CHR ''='' \<notin> set ''--function''
      \<and> ([] = [] \<or> startsWith (hd []) ''--'')"
    by code_simp
  have n6: "parseNamedArgs ([''--app'', ''a''] @ []) (sliceFrom ''--function'' 2) = None"
    by code_simp
  have a6: "''--function'' = ''--function''
      \<and> snd (parseGlobalFlags [''cancel'', ''--app'', ''a'', ''--function'', ''--dev''])
          = ''cancel'' # [''--app'', ''a''] @ ''--function'' # []
      \<and> truthyStr (parseNamedArgs ([''--app'', ''a''] @ []) ''app'')"
    by code_simp
  have p6: "snd (parseGlobalFlags [''cancel'', ''--app'', ''a'', ''--function'', ''--dev''])
          = ''cancel'' # [''--app'', ''a''] @ ''--function'' # []
      \<and> truthyStr (parseNamedArgs ([''--app'', ''a''] @ []) ''app'')"
    by code_simp
  have e6: "parseNamedArgs ([''--app'', ''a''] @ ''--function'' # []) = parseNamedArgs ([''--app'', ''a''] @ [])"
    by (rule parseNamedArgs_drops_valueless_flag [where tok = "''--function''" and pre = "[''--app'', ''a'']" and post = "[]"
        and args =
            "[''cancel'', ''--app'', ''a'', ''--function'', ''--dev'']" and W = examplePlatform,
            THEN mp, OF h6, THEN conjunct1])
  have z6: "parseNamedArgs ([''--app'', ''a''] @ ''--function'' # []) (sliceFrom ''--function'' 2) = None"
    by (rule parseNamedArgs_drops_valueless_flag [where tok = "''--function''" and pre = "[''--app'', ''a'']" and post = "[]"
        and args =
            "[''cancel'', ''--app'', ''a'', ''--function'', ''--dev'']" and W = examplePlatform,
            THEN mp, OF h6, THEN conjunct2, THEN mp, OF n6, THEN conjunct1])
  have f6: "failsWith (main examplePlatform [''cancel'', ''--app'', ''a'', ''--function'', ''--dev''])
        ''--function is required''"
    by (rule parseNamedArgs_drops_valueless_flag [where tok = "''--function''" and pre = "[''--app'', ''a'']" and post = "[]"
        and args =
            "[''cancel'', ''--app'', ''a'', ''--function'', ''--dev'']" and W = examplePlatform,
            THEN mp, OF h6, THEN conjunct2, THEN mp, OF n6, THEN conjunct2, THEN conjunct2,
            THEN conjunct2, THEN conjunct2, THEN conjunct2, THEN conjunct2, THEN conjunct1,
            THEN mp, OF a6])
  have w6: "startsWith ''--function'' ''--'' \<and> CHR ''='' \<notin> set ''--function''
      \<and> ([] = [] \<or> startsWith (hd []) ''--'')
    \<and> parseNamedArgs ([''--app'', ''a''] @ []) (sliceFrom ''--function'' 2) = None
    \<and> snd (parseGlobalFlags [''cancel'', ''--app'', ''a'', ''--function'', ''--dev''])
          = ''cancel'' # [''--app'', ''a''] @ ''--function'' # []
    \<and> truthyStr (parseNamedArgs ([''--app'', ''a''] @ []) ''app'')
    \<and> parseNamedArgs ([''--app'', ''a''] @ ''--function'' # []) = parseNamedArgs ([''--app'', ''a''] @ [])
    \<and> parseNamedArgs ([''--app'', ''a''] @ ''--function'' # []) (sliceFrom ''--function'' 2) = None
    \<and> failsWith (main examplePlatform [''cancel'', ''--app'', ''a'', ''--function'', ''--dev''])
        ''--function is required''"
    by (simp only: h6 n6 p6 e6 z6 f6 simp_thms)
  have h7: "startsWith ''--started-after'' ''--'' \<and> CHR ''='' \<notin> set ''--started-after''
      \<and> ([''--started-before'', ''2h''] = [] \<or> startsWith (hd [''--started-before'', ''2h'']) ''--'')"
    by code_simp
  have n7: "parseNamedArgs ([''--app'', ''a'', ''--function'', ''f''] @ [''--started-before'', ''2h'']) (sliceFrom ''--started-after'' 2) = None"
    by code_simp
  have a7: "''--started-after'' = ''--started-after''
      \<and> snd (parseGlobalFlags [''cancel'', ''--app'', ''a'', ''--function'', ''f'', ''--started-after'', ''--started-before'', ''2h'', ''--dev''])
          = ''cancel'' # [''--app'', ''a'', ''--function'', ''f''] @ ''--started-after'' # [''--started-before'', ''2h'']
      \<and> truthyStr (parseNamedArgs ([''--app'', ''a'', ''--function'', ''f''] @ [''--started-before'', ''2h'']) ''app'')
      \<and> truthyStr (parseNamedArgs ([''--app'', ''a'', ''--function'', ''f''] @ [''--started-before'', ''2h'']) ''function'')"
    by code_simp
  have p7: "snd (parseGlobalFlags [''cancel'', ''--app'', ''a'', ''--function'', ''f'', ''--started-after'', ''--started-before'', ''2h'', ''--dev''])
          = ''cancel'' # [''--app'', ''a'', ''--function'', ''f''] @ ''--started-after'' # [''--started-before'', ''2h'']
      \<and> truthyStr (parseNamedArgs ([''--app'', ''a'', ''--function'', ''f''] @ [''--started-before'', ''2h'']) ''app'')
      \<and> truthyStr (parseNamedArgs ([''--app'', ''a'', ''--function'', ''f''] @ [''--started-before'', ''2h'']) ''function'')"
    by code_simp
  have e7: "parseNamedArgs ([''--app'', ''a'', ''--function'', ''f''] @ ''--started-after'' # [''--started-before'', ''2h'']) = parseNamedArgs ([''--app'', ''a'', ''--function'', ''f''] @ [''--started-before'', ''2h''])"
    by (rule parseNamedArgs_drops_valueless_flag [where tok = "''--started-after''" and pre = "[''--app'', ''a'', ''--function'', ''f'']" and post = "[''--started-before'', ''2h'']"
        and args =
            "[''cancel'', ''--app'', ''a'', ''--function'', ''f'', ''--started-after'', ''--started-before'', ''2h'', ''--dev'']" and W = examplePlatform,
            THEN mp, OF h7, THEN conjunct1])
  have z7: "parseNamedArgs ([''--app'', ''a'', ''--function'', ''f''] @ ''--started-after'' # [''--started-before'', ''2h'']) (sliceFrom ''--started-after'' 2) = None"
    by (rule parseNamedArgs_drops_valueless_flag [where tok = "''--started-after''" and pre = "[''--app'', ''a'', ''--function'', ''f'']" and post = "[''--started-before'', ''2h'']"
        and args =
            "[''cancel'', ''--app'', ''a'', ''--function'', ''f'', ''--started-after'', ''--started-before'', ''2h'', ''--dev'']" and W = examplePlatform,
            THEN mp, OF h7, THEN conjunct2, THEN mp, OF n7, THEN conjunct1])
  have f7: "failsWith (main examplePlatform [''cancel'', ''--app'', ''a'', ''--function'', ''f'', ''--started-after'', ''--started-before'', ''2h'', ''--dev''])
        ''--started-after is required''"
    by (rule parseNamedArgs_drops_valueless_flag [where tok = "''--started-after''" and pre = "[''--app'', ''a'', ''--function'', ''f'']" and post = "[''--started-before'', ''2h'']"
        and args =
            "[''cancel'', ''--app'', ''a'', ''--function'', ''f'', ''--started-after'', ''--started-before'', ''2h'', ''--dev'']" and W = examplePlatform,
            THEN mp, OF h7, THEN conjunct2, THEN mp, OF n7, THEN conjunct2, THEN conjunct2,
            THEN conjunct2, THEN conjunct2, THEN conjunct2, THEN conjunct2, THEN conjunct2,
            THEN conjunct1, THEN mp, OF a7])
  have w7: "startsWith ''--started-after'' ''--'' \<and> CHR ''='' \<notin> set ''--started-after''
      \<and> ([''--started-before'', ''2h''] = [] \<or> startsWith (hd [''--started-before'', ''2h'']) ''--'')
    \<and> parseNamedArgs ([''--app'', ''a'', ''--function'', ''f''] @ [''--started-before'', ''2h'']) (sliceFrom ''--started-after'' 2) = None
    \<and> snd (parseGlobalFlags [''cancel'', ''--app'', ''a'', ''--function'', ''f'', ''--started-after'', ''--started-before'', ''2h'', ''--dev''])
          = ''cancel'' # [''--app'', ''a'', ''--function'', ''f''] @ ''--started-after'' # [''--started-before'', ''2h'']
    \<and> truthyStr (parseNamedArgs ([''--app'', ''a'', ''--function'', ''f''] @ [''--started-before'', ''2h'']) ''app'')
    \<and> truthyStr (parseNamedArgs ([''--app'', ''a'', ''--function'', ''f''] @ [''--started-before'', ''2h'']) ''function'')
    \<and> parseNamedArgs ([''--app'', ''a'', ''--function'', ''f''] @ ''--started-after'' # [''--started-before'', ''2h'']) = parseNamedArgs ([''--app'', ''a'', ''--function'', ''f''] @ [''--started-before'', ''2h''])
    \<and> parseNamedArgs ([''--app'', ''a'', ''--function'', ''f''] @ ''--started-after'' # [''--started-before'', ''2h'']) (sliceFrom ''--started-after'' 2) = None
    \<and> failsWith (main examplePlatform [''cancel'', ''--app'', ''a'', ''--function'', ''f'', ''--started-after'', ''--started-before'', ''2h'', ''--dev''])
        ''--started-after is required''"
    by (simp only: h7 n7 p7 e7 z7 f7 simp_thms)
  have h8: "startsWith ''--started-before'' ''--'' \<and> CHR ''='' \<notin> set ''--started-before''
      \<and> ([] = [] \<or> startsWith (hd []) ''--'')"
    by code_simp
  have n8: "parseNamedArgs ([''--app'', ''a'', ''--function'', ''f'', ''--started-after'', ''1h''] @ []) (sliceFrom ''--started-before'' 2) = None"
    by code_simp
  have a8: "''--started-before'' = ''--started-before''
      \<and> snd (parseGlobalFlags [''cancel'', ''--app'', ''a'', ''--function'', ''f'', ''--started-after'', ''1h'', ''--started-before'', ''--dev''])
          = ''cancel'' # [''--app'', ''a'', ''--function'', ''f'', ''--started-after'', ''1h''] @ ''--started-before'' # []
      \<and> truthyStr (parseNamedArgs ([''--app'', ''a'', ''--function'', ''f'', ''--started-after'', ''1h''] @ []) ''app'')
      \<and> truthyStr (parseNamedArgs ([''--app'', ''a'', ''--function'', ''f'', ''--started-after'', ''1h''] @ []) ''function'')
      \<and> truthyStr (parseNamedArgs ([''--app'', ''a'', ''--function'', ''f'', ''--started-after'', ''1h''] @ []) ''started-after'')"
    by code_simp
  have p8: "snd (parseGlobalFlags [''cancel'', ''--app'', ''a'', ''--function'', ''f'', ''--started-after'', ''1h'', ''--started-before'', ''--dev''])
          = ''cancel'' # [''--app'', ''a'', ''--function'', ''f'', ''--started-after'', ''1h''] @ ''--started-before'' # []
      \<and> truthyStr (parseNamedArgs ([''--app'', ''a'', ''--function'', ''f'', ''--started-after'', ''1h''] @ []) ''app'')
      \<and> truthyStr (parseNamedArgs ([''--app'', ''a'', ''--function'', ''f'', ''--started-after'', ''1h''] @ []) ''function'')
      \<and> truthyStr (parseNamedArgs ([''--app'', ''a'', ''--function'', ''f'', ''--started-after'', ''1h''] @ []) ''started-after'')"
    by code_simp
  have e8: "parseNamedArgs ([''--app'', ''a'', ''--function'', ''f'', ''--started-after'', ''1h''] @ ''--started-before'' # []) = parseNamedArgs ([''--app'', ''a'', ''--function'', ''f'', ''--started-after'', ''1h''] @ [])"
    by (rule parseNamedArgs_drops_valueless_flag [where tok = "''--started-before''" and pre = "[''--app'', ''a'', ''--function'', ''f'', ''--started-after'', ''1h'']" and post = "[]"
        and args =
            "[''cancel'', ''--app'', ''a'', ''--function'', ''f'', ''--started-after'', ''1h'', ''--started-before'', ''--dev'']" and W = examplePlatform,
            THEN mp, OF h8, THEN conjunct1])
  have z8: "parseNamedArgs ([''--app'', ''a'', ''--function'', ''f'', ''--started-after'', ''1h''] @ ''--started-before'' # []) (sliceFrom ''--started-before'' 2) = None"
    by (rule parseNamedArgs_drops_valueless_flag [where tok = "''--started-before''" and pre = "[''--app'', ''a'', ''--function'', ''f'', ''--started-after'', ''1h'']" and post = "[]"
        and args =
            "[''cancel'', ''--app'', ''a'', ''--function'', ''f'', ''--started-after'', ''1h'', ''--started-before'', ''--dev'']" and W = examplePlatform,
            THEN mp, OF h8, THEN conjunct2, THEN mp, OF n8, THEN conjunct1])
  have f8: "failsWith (main examplePlatform [''cancel'', ''--app'', ''a'', ''--function'', ''f'', ''--started-after'', ''1h'', ''--started-before'', ''--dev''])
        ''--started-before is required''"
    by (rule parseNamedArgs_drops_valueless_flag [where tok = "''--started-before''" and pre = "[''--app'', ''a'', ''--function'', ''f'', ''--started-after'', ''1h'']" and post = "[]"
        and args =
            "[''cancel'', ''--app'', ''a'', ''--function'', ''f'', ''--started-after'', ''1h'', ''--started-before'', ''--dev'']" and W = examplePlatform,
            THEN mp, OF h8, THEN conjunct2, THEN mp, OF n8, THEN conjunct2, THEN conjunct2,
            THEN conjunct2, THEN conjunct2, THEN conjunct2, THEN conjunct2, THEN conjunct2,
            THEN conjunct2, THEN mp, OF a8])
  have w8: "startsWith ''--started-before'' ''--'' \<and> CHR ''='' \<notin> set ''--started-before''
      \<and> ([] = [] \<or> startsWith (hd []) ''--'')
    \<and> parseNamedArgs ([''--app'', ''a'', ''--function'', ''f'', ''--started-after'', ''1h''] @ []) (sliceFrom ''--started-before'' 2) = None
    \<and> snd (parseGlobalFlags [''cancel'', ''--app'', ''a'', ''--function'', ''f'', ''--started-after'', ''1h'', ''--started-before'', ''--dev''])
          = ''cancel'' # [''--app'', ''a'', ''--function'', ''f'', ''--started-after'', ''1h''] @ ''--started-before'' # []
    \<and> truthyStr (parseNamedArgs ([''--app'', ''a'', ''--function'', ''f'', ''--started-after'', ''1h''] @ []) ''app'')
    \<and> truthyStr (parseNamedArgs ([''--app'', ''a'', ''--function'', ''f'', ''--started-after'', ''1h''] @ []) ''function'')
    \<and> truthyStr (parseNamedArgs ([''--app'', ''a'', ''--function'', ''f'', ''--started-after'', ''1h''] @ []) ''started-after'')
    \<and> parseNamedArgs ([''--app'', ''a'', ''--function'', ''f'', ''--started-after'', ''1h''] @ ''--started-before'' # []) = parseNamedArgs ([''--app'', ''a'', ''--function'', ''f'', ''--started-after'', ''1h''] @ [])
    \<and> parseNamedArgs ([''--app'', ''a'', ''--function'', ''f'', ''--started-after'', ''1h''] @ ''--started-before'' # []) (sliceFrom ''--started-before'' 2) = None
    \<and> failsWith (main examplePlatform [''cancel'', ''--app'', ''a'', ''--function'', ''f'', ''--started-after'', ''1h'', ''--started-before'', ''--dev''])
        ''--started-before is required''"
    by (simp only: h8 n8 p8 e8 z8 f8 simp_thms)
  show ?thesis
    by (intro conjI w1 w2 w3 w4 w5 w6 w7 w8)
qed

text \<open>
  The claim as stated fails in its consequence. A dropped \<^verbatim>\<open>--name\<close> is not reported
  as missing when another token gives the name: the program goes on to the data. And a
  dropped \<^verbatim>\<open>--data\<close> is not the flag that is reported when the name is missing too:
  the check of the name comes first.
\<close>

theorem parseNamedArgs_drops_valueless_flag_counterexample:
  "startsWith ''--name'' ''--'' \<and> CHR ''='' \<notin> set ''--name''
   \<and> startsWith (hd [''--data'', ''x'']) ''--''
   \<and> parseNamedArgs ([''--name=x''] @ ''--name'' # [''--data'', ''x'']) ''name'' = Some ''x''
   \<and> snd (parseGlobalFlags [''events'', ''send'', ''--name=x'', ''--name'', ''--data'', ''x'', ''--dev''])
       = ''events'' # ''send'' # [''--name=x''] @ ''--name'' # [''--data'', ''x'']
   \<and> \<not> failsWith
          (main examplePlatform [''events'', ''send'', ''--name=x'', ''--name'', ''--data'', ''x'', ''--dev''])
          ''--name is required''
   \<and> failsWith
        (main examplePlatform [''events'', ''send'', ''--name=x'', ''--name'', ''--data'', ''x'', ''--dev''])
        ''--data must be valid JSON''
   \<and> startsWith ''--data'' ''--'' \<and> CHR ''='' \<notin> set ''--data''
   \<and> snd (parseGlobalFlags [''events'', ''send'', ''--data'', ''--dev''])
       = ''events'' # ''send'' # [] @ ''--data'' # []
   \<and> parseNamedArgs ([] @ ''--data'' # []) ''data'' = None
   \<and> failsWith (main examplePlatform [''events'', ''send'', ''--data'', ''--dev''])
        ''--name is required''
   \<and> \<not> failsWith (main examplePlatform [''events'', ''send'', ''--data'', ''--dev''])
          ''--data or --data-file is required''"
  by code_simp

section \<open>Time windows of a cancellation\<close>

lemma isDigit_not_space: "isDigit c \<Longrightarrow> \<not> isWhiteSpace c"
  by (auto simp: isDigit_def isWhiteSpace_def)

lemma isDigit_not_sign: "isDigit c \<Longrightarrow> c \<noteq> CHR ''-'' \<and> c \<noteq> CHR ''+'' \<and> c \<noteq> CHR ''T''"
  by (auto simp: isDigit_def)

lemma parseInt_digits:
  assumes "ds \<noteq> []" and "list_all isDigit ds"
  shows "parseInt ds = Num (digitsVal ds)"
proof -
  have c: "isDigit (hd ds)" using assms by (cases ds) auto
  have d: "dropWhile isWhiteSpace ds = ds"
    using c assms(1) isDigit_not_space by (cases ds) auto
  have t: "takeWhile isDigit ds = ds"
    using assms(2) by (simp add: list_all_iff)
  have n: "hd ds \<noteq> CHR ''-''" "hd ds \<noteq> CHR ''+''"
    using isDigit_not_sign [OF c] by auto
  show ?thesis
    by (simp add: parseInt_def Let_def d t n assms(1))
qed

lemma matchRelative_append:
  assumes "ds \<noteq> []" and "list_all isDigit ds" and "u \<in> set ''smhd''"
  shows "matchRelative (ds @ [u]) = Some (ds, u)"
  using assms by (simp add: matchRelative_def)

lemma matchRelative_Some:
  assumes "matchRelative s = Some (ds, u)"
  shows "s = ds @ [u] \<and> ds \<noteq> [] \<and> list_all isDigit ds \<and> u \<in> set ''smhd''"
proof -
  from assms have c: "s \<noteq> []" "butlast s \<noteq> []" "list_all isDigit (butlast s)"
      "last s \<in> set ''smhd''" "ds = butlast s" "u = last s"
    by (auto simp: matchRelative_def split: if_splits)
  from c(1) have "s = butlast s @ [last s]" by simp
  with c show ?thesis by metis
qed

lemma unitMs_known: "u \<in> set ''smhd'' \<Longrightarrow> \<exists>ms. unitMs v u = Some ms"
  by (auto simp: unitMs_def)

lemma no_marker_in_relative:
  assumes "list_all isDigit ds" and "u \<in> set ''smhd''"
  shows "\<not> includesStr (ds @ [u]) ''T'' \<and> \<not> includesStr (ds @ [u]) ''-''"
proof -
  have "\<forall>c\<in>set ds. c \<noteq> CHR ''T'' \<and> c \<noteq> CHR ''-''"
    using assms(1) isDigit_not_sign by (auto simp: list_all_iff)
  moreover have "u \<noteq> CHR ''T'' \<and> u \<noteq> CHR ''-''" using assms(2) by auto
  ultimately show ?thesis by (auto simp: includesStr_char)
qed

lemma parseTime_relative:
  assumes "ds \<noteq> []" and "list_all isDigit ds" and "u \<in> set ''smhd''"
  shows "parseTime clock (ds @ [u])
           = toISOString (timeClip (clock - the (unitMs (digitsVal ds) u)))"
proof -
  obtain ms where ms: "unitMs (digitsVal ds) u = Some ms"
    using unitMs_known [OF assms(3)] by blast
  show ?thesis
    using no_marker_in_relative [OF assms(2,3)] matchRelative_append [OF assms]
      parseInt_digits [OF assms(1,2)] ms
    by (simp add: parseTime_def)
qed

lemma parseTime_passthrough:
  "includesStr s ''T'' \<or> includesStr s ''-'' \<Longrightarrow> parseTime clock s = Inr s"
  by (simp add: parseTime_def)

lemma spec_isoLiteral_has_hyphen: "spec_isoLiteral s \<Longrightarrow> includesStr s ''-''"
proof -
  assume a: "spec_isoLiteral s"
  then have l: "length (take 10 s) = 10" and h: "take 10 s ! 4 = CHR ''-''"
    by (auto simp: spec_isoLiteral_def spec_isoDate_def)
  from l have "4 < length s" by simp
  moreover from h have "s ! 4 = CHR ''-''" by simp
  ultimately have "CHR ''-'' \<in> set s" by (metis nth_mem)
  then show ?thesis by (simp add: includesStr_char)
qed

text \<open>
  Claim C1 (amended). For an input of the form digits followed by one of the units
  \<^verbatim>\<open>s\<close>, \<^verbatim>\<open>m\<close>, \<^verbatim>\<open>h\<close>, \<^verbatim>\<open>d\<close>, when the clock value minus the stated duration
  is a valid time value (at most \<open>8.64 * 10 ^ 15\<close> milliseconds from the epoch),
  \<open>parseTime\<close> returns the ISO timestamp of the clock value minus the duration. An
  input that contains \<^verbatim>\<open>T\<close> or \<^verbatim>\<open>-\<close>, and so every ISO-8601 literal of the extended
  format, is returned unchanged.
\<close>

theorem parseTime_resolves_in_range:
  "(ds \<noteq> [] \<and> list_all isDigit ds \<and> u \<in> set ''smhd''
      \<and> \<bar>clock - the (unitMs (digitsVal ds) u)\<bar> \<le> 8640000000000000
    \<longrightarrow> parseTime clock (ds @ [u]) = Inr (isoOfTime (clock - the (unitMs (digitsVal ds) u))))
   \<and> (unitMs v (CHR ''s'') = Some (v * 1000) \<and> unitMs v (CHR ''m'') = Some (v * 60000)
      \<and> unitMs v (CHR ''h'') = Some (v * 3600000) \<and> unitMs v (CHR ''d'') = Some (v * 86400000))
   \<and> (includesStr s ''T'' \<or> includesStr s ''-'' \<longrightarrow> parseTime clock s = Inr s)
   \<and> (spec_isoLiteral s \<longrightarrow> parseTime clock s = Inr s)"
proof (intro conjI impI)
  assume a: "ds \<noteq> [] \<and> list_all isDigit ds \<and> u \<in> set ''smhd''
      \<and> \<bar>clock - the (unitMs (digitsVal ds) u)\<bar> \<le> 8640000000000000"
  then have "parseTime clock (ds @ [u])
           = toISOString (timeClip (clock - the (unitMs (digitsVal ds) u)))"
    by (intro parseTime_relative) auto
  with a show "parseTime clock (ds @ [u]) = Inr (isoOfTime (clock - the (unitMs (digitsVal ds) u)))"
    by (simp add: timeClip_def toISOString_def)
next
  assume "includesStr s ''T'' \<or> includesStr s ''-''"
  then show "parseTime clock s = Inr s" by (rule parseTime_passthrough)
next
  assume "spec_isoLiteral s"
  then have "includesStr s ''-''" by (rule spec_isoLiteral_has_hyphen)
  then show "parseTime clock s = Inr s" by (simp add: parseTime_passthrough)
qed (simp_all add: unitMs_def)

theorem parseTime_resolves_in_range_witness:
  "''1'' \<noteq> [] \<and> list_all isDigit ''1'' \<and> CHR ''h'' \<in> set ''smhd''
   \<and> \<bar>1700000000000 - the (unitMs (digitsVal ''1'') (CHR ''h''))\<bar> \<le> (8640000000000000 :: int)
   \<and> parseTime 1700000000000 ''1h'' = Inr ''2023-11-14T21:13:20.000Z''
   \<and> spec_isoLiteral ''2024-01-01T10:00:00Z''
   \<and> parseTime 1700000000000 ''2024-01-01T10:00:00Z'' = Inr ''2024-01-01T10:00:00Z''"
proof -
  have h: "''1'' \<noteq> [] \<and> list_all isDigit ''1'' \<and> CHR ''h'' \<in> set ''smhd''
     \<and> \<bar>1700000000000 - the (unitMs (digitsVal ''1'') (CHR ''h''))\<bar> \<le> (8640000000000000 :: int)"
    by code_simp
  have v: "isoOfTime (1700000000000 - the (unitMs (digitsVal ''1'') (CHR ''h'')))
             = ''2023-11-14T21:13:20.000Z''"
    by code_simp
  have i: "spec_isoLiteral ''2024-01-01T10:00:00Z''"
    by code_simp
  from parseTime_resolves_in_range
         [of "''1''" "CHR ''h''" 1700000000000 0 "''2024-01-01T10:00:00Z''"] h v i
  show ?thesis by simp
qed

text \<open>
  The claim as stated fails for a long duration: the date is out of range and
  \<^verbatim>\<open>toISOString\<close> throws.
\<close>

theorem parseTime_out_of_range_counterexample:
  "matchRelative ''100000000000d'' = Some (''100000000000'', CHR ''d'')
   \<and> parseTime 1700000000000 ''100000000000d'' = Inl RangeError"
  by code_simp

lemma toISOString_not_Error: "toISOString d \<noteq> Inl (Error m)"
  by (cases d) (simp_all add: toISOString_def)

lemma parseTime_matched_not_Error:
  assumes "matchRelative s = Some (ds, u)"
  shows "parseTime clock s \<noteq> Inl (Error m)"
proof -
  from matchRelative_Some [OF assms]
  have s: "s = ds @ [u]" and c: "ds \<noteq> []" "list_all isDigit ds" "u \<in> set ''smhd''"
    by auto
  show ?thesis
    unfolding s parseTime_relative [OF c] by (rule toISOString_not_Error)
qed

text \<open>
  Claim C4 (amended). \<open>parseTime\<close> fails with its "Invalid time format" error, which
  names the input and the accepted formats, on exactly the inputs that contain neither
  \<^verbatim>\<open>T\<close> nor \<^verbatim>\<open>-\<close> and do not match digits followed by a unit; it raises no other
  error of its own.
\<close>

theorem parseTime_rejects_exactly:
  "((\<exists>m. parseTime clock s = Inl (Error m))
      \<longleftrightarrow> (\<not> includesStr s ''T'' \<and> \<not> includesStr s ''-'' \<and> matchRelative s = None))
   \<and> (\<not> includesStr s ''T'' \<and> \<not> includesStr s ''-'' \<and> matchRelative s = None
      \<longrightarrow> parseTime clock s
            = Inl (Error (''Invalid time format: '' @ s
                          @ ''. Use ISO format or relative time (e.g., 1h, 30m, 2d)'')))"
proof -
  have fwd: "\<not> includesStr s ''T'' \<and> \<not> includesStr s ''-'' \<and> matchRelative s = None"
    if e: "parseTime clock s = Inl (Error m)" for m
  proof (intro conjI)
    show "\<not> includesStr s ''T''" using e by (auto simp: parseTime_def)
    show "\<not> includesStr s ''-''" using e by (auto simp: parseTime_def)
    show "matchRelative s = None"
    proof (cases "matchRelative s")
      case None
      then show ?thesis .
    next
      case (Some p)
      then have "matchRelative s = Some (fst p, snd p)" by simp
      from parseTime_matched_not_Error [OF this] e show ?thesis by blast
    qed
  qed
  have bwd: "parseTime clock s
            = Inl (Error (''Invalid time format: '' @ s
                          @ ''. Use ISO format or relative time (e.g., 1h, 30m, 2d)''))"
    if "\<not> includesStr s ''T'' \<and> \<not> includesStr s ''-'' \<and> matchRelative s = None"
    using that by (simp add: parseTime_def)
  show ?thesis using fwd bwd by blast
qed

theorem parseTime_rejects_exactly_witness:
  "\<not> includesStr ''now'' ''T'' \<and> \<not> includesStr ''now'' ''-'' \<and> matchRelative ''now'' = None
   \<and> parseTime 1700000000000 ''now''
       = Inl (Error ''Invalid time format: now. Use ISO format or relative time (e.g., 1h, 30m, 2d)'')"
proof -
  have h: "\<not> includesStr ''now'' ''T'' \<and> \<not> includesStr ''now'' ''-'' \<and> matchRelative ''now'' = None"
    by code_simp
  from parseTime_rejects_exactly [of 1700000000000 "''now''"] h
  show ?thesis by simp
qed

text \<open>
  The claim as stated fails: an input that is neither an ISO-8601 literal nor a
  relative duration is returned unchanged when it contains \<^verbatim>\<open>T\<close> or \<^verbatim>\<open>-\<close>.
\<close>

theorem parseTime_accepts_non_iso_counterexample:
  "\<not> spec_isoLiteral ''Tomorrow'' \<and> matchRelative ''Tomorrow'' = None
   \<and> parseTime 1700000000000 ''Tomorrow'' = Inr ''Tomorrow''"
  by code_simp

section \<open>The request helper\<close>








section \<open>Lookups by id\<close>

lemma getRun_not_found:
  assumes "apiRequest W (createClient W d p) ''GET'' (''/v1/runs/'' @ runId) JUndefined
             = (es, Inr response)"
    and "\<not> nullish response" and "\<not> truthy (getProp response ''data'')"
  shows "getRun W runId d p = (es, Inl (Error (''Run not found: '' @ runId)))"
  using assms by (simp add: getRun_def bindIO_def throwIO_def)

lemma normalizeEvent_nullish: "nullish raw \<Longrightarrow> normalizeEvent W raw = Inl TypeError"
  by (simp add: normalizeEvent_def)

lemma getEvent_null_payload:
  assumes "apiRequest W (createClient W d p) ''GET'' (''/v1/events/'' @ eventId) JUndefined
             = (es, Inr response)"
    and "\<not> nullish response" and "nullish (getProp response ''data'')"
  shows "getEvent W eventId d p = (es, Inl TypeError)"
  using assms by (simp add: getEvent_def bindIO_def liftE_def normalizeEvent_nullish)

text \<open>
  Claim C2 (the code departs from it). On the example server, which answers a lookup
  of an id ending in \<^verbatim>\<open>-404\<close> with status 200 and the body \<^verbatim>\<open>{"data":null}\<close>,
  \<open>getRun\<close> fails with the explicit error "Run not found: run-404", and \<open>getEvent\<close>
  fails with the engine's \<open>TypeError\<close> of reading a property of \<^verbatim>\<open>null\<close>, not with
  a "not found" error.
\<close>

theorem getEvent_null_payload_is_TypeError:
  "getRun examplePlatform ''run-404'' True None
     = ([HttpFetch \<lparr> reqUrl = ''http://localhost:8288/v1/runs/run-404'', reqMethod = ''GET'',
                     reqHeaders = [(''Content-Type'', ''application/json'')], reqBody = None \<rparr>],
        Inl (Error ''Run not found: run-404''))
   \<and> getEvent examplePlatform ''evt-404'' True None
     = ([HttpFetch \<lparr> reqUrl = ''http://localhost:8288/v1/events/evt-404'', reqMethod = ''GET'',
                     reqHeaders = [(''Content-Type'', ''application/json'')], reqBody = None \<rparr>],
        Inl TypeError)"
  by code_simp

section \<open>Field names of raw responses\<close>









section \<open>Output modes\<close>

lemma logAll_logs: "list_all isLog (fst (logAll ls))"
  by (induction ls) (simp_all add: logAll_def)

lemma logE_logs: "list_all isLog (fst (logE r))"
  by (cases r) (simp_all add: logE_def)

lemma bindIO_logs:
  assumes "list_all isLog (fst m)" and "\<And>a. list_all isLog (fst (f a))"
  shows "list_all isLog (fst (bindIO m f))"
proof (cases m)
  case (Pair es r)
  show ?thesis
  proof (cases r)
    case (Inl e)
    then show ?thesis using assms(1) Pair by (simp add: bindIO_def)
  next
    case (Inr a)
    obtain es' r' where f: "f a = (es', r')" by (cases "f a")
    have "list_all isLog es'" using assms(2) [of a] f by simp
    then show ?thesis using assms(1) Pair Inr f by (simp add: bindIO_def)
  qed
qed

lemma seqIO_logs:
  "(\<And>m. m \<in> set ms \<Longrightarrow> list_all isLog (fst m)) \<Longrightarrow> list_all isLog (fst (seqIO ms))"
proof (induction ms)
  case Nil
  then show ?case by simp
next
  case (Cons m ms)
  have "list_all isLog (fst m)" using Cons.prems by simp
  moreover have "list_all isLog (fst (seqIO ms))" using Cons by simp
  ultimately show ?case by (simp add: bindIO_logs)
qed

lemma forEachIO_logs:
  assumes "\<And>x. list_all isLog (fst (body x))"
  shows "list_all isLog (fst (forEachIO v body))"
proof (cases "forOf v")
  case (Inl e)
  then show ?thesis by (simp add: forEachIO_def)
next
  case (Inr xs)
  have "list_all isLog (fst (seqIO (map body xs)))"
    using assms by (intro seqIO_logs) auto
  then show ?thesis using Inr by (simp add: forEachIO_def)
qed

lemma printEventResult_logs: "list_all isLog (fst (printEventResult result))"
  unfolding printEventResult_def
  by (intro seqIO_logs) (auto simp: logAll_logs forEachIO_logs)

lemma printEventList_logs: "list_all isLog (fst (printEventList W result))"
proof (cases "eventListTotal result")
  case (Inl e)
  then show ?thesis by (simp add: printEventList_def)
next
  case (Inr shownTotal)
  have "list_all isLog (fst (case lengthProp (getProp result ''events'') of
            Inl e \<Rightarrow> ([], Inl e)
          | Inr n \<Rightarrow>
              if n = JNumber (Num 0) then logAll [c_yellow @ ''No events found'' @ c_reset]
              else forEachIO (getProp result ''events'')
                     (\<lambda>event. logE (formatEventLine W event))))"
    by (cases "lengthProp (getProp result ''events'')")
       (simp_all add: logAll_logs forEachIO_logs logE_logs)
  then show ?thesis
    unfolding printEventList_def using Inr
    by (simp only: sum.case) (intro seqIO_logs, auto simp: logAll_logs)
qed

lemma printEventDetails_logs: "list_all isLog (fst (printEventDetails W event))"
  unfolding printEventDetails_def
  by (intro seqIO_logs) (auto simp: logAll_logs logE_logs)

lemma printEventRuns_logs: "list_all isLog (fst (printEventRuns W runs))"
proof (cases "length runs = 0")
  case True
  then show ?thesis by (simp add: printEventRuns_def logAll_logs)
next
  case False
  have "list_all isLog (fst (seqIO
          (logAll [c_bold @ ''Runs ('' @ showInt (int (length runs)) @ '')'' @ c_reset, []]
           # map (\<lambda>run. logE (eventRunLine W run)) runs)))"
    by (intro seqIO_logs) (auto simp: logAll_logs logE_logs)
  then show ?thesis using False by (simp add: printEventRuns_def)
qed

lemma printRunJobs_logs: "list_all isLog (fst (printRunJobs W jobs))"
proof (cases "length jobs = 0")
  case True
  then show ?thesis by (simp add: printRunJobs_def logAll_logs)
next
  case False
  have one: "list_all isLog (fst (seqIO [logE (runJobLine W job), logAll a, logAll b]))"
    for job a b
    by (intro seqIO_logs) (auto simp: logAll_logs logE_logs)
  have "list_all isLog (fst (seqIO
          (logAll [c_bold @ ''Jobs ('' @ showInt (int (length jobs)) @ '')'' @ c_reset, []]
           # map (\<lambda>job.
               seqIO
                 [logE (runJobLine W job),
                  logAll (if truthy (getProp job ''error'')
                          then [''  '' @ c_red @ ''Error: '' @ jsToString (getProp job ''error'')
                                  @ c_reset]
                          else []),
                  logAll (if getProp job ''output'' \<noteq> JUndefined
                          then [''  '' @ c_dim @ ''Output: ''
                                  @ shown (stringify (getProp job ''output'')) @ c_reset]
                          else [])]) jobs)))"
    by (intro seqIO_logs) (auto simp del: seqIO.simps simp: logAll_logs one)
  then show ?thesis using False by (simp add: printRunJobs_def)
qed

lemma printRunStatus_logs: "list_all isLog (fst (printRunStatus W run))"
  by (cases "formatRunStatus (getProp run ''status'')")
     (simp_all add: printRunStatus_def logAll_logs)

lemma printPrettyTail_logs: "list_all isLog (fst (printPrettyTail W result))"
  by (cases "isRunJobArray result")
     (simp_all add: printPrettyTail_def printRunStatus_logs printRunJobs_logs
        printCancelResult_def logAll_logs)

lemma printPretty_logs: "list_all isLog (fst (printPretty W result))"
  by (cases "isEventRunArray result")
     (simp_all add: printPretty_def printEventResult_logs printEventList_logs
        printEventDetails_logs printEventRuns_logs printPrettyTail_logs)

text \<open>
  Examples: numbers as JavaScript writes them, and a run without jobs written to a file.
  When the write fails, the line "Output written to" is logged all the same, the
  runtime reports the error, and the exit code is 1.
\<close>

lemma showNum_examples:
  "showNum (Num 404) = ''404'' \<and> showNum (Dec 15 (- 1)) = ''1.5''
   \<and> showNum (Dec 1 (- 7)) = ''1e-7'' \<and> showNum (Num (10 ^ 21)) = ''1e+21''
   \<and> showNum (Num (2 ^ 53 + 1)) = ''9007199254740992''
   \<and> shown (stringify (JArr [JNumber (Dec 25 (- 1)), JNumber PosInf, JNumber NaN]))
       = ''[2.5,null,null]''"
  by code_simp

lemma written_file_examples:
  "main nullDataPlatform [''runs'', ''get'', ''r1'', ''--dev'', ''--output'', ''out.json'']
     = ([HttpFetch \<lparr> reqUrl = ''http://localhost:8288/v1/runs/r1/jobs'', reqMethod = ''GET'',
                     reqHeaders = [(''Content-Type'', ''application/json'')], reqBody = None \<rparr>,
         WriteFile ''out.json'' ''[]'',
         ConsoleLog ''Output written to out.json''], 0)
   \<and> main nullDataPlatform
         [''runs'', ''get'', ''r1'', ''--dev'', ''--output'', ''/missing/out.json'']
     = ([HttpFetch \<lparr> reqUrl = ''http://localhost:8288/v1/runs/r1/jobs'', reqMethod = ''GET'',
                     reqHeaders = [(''Content-Type'', ''application/json'')], reqBody = None \<rparr>,
         WriteFile ''/missing/out.json'' ''[]'',
         ConsoleLog ''Output written to /missing/out.json'',
         ConsoleError ''engine error''], 1)"
  by code_simp

text \<open>
  Claim C8 (amended). For every result and every combination of the two options,
  \<open>printOutput\<close> does exactly one of three things. With a non-empty file path it
  writes the JSON serialization to the file and logs the one line "Output written to
  <path>", whether or not the color flag is set. Without a path and with the color flag
  it does what \<open>printPretty\<close> does, which only logs lines to stdout. With neither it
  logs the same serialization, which is indented by two spaces.
\<close>

theorem printOutput_modes:
  "(truthyStr outputPath
    \<longrightarrow> printOutput W result prettyFlag outputPath
          = ([WriteFile (the outputPath) (shown (stringify2 result)),
              ConsoleLog (''Output written to '' @ the outputPath)], Inr ()))
   \<and> (\<not> truthyStr outputPath \<and> prettyFlag
    \<longrightarrow> printOutput W result prettyFlag outputPath = printPretty W result)
   \<and> (\<not> truthyStr outputPath \<and> \<not> prettyFlag
    \<longrightarrow> printOutput W result prettyFlag outputPath
          = ([ConsoleLog (shown (stringify2 result))], Inr ()))
   \<and> list_all isLog (fst (printPretty W result))"
  by (simp add: printOutput_def logAll_def printPretty_logs)

theorem printOutput_modes_witness:
  "truthyStr (Some ''out.json'')
   \<and> printOutput examplePlatform cancelledFive True (Some ''out.json'')
       = ([WriteFile ''out.json''
             (''{'' @ [CHR 0x0A] @ ''  '' @ [CHR 0x22] @ ''cancelled'' @ [CHR 0x22] @ '': 5''
              @ [CHR 0x0A] @ ''}''),
           ConsoleLog ''Output written to out.json''], Inr ())
   \<and> \<not> truthyStr None
   \<and> printOutput examplePlatform cancelledFive True None
       = ([ConsoleLog (c_green @ checkMark @ c_reset @ '' Cancellation complete''),
           ConsoleLog (''  '' @ c_dim @ ''Runs cancelled:'' @ c_reset @ '' 5'')], Inr ())
   \<and> printOutput examplePlatform cancelledFive False None
       = ([ConsoleLog (''{'' @ [CHR 0x0A] @ ''  '' @ [CHR 0x22] @ ''cancelled'' @ [CHR 0x22]
                       @ '': 5'' @ [CHR 0x0A] @ ''}'')], Inr ())
   \<and> printOutput examplePlatform (JArr [versionedRun]) True None
       = printPretty examplePlatform (JArr [versionedRun])
   \<and> snd (printPretty examplePlatform (JArr [versionedRun])) = Inr ()
   \<and> length (fst (printPretty examplePlatform (JArr [versionedRun]))) = 3
   \<and> list_all isLog (fst (printPretty examplePlatform (JArr [versionedRun])))"
proof -
  have t1: "truthyStr (Some ''out.json'')"
    by (simp add: truthyStr_def)
  have t2: "\<not> truthyStr None"
    by (simp add: truthyStr_def)
  have s: "shown (stringify2 cancelledFive)
             = ''{'' @ [CHR 0x0A] @ ''  '' @ [CHR 0x22] @ ''cancelled'' @ [CHR 0x22] @ '': 5''
               @ [CHR 0x0A] @ ''}''"
    by code_simp
  have o: "the (Some ''out.json'') = ''out.json''"
    by simp
  have p: "printPretty examplePlatform cancelledFive
       = ([ConsoleLog (c_green @ checkMark @ c_reset @ '' Cancellation complete''),
           ConsoleLog (''  '' @ c_dim @ ''Runs cancelled:'' @ c_reset @ '' 5'')], Inr ())"
    by code_simp
  have r: "snd (printPretty examplePlatform (JArr [versionedRun])) = Inr ()"
    by code_simp
  have n: "length (fst (printPretty examplePlatform (JArr [versionedRun]))) = 3"
    by code_simp
  have a: "printOutput examplePlatform cancelledFive True (Some ''out.json'')
       = ([WriteFile (the (Some ''out.json'')) (shown (stringify2 cancelledFive)),
           ConsoleLog (''Output written to '' @ the (Some ''out.json''))], Inr ())"
    by (rule printOutput_modes [of "Some ''out.json''" examplePlatform cancelledFive True,
          THEN conjunct1, THEN mp, OF t1])
  have b: "printOutput examplePlatform cancelledFive True None
       = printPretty examplePlatform cancelledFive"
    by (rule printOutput_modes [of None examplePlatform cancelledFive True,
          THEN conjunct2, THEN conjunct1, THEN mp]) (simp add: t2)
  have c: "printOutput examplePlatform cancelledFive False None
       = ([ConsoleLog (shown (stringify2 cancelledFive))], Inr ())"
    by (rule printOutput_modes [of None examplePlatform cancelledFive False,
          THEN conjunct2, THEN conjunct2, THEN conjunct1, THEN mp]) (simp add: t2)
  have d: "printOutput examplePlatform (JArr [versionedRun]) True None
       = printPretty examplePlatform (JArr [versionedRun])"
    by (rule printOutput_modes [of None examplePlatform "JArr [versionedRun]" True,
          THEN conjunct2, THEN conjunct1, THEN mp]) (simp add: t2)
  have e: "list_all isLog (fst (printPretty examplePlatform (JArr [versionedRun])))"
    by (rule printOutput_modes [of None examplePlatform "JArr [versionedRun]" True,
          THEN conjunct2, THEN conjunct2, THEN conjunct2])
  have a': "printOutput examplePlatform cancelledFive True (Some ''out.json'')
       = ([WriteFile ''out.json''
             (''{'' @ [CHR 0x0A] @ ''  '' @ [CHR 0x22] @ ''cancelled'' @ [CHR 0x22] @ '': 5''
              @ [CHR 0x0A] @ ''}''),
           ConsoleLog ''Output written to out.json''], Inr ())"
    using a by (simp only: s o) simp
  have b': "printOutput examplePlatform cancelledFive True None
       = ([ConsoleLog (c_green @ checkMark @ c_reset @ '' Cancellation complete''),
           ConsoleLog (''  '' @ c_dim @ ''Runs cancelled:'' @ c_reset @ '' 5'')], Inr ())"
    using b by (simp only: p)
  have c': "printOutput examplePlatform cancelledFive False None
       = ([ConsoleLog (''{'' @ [CHR 0x0A] @ ''  '' @ [CHR 0x22] @ ''cancelled'' @ [CHR 0x22]
                       @ '': 5'' @ [CHR 0x0A] @ ''}'')], Inr ())"
    using c by (simp only: s)
  show ?thesis
    by (intro conjI t1 t2 a' b' c' d r n e)
qed

text \<open>
  The claim as stated fails in its third mode: what is printed is not the compact
  serialization \<^verbatim>\<open>{"cancelled":5}\<close> but the indented one, on three lines.
\<close>

theorem printOutput_not_compact_counterexample:
  "shown (stringify cancelledFive) = ''{'' @ [CHR 0x22] @ ''cancelled'' @ [CHR 0x22] @ '':5}''
   \<and> printOutput examplePlatform cancelledFive False None
       = ([ConsoleLog (''{'' @ [CHR 0x0A] @ ''  '' @ [CHR 0x22] @ ''cancelled'' @ [CHR 0x22]
                       @ '': 5'' @ [CHR 0x0A] @ ''}'')], Inr ())
   \<and> printOutput examplePlatform cancelledFive False None
       \<noteq> ([ConsoleLog (shown (stringify cancelledFive))], Inr ())"
  by code_simp

section \<open>Empty arrays\<close>

text \<open>
  Claim C9. The guard of run arrays accepts the empty array and the guard of job
  arrays rejects it, so \<open>printPretty\<close> formats every empty array as a list of event
  runs: it logs the one line "No runs found for this event" (in yellow), which is not the
  line that \<open>printRunJobs\<close> has for an empty job list. This is what \<^verbatim>\<open>runs get\<close> prints
  with the color flag for a run without jobs, whose normalized job list is the empty
  array.
\<close>

theorem empty_array_is_event_runs:
  "isEventRunArray (JArr []) = Inr True
   \<and> isRunJobArray (JArr []) = Inr False
   \<and> printPretty W (JArr [])
       = ([ConsoleLog (c_yellow @ ''No runs found for this event'' @ c_reset)], Inr ())
   \<and> printRunJobs W [] = ([ConsoleLog (c_yellow @ ''No jobs found for this run'' @ c_reset)], Inr ())
   \<and> printPretty W (JArr []) \<noteq> printRunJobs W []
   \<and> normalizeJobs (JArr []) = Inr (JArr [])
   \<and> printOutput W (JArr []) True None
       = ([ConsoleLog (c_yellow @ ''No runs found for this event'' @ c_reset)], Inr ())"
  by (simp add: isEventRunArray_def isRunJobArray_def printPretty_def isEventResult_def
      isEventListResult_def isEventDetails_def hasKey_def elems_def logAll_def
      printEventRuns_def printRunJobs_def normalizeJobs_def arrayMap_def printOutput_def
      truthyStr_def)

section \<open>The running marker of a duration\<close>


















end
